theory Spec2Isabelle
  imports Complex_Main
begin

text \<open>
  A shallow embedding of the core of a retrieval-augmented assistant written in Python: the
  text analysis, the agent memory, the keyword policy that chooses tools, the retriever, the
  tool manager, the chunker configuration, the knowledge-base tool with the document
  pipeline under it, and the agent's request loop over the retrieval chain and the LLM.

  Every Python function is a HOL function of the same name.  A function that can raise
  returns a sum with the exception on the left.  Objects that the program mutates (the
  memory, the tool manager, the conversations, the document manager) are passed in and
  returned.  What lies outside the program (the vector index, the LLM service, the file
  system, the clock, the state of the tools) is a world of an arbitrary type \<open>'w\<close>: a call
  of a collaborator takes the world and returns it changed.
\<close>

section \<open>Python values\<close>

text \<open>
  A Python \<^verbatim>\<open>str\<close> is an Isabelle \<^typ>\<open>string\<close>; a character stands for the code point of
  the same number, so the model covers the code points 0 to 255.  The predicates below are
  Python's \<^verbatim>\<open>str.isspace\<close>, \<^verbatim>\<open>str.strip\<close>, \<^verbatim>\<open>str.lower\<close>, \<^verbatim>\<open>str.split\<close> and the
  operator \<^verbatim>\<open>in\<close> on that range.
\<close>

definition py_isspace :: "char \<Rightarrow> bool" where
  "py_isspace c = (of_char c \<in> {9, 10, 11, 12, 13, 28, 29, 30, 31, 32, 133, 160 :: nat})"

definition py_strip :: "string \<Rightarrow> string" where
  "py_strip s = rev (dropWhile py_isspace (rev (dropWhile py_isspace s)))"

definition py_lower_char :: "char \<Rightarrow> char" where
  "py_lower_char c =
     (let n = (of_char c :: nat)
      in if (65 \<le> n \<and> n \<le> 90) \<or> (192 \<le> n \<and> n \<le> 222 \<and> n \<noteq> 215)
         then char_of (n + 32) else c)"

definition py_lower :: "string \<Rightarrow> string" where
  "py_lower s = map py_lower_char s"

text \<open>\<^verbatim>\<open>text.split()\<close>: the maximal runs of non-whitespace characters.\<close>

fun split_ws :: "string \<Rightarrow> string \<Rightarrow> string list" where
  "split_ws cur [] = (if cur = [] then [] else [cur])"
| "split_ws cur (c # cs) =
     (if py_isspace c
      then (if cur = [] then split_ws [] cs else cur # split_ws [] cs)
      else split_ws (cur @ [c]) cs)"

definition py_split :: "string \<Rightarrow> string list" where
  "py_split s = split_ws [] s"

text \<open>\<^verbatim>\<open>text.split(sep)\<close> for a one-character separator: empty pieces are kept.\<close>

fun split_sep :: "char \<Rightarrow> string \<Rightarrow> string \<Rightarrow> string list" where
  "split_sep sep cur [] = [cur]"
| "split_sep sep cur (c # cs) =
     (if c = sep then cur # split_sep sep [] cs else split_sep sep (cur @ [c]) cs)"

definition py_split_on :: "char \<Rightarrow> string \<Rightarrow> string list" where
  "py_split_on sep s = split_sep sep [] s"

text \<open>\<^verbatim>\<open>s.startswith(k)\<close> and \<^verbatim>\<open>k in s\<close>.\<close>

fun py_startswith :: "string \<Rightarrow> string \<Rightarrow> bool" where
  "py_startswith s [] = True"
| "py_startswith [] (k # ks) = False"
| "py_startswith (c # cs) (k # ks) = (c = k \<and> py_startswith cs ks)"

fun py_in :: "string \<Rightarrow> string \<Rightarrow> bool" where
  "py_in k [] = (k = [])"
| "py_in k (c # cs) = (py_startswith (c # cs) k \<or> py_in k cs)"

text \<open>\<^verbatim>\<open>str(n)\<close> for a natural number.\<close>

function str_of_nat :: "nat \<Rightarrow> string" where
  "str_of_nat n =
     (if n < 10 then [char_of (48 + n)]
      else str_of_nat (n div 10) @ [char_of (48 + n mod 10)])"
  by pat_completeness auto
termination
  by (relation "measure id") auto

declare str_of_nat.simps [simp del]

text \<open>
  The values that travel in \<^verbatim>\<open>Dict[str, Any]\<close> fields (tool parameters, result payloads,
  metadata, memory items).  A dict is an association list in insertion order with distinct
  keys.
\<close>

datatype pyval =
    VNone
  | VBool bool
  | VInt int
  | VFloat real
  | VStr string
  | VList "pyval list"
  | VDict "(string \<times> pyval) list"

type_synonym pydict = "(string \<times> pyval) list"

text \<open>\<^verbatim>\<open>d[k] = v\<close>: an existing key keeps its position, a new key goes last.\<close>

fun dict_set :: "pydict \<Rightarrow> string \<Rightarrow> pyval \<Rightarrow> pydict" where
  "dict_set [] k v = [(k, v)]"
| "dict_set ((k', v') # d) k v = (if k' = k then (k, v) # d else (k', v') # dict_set d k v)"

text \<open>\<^verbatim>\<open>d.get(k)\<close>.\<close>

definition dict_get :: "pydict \<Rightarrow> string \<Rightarrow> pyval option" where
  "dict_get d k = map_of d k"

text \<open>
  A raised exception whose class derives from \<^verbatim>\<open>Exception\<close>: its class name and \<^verbatim>\<open>str(e)\<close>.
  A function that can raise returns \<open>py_exn + 'a\<close>, with \<open>Inl\<close> for the exception.
\<close>

datatype py_exn = PyExn (exn_class: string) (exn_str: string)

text \<open>
  What a call can raise.  \<open>Exc\<close> is an exception whose class derives from \<^verbatim>\<open>Exception\<close>: a
  handler \<^verbatim>\<open>except Exception\<close> catches it.  \<open>BaseExc\<close> is an exception of a class outside
  \<^verbatim>\<open>Exception\<close> (\<^verbatim>\<open>asyncio.CancelledError\<close>, \<^verbatim>\<open>KeyboardInterrupt\<close>, \<^verbatim>\<open>SystemExit\<close>,
  \<^verbatim>\<open>GeneratorExit\<close>), with its class name and its string: \<^verbatim>\<open>except Exception\<close> lets it
  through.  A function that such an exception can leave returns \<open>py_raise + 'a\<close>.
\<close>

datatype py_raise = Exc py_exn | BaseExc string string

text \<open>
  A reading of the clock (\<^verbatim>\<open>datetime.now()\<close>): the seconds it stands for and its
  \<^verbatim>\<open>isoformat()\<close> text.
\<close>

record datetime =
  epoch_seconds :: real
  isoformat :: string

definition total_seconds :: "datetime \<Rightarrow> datetime \<Rightarrow> real" where
  "total_seconds later earlier = epoch_seconds later - epoch_seconds earlier"

section \<open>Text analysis (agent\_core.py, TextAnalysisTool)\<close>

text \<open>Python's true division raises \<^verbatim>\<open>ZeroDivisionError\<close> on a zero divisor.\<close>

definition py_truediv :: "real \<Rightarrow> real \<Rightarrow> py_exn + real" where
  "py_truediv a b =
     (if b = 0 then Inl (PyExn ''ZeroDivisionError'' ''division by zero'') else Inr (a / b))"

definition average_word_length :: "string list \<Rightarrow> py_exn + pyval" where
  "average_word_length words =
     (if words \<noteq> []
      then (case py_truediv (real (sum_list (map length words))) (real (length words)) of
              Inl e \<Rightarrow> Inl e
            | Inr x \<Rightarrow> Inr (VFloat x))
      else Inr (VInt 0))"

definition basic_analysis :: "string \<Rightarrow> py_exn + pydict" where
  "basic_analysis text =
     (let lines = py_split_on (CHR 0x0A) text;
          words = py_split text
      in case average_word_length words of
           Inl e \<Rightarrow> Inl e
         | Inr avg \<Rightarrow>
             Inr [(''character_count'', VInt (int (length text))),
                  (''word_count'', VInt (int (length words))),
                  (''line_count'', VInt (int (length lines))),
                  (''paragraph_count'',
                     VInt (int (length (filter (\<lambda>line. py_strip line \<noteq> []) lines)))),
                  (''average_word_length'', avg)])"

section \<open>Agent memory (agent\_core.py, AgentMemory)\<close>

record AgentMemory =
  memory_id :: string
  short_term_memory :: "pydict list"
  long_term_memory :: pydict
  working_memory :: pydict
  created_at :: datetime
  updated_at :: datetime

text \<open>
  \<^verbatim>\<open>add_to_short_term\<close> reads the clock twice: \<open>t1\<close> stamps the item, \<open>t2\<close> becomes
  \<^verbatim>\<open>updated_at\<close>.  \<^verbatim>\<open>xs[-50:]\<close> on a list longer than 50 is its last 50 elements.
\<close>

definition stamp_item :: "pydict \<Rightarrow> datetime \<Rightarrow> pydict" where
  "stamp_item memory_item t1 = dict_set memory_item ''timestamp'' (VStr (isoformat t1))"

definition add_to_short_term :: "AgentMemory \<Rightarrow> pydict \<Rightarrow> datetime \<Rightarrow> datetime \<Rightarrow> AgentMemory" where
  "add_to_short_term mem memory_item t1 t2 =
     (let appended = short_term_memory mem @ [stamp_item memory_item t1];
          mem1 = mem\<lparr>short_term_memory := appended, updated_at := t2\<rparr>
      in if length appended > 50
         then mem1\<lparr>short_term_memory := drop (length appended - 50) appended\<rparr>
         else mem1)"

text \<open>A sequence of appends, each with its two clock readings.\<close>

fun add_all_to_short_term :: "AgentMemory \<Rightarrow> (pydict \<times> datetime \<times> datetime) list \<Rightarrow> AgentMemory" where
  "add_all_to_short_term mem [] = mem"
| "add_all_to_short_term mem ((memory_item, t1, t2) # rest) =
     add_all_to_short_term (add_to_short_term mem memory_item t1 t2) rest"

section \<open>Tool-use policy (agent\_core.py, Agent.\_decide\_tool\_usage)\<close>

definition keywords_for_search :: "string list" where
  "keywords_for_search =
     [''search'', ''find'', ''lookup'', ''document'', ''information'',
      ''what'', ''who'', ''when'', ''where'', ''how'']"

definition keywords_for_analysis :: "string list" where
  "keywords_for_analysis =
     [''analyze'', ''analysis'', ''statistics'', ''count'', ''length'', ''structure'']"

definition keywords_for_github :: "string list" where
  "keywords_for_github =
     [''github'', ''code'', ''repository'', ''repo'', ''function'', ''class'',
      ''implementation'', ''example'', ''library'', ''package'']"

definition keywords_for_code_search :: "string list" where
  "keywords_for_code_search =
     [''def'', ''function'', ''class'', ''import'', ''async'', ''await'',
      ''python'', ''javascript'', ''java'', ''c++'']"

text \<open>\<^verbatim>\<open>any(keyword in s for keyword in keywords)\<close>.\<close>

definition any_keyword_in :: "string list \<Rightarrow> string \<Rightarrow> bool" where
  "any_keyword_in keywords s = list_ex (\<lambda>keyword. py_in keyword s) keywords"

text \<open>The language table, in the insertion order of the source dict.\<close>

definition language_keywords :: "(string \<times> string list) list" where
  "language_keywords =
     [(''python'', [''python'', ''def'', ''import'', ''class'', ''pip'', ''django'', ''flask'', ''pandas'']),
      (''javascript'', [''javascript'', ''js'', ''function'', ''var'', ''let'', ''const'', ''node'', ''react'', ''vue'']),
      (''java'', [''java'', ''public'', ''private'', ''class'', ''import'', ''spring'', ''maven'']),
      (''typescript'', [''typescript'', ''ts'', ''interface'', ''type'']),
      (''c++'', [''c++'', ''cpp'', ''include'', ''namespace'', ''std'']),
      (''go'', [''golang'', ''go'', ''func'', ''package'']),
      (''rust'', [''rust'', ''fn'', ''cargo'', ''crate'']),
      (''php'', [''php'', ''function'', ''class'', ''composer'']),
      (''ruby'', [''ruby'', ''def'', ''class'', ''gem'']),
      (''swift'', [''swift'', ''func'', ''class'', ''var'', ''let''])]"

fun detect_in :: "(string \<times> string list) list \<Rightarrow> string \<Rightarrow> string option" where
  "detect_in [] query_lower = None"
| "detect_in ((language, keywords) # rest) query_lower =
     (if any_keyword_in keywords query_lower then Some language else detect_in rest query_lower)"

definition detect_programming_language :: "string \<Rightarrow> string option" where
  "detect_programming_language query = detect_in language_keywords (py_lower query)"

record tool_decision =
  use_tools :: bool
  recommended_tools :: "(string \<times> pydict) list"
  reasoning :: string

definition github_recommendation :: "string \<Rightarrow> string \<times> pydict" where
  "github_recommendation user_input =
     (''github_search_with_content'',
      [(''query'', VStr user_input),
       (''search_type'', VStr ''code''),
       (''language'', (case detect_programming_language user_input of
                         None \<Rightarrow> VNone | Some language \<Rightarrow> VStr language)),
       (''fetch_content'', VBool True),
       (''max_content_files'', VInt 3)])"

definition document_search_recommendation :: "string \<Rightarrow> string \<times> pydict" where
  "document_search_recommendation user_input =
     (''document_search'', [(''query'', VStr user_input), (''k'', VInt 5)])"

definition text_analysis_recommendation :: "string \<Rightarrow> string \<times> pydict" where
  "text_analysis_recommendation user_input =
     (''text_analysis'', [(''text'', VStr user_input), (''analysis_type'', VStr ''basic'')])"

definition decide_tool_usage :: "string \<Rightarrow> tool_decision" where
  "decide_tool_usage user_input =
     (let user_lower = py_lower user_input;
          first =
            (if any_keyword_in keywords_for_github user_lower
                \<or> any_keyword_in keywords_for_code_search user_lower
             then [github_recommendation user_input]
             else if any_keyword_in keywords_for_search user_lower
             then [document_search_recommendation user_input]
             else []);
          recommended =
            (if any_keyword_in keywords_for_analysis user_lower
             then first @ [text_analysis_recommendation user_input]
             else first)
      in \<lparr>use_tools = length recommended > 0,
          recommended_tools = recommended,
          reasoning = ''Found '' @ str_of_nat (length recommended)
                        @ '' relevant tools for this request''\<rparr>)"

section \<open>Retrieval (vector\_store.py)\<close>

record DocumentChunk =
  chunk_id :: string
  content :: string
  chunk_index :: int
  source_document :: string
  chunk_metadata :: pydict

record SearchResult =
  chunk :: DocumentChunk
  score :: real
  rank :: int
  search_metadata :: pydict

text \<open>
  The validator of \<^verbatim>\<open>SearchResult.score\<close>: construction raises unless the score lies in
  the unit interval, so every \<^verbatim>\<open>SearchResult\<close> that exists satisfies \<open>validate_score\<close>.
\<close>

definition validate_score :: "real \<Rightarrow> bool" where
  "validate_score v = (0 \<le> v \<and> v \<le> 1)"

definition SearchResult_init ::
    "DocumentChunk \<Rightarrow> real \<Rightarrow> int \<Rightarrow> pydict \<Rightarrow> py_exn + SearchResult" where
  "SearchResult_init c s r m =
     (if \<not> validate_score s
      then Inl (PyExn ''ValidationError'' ''Score must be between 0.0 and 1.0'')
      else Inr \<lparr>chunk = c, score = s, rank = r, search_metadata = m\<rparr>)"

text \<open>
  The abstract class \<^verbatim>\<open>VectorStore\<close>.  The index lives outside the program: \<open>'w\<close> is the
  state of the outside world, which every call of a collaborator may read and change.  The
  search runs under no handler of the retriever, so its exceptions are kept apart by kind.
\<close>

record 'w VectorStore =
  similarity_search :: "string \<Rightarrow> int \<Rightarrow> 'w \<Rightarrow> (py_raise + SearchResult list) \<times> 'w"
  add_documents :: "DocumentChunk list \<Rightarrow> 'w \<Rightarrow> (py_exn + bool) \<times> 'w"

text \<open>\<^verbatim>\<open>not query or not query.strip()\<close>.\<close>

definition blank :: "string \<Rightarrow> bool" where
  "blank s = (s = [] \<or> py_strip s = [])"

text \<open>
  A Python \<^verbatim>\<open>float\<close> as its comparisons read it: a number, an infinity or NaN.  \<open>float_less\<close>
  is \<^verbatim>\<open><\<close> and \<open>float_le\<close> is \<^verbatim>\<open><=\<close>; every comparison with NaN is false.
\<close>

datatype py_float = Float real | PosInf | NegInf | NaN

fun float_less :: "py_float \<Rightarrow> py_float \<Rightarrow> bool" where
  "float_less NaN b = False"
| "float_less a NaN = False"
| "float_less (Float a) (Float b) = (a < b)"
| "float_less (Float a) PosInf = True"
| "float_less (Float a) NegInf = False"
| "float_less PosInf b = False"
| "float_less NegInf NegInf = False"
| "float_less NegInf b = True"

fun float_le :: "py_float \<Rightarrow> py_float \<Rightarrow> bool" where
  "float_le NaN b = False"
| "float_le a NaN = False"
| "float_le (Float a) (Float b) = (a \<le> b)"
| "float_le (Float a) PosInf = True"
| "float_le (Float a) NegInf = False"
| "float_le PosInf PosInf = True"
| "float_le PosInf b = False"
| "float_le NegInf b = True"

text \<open>
  \<^verbatim>\<open>DocumentRetriever.retrieve_documents\<close>.  The threshold is a \<^verbatim>\<open>float\<close>; the filter runs when
  \<^verbatim>\<open>min_score > 0.0\<close> and keeps the results with \<^verbatim>\<open>result.score >= min_score\<close>.
\<close>

definition retrieve_documents ::
    "'w VectorStore \<Rightarrow> string \<Rightarrow> int \<Rightarrow> py_float \<Rightarrow> 'w
       \<Rightarrow> (py_raise + SearchResult list) \<times> 'w" where
  "retrieve_documents vector_store query k min_score w =
     (if blank query then (Inr [], w)
      else case similarity_search vector_store query k w of
             (Inl e, w') \<Rightarrow> (Inl e, w')
           | (Inr results, w') \<Rightarrow>
               (Inr (if float_less (Float 0) min_score
                     then filter (\<lambda>result. float_le min_score (Float (score result))) results
                     else results), w'))"
section \<open>Tools and the tool manager (agent\_core.py)\<close>

datatype ToolType = SEARCH | ANALYSIS | GENERATION | UTILITY | EXTERNAL | KNOWLEDGE

text \<open>
  \<^verbatim>\<open>ToolResult\<close>: \<^verbatim>\<open>result\<close> defaults to \<^verbatim>\<open>None\<close>, \<^verbatim>\<open>error\<close> to \<^verbatim>\<open>None\<close> and \<^verbatim>\<open>metadata\<close> to
  the empty dict.
\<close>

record ToolResult =
  tool_name :: string
  success :: bool
  result :: pyval
  error :: "string option"
  execution_time :: real
  metadata :: pydict

text \<open>
  A tool: its attributes and its \<^verbatim>\<open>execute(**kwargs)\<close>, which acts on the outside world and
  either raises or returns a \<^verbatim>\<open>ToolResult\<close>.  The \<^verbatim>\<open>TypeError\<close> that the call raises when the
  keyword arguments do not fit the signature of \<^verbatim>\<open>execute\<close> is one of its exceptions, of a
  class under \<^verbatim>\<open>Exception\<close>.  An \<^verbatim>\<open>await\<close> that is cancelled raises \<^verbatim>\<open>asyncio.CancelledError\<close>,
  of a class outside \<^verbatim>\<open>Exception\<close>.
\<close>

record 'w Tool =
  name :: string
  description :: string
  tool_type :: ToolType
  enabled :: bool
  execute :: "pydict \<Rightarrow> 'w \<Rightarrow> (py_raise + ToolResult) \<times> 'w"

text \<open>An entry of the execution history; \<^verbatim>\<open>result.model_dump()\<close> is the result's fields.\<close>

record history_entry =
  entry_tool_name :: string
  entry_parameters :: pydict
  entry_result :: ToolResult
  entry_timestamp :: string

record 'w ToolManager =
  tools :: "(string \<times> 'w Tool) list"
  execution_history :: "history_entry list"

definition get_tool :: "'w ToolManager \<Rightarrow> string \<Rightarrow> 'w Tool option" where
  "get_tool tm name' = map_of (tools tm) name'"

text \<open>The apostrophe of the f-strings.\<close>

definition apostrophe :: string where
  "apostrophe = [CHR 0x27]"

definition failed_result :: "string \<Rightarrow> string \<Rightarrow> ToolResult" where
  "failed_result name' message =
     \<lparr>tool_name = name', success = False, result = VNone, error = Some message,
      execution_time = 0, metadata = []\<rparr>"

definition record_execution ::
    "'w ToolManager \<Rightarrow> string \<Rightarrow> pydict \<Rightarrow> ToolResult \<Rightarrow> datetime \<Rightarrow> 'w ToolManager" where
  "record_execution tm name' kwargs res now =
     tm\<lparr>execution_history := execution_history tm @
          [\<lparr>entry_tool_name = name', entry_parameters = kwargs, entry_result = res,
            entry_timestamp = isoformat now\<rparr>]\<rparr>"

text \<open>
  The signature is \<^verbatim>\<open>execute_tool(self, tool_name, **kwargs)\<close>, and a caller writes
  \<^verbatim>\<open>manager.execute_tool(tool_name, **kwargs)\<close>.  The two parameters are bound by position; a
  keyword with the name of one of them makes the call itself raise \<^verbatim>\<open>TypeError\<close>, before the
  body runs.  \<open>bound_twice\<close> is the first such keyword in the order of the keyword arguments
  and \<open>multiple_values\<close> the exception for it (the text as Python 3.10 and later print it).
\<close>

definition bound_twice :: "pydict \<Rightarrow> string option" where
  "bound_twice kwargs = find (\<lambda>k. k = ''self'' \<or> k = ''tool_name'') (map fst kwargs)"

definition multiple_values :: "string \<Rightarrow> py_exn" where
  "multiple_values k =
     PyExn ''TypeError''
       (''ToolManager.execute_tool() got multiple values for argument ''
        @ apostrophe @ k @ apostrophe)"

text \<open>
  \<^verbatim>\<open>ToolManager.execute_tool\<close>, as a caller sees the call.  \<open>clock\<close> is \<^verbatim>\<open>datetime.now\<close>, a
  reading of the world.  The function returns the result or the exception that reaches the
  caller, the manager with its history and the world after the call.  The handler is
  \<^verbatim>\<open>except Exception\<close>: an exception of the tool outside \<^verbatim>\<open>Exception\<close> leaves the function, and
  nothing is recorded for it.
\<close>

definition execute_tool ::
    "('w \<Rightarrow> datetime \<times> 'w) \<Rightarrow> 'w ToolManager \<Rightarrow> string \<Rightarrow> pydict \<Rightarrow> 'w
       \<Rightarrow> (py_raise + ToolResult) \<times> 'w ToolManager \<times> 'w" where
  "execute_tool clock tm name' kwargs w =
     (case bound_twice kwargs of
        Some k \<Rightarrow> (Inl (Exc (multiple_values k)), tm, w)
      | None \<Rightarrow>
          (case get_tool tm name' of
             None \<Rightarrow>
               (Inr (failed_result name'
                       (''Tool '' @ apostrophe @ name' @ apostrophe @ '' not found'')),
                tm, w)
           | Some tool \<Rightarrow>
               if \<not> enabled tool
               then (Inr (failed_result name'
                            (''Tool '' @ apostrophe @ name' @ apostrophe @ '' is disabled'')),
                     tm, w)
               else (case execute tool kwargs w of
                       (Inr res, w1) \<Rightarrow>
                         (case clock w1 of
                            (now, w2) \<Rightarrow>
                              (Inr res, record_execution tm name' kwargs res now, w2))
                     | (Inl (Exc e), w1) \<Rightarrow>
                         (let error_result =
                                failed_result name' (''Tool execution failed: '' @ exn_str e)
                          in case clock w1 of
                               (now, w2) \<Rightarrow>
                                 (Inr error_result,
                                  record_execution tm name' kwargs error_result now, w2))
                     | (Inl (BaseExc c s), w1) \<Rightarrow> (Inl (BaseExc c s), tm, w1))))"

section \<open>Chunker configuration (config.py, document\_processor.py)\<close>

text \<open>
  \<^verbatim>\<open>VectorStoreConfig\<close>: pydantic checks each field against its own bound
  (\<^verbatim>\<open>chunk_size\<close> with \<^verbatim>\<open>gt=0\<close>, \<^verbatim>\<open>chunk_overlap\<close> with \<^verbatim>\<open>ge=0\<close>, \<^verbatim>\<open>search_k\<close> with \<^verbatim>\<open>gt=0\<close>) and
  raises \<^verbatim>\<open>ValidationError\<close> when one of them fails; the class has no validator that relates
  two fields.  The text of pydantic's error report is not modelled.
\<close>

record VectorStoreConfig =
  vector_store_type :: string
  collection_name :: string
  persist_directory :: string
  embedding_model :: string
  chunk_size :: int
  chunk_overlap :: int
  search_k :: int
  search_type :: string

definition VectorStoreConfig_init ::
    "string \<Rightarrow> string \<Rightarrow> string \<Rightarrow> string \<Rightarrow> int \<Rightarrow> int \<Rightarrow> int \<Rightarrow> string
       \<Rightarrow> py_exn + VectorStoreConfig" where
  "VectorStoreConfig_init store_type collection directory model csize overlap k stype =
     (if csize > 0 \<and> overlap \<ge> 0 \<and> k > 0
      then Inr \<lparr>vector_store_type = store_type, collection_name = collection,
                persist_directory = directory, embedding_model = model,
                chunk_size = csize, chunk_overlap = overlap, search_k = k,
                search_type = stype\<rparr>
      else Inl (PyExn ''ValidationError'' ''VectorStoreConfig''))"

datatype ChunkingStrategy = RECURSIVE | CHARACTER | TOKEN | SENTENCE | PARAGRAPH

fun strategy_value :: "ChunkingStrategy \<Rightarrow> string" where
  "strategy_value RECURSIVE = ''recursive''"
| "strategy_value CHARACTER = ''character''"
| "strategy_value TOKEN = ''token''"
| "strategy_value SENTENCE = ''sentence''"
| "strategy_value PARAGRAPH = ''paragraph''"

text \<open>
  The text splitters come from the \<^verbatim>\<open>langchain\<close> package, which is not part of the
  repository: their constructors and \<^verbatim>\<open>split_text\<close> are parameters.  A constructor takes the
  chunk size, the chunk overlap and the separators it is given, and returns a splitter or
  raises.
\<close>

record 'sp text_splitters =
  RecursiveCharacterTextSplitter :: "int \<Rightarrow> int \<Rightarrow> string list option \<Rightarrow> py_exn + 'sp"
  CharacterTextSplitter :: "int \<Rightarrow> int \<Rightarrow> string \<Rightarrow> py_exn + 'sp"
  TokenTextSplitter :: "int \<Rightarrow> int \<Rightarrow> py_exn + 'sp"
  split_text :: "'sp \<Rightarrow> string \<Rightarrow> py_exn + string list"

record 'sp TextChunker =
  chunker_strategy :: ChunkingStrategy
  chunker_chunk_size :: int
  chunker_chunk_overlap :: int
  chunker_splitter :: 'sp

definition newline :: string where
  "newline = [CHR 0x0A]"

definition create_splitter ::
    "'sp text_splitters \<Rightarrow> ChunkingStrategy \<Rightarrow> int \<Rightarrow> int \<Rightarrow> py_exn + 'sp" where
  "create_splitter lib strategy csize overlap =
     (if strategy = RECURSIVE
      then RecursiveCharacterTextSplitter lib csize overlap
             (Some [newline @ newline, newline, ''. '', '' '', ''''])
      else if strategy = CHARACTER
      then CharacterTextSplitter lib csize overlap newline
      else if strategy = TOKEN
      then TokenTextSplitter lib csize overlap
      else RecursiveCharacterTextSplitter lib csize overlap None)"

text \<open>\<^verbatim>\<open>TextChunker.__init__\<close>: it stores its arguments and creates the splitter.\<close>

definition TextChunker_init ::
    "'sp text_splitters \<Rightarrow> ChunkingStrategy \<Rightarrow> int \<Rightarrow> int \<Rightarrow> py_exn + 'sp TextChunker" where
  "TextChunker_init lib strategy csize overlap =
     (case create_splitter lib strategy csize overlap of
        Inl e \<Rightarrow> Inl e
      | Inr sp \<Rightarrow>
          Inr \<lparr>chunker_strategy = strategy, chunker_chunk_size = csize,
               chunker_chunk_overlap = overlap, chunker_splitter = sp\<rparr>)"

section \<open>Document processing (document\_processor.py)\<close>

text \<open>
  The operating system, as far as the document pipeline uses it: the clock, the temporary
  file that \<^verbatim>\<open>NamedTemporaryFile(mode='w', suffix=..., delete=False)\<close> creates and fills, the
  tests on a path, reading a file as text in a given encoding, the size and the MD5 hash of a
  file, and \<^verbatim>\<open>os.unlink\<close>.  Paths are strings in the form that \<^verbatim>\<open>str(Path(p))\<close> prints.
\<close>

record 'w os_env =
  now :: "'w \<Rightarrow> datetime \<times> 'w"
  named_temporary_file :: "string \<Rightarrow> string \<Rightarrow> 'w \<Rightarrow> (py_exn + string) \<times> 'w"
  path_exists :: "string \<Rightarrow> 'w \<Rightarrow> bool"
  path_is_file :: "string \<Rightarrow> 'w \<Rightarrow> bool"
  access_read :: "string \<Rightarrow> 'w \<Rightarrow> bool"
  read_text :: "string \<Rightarrow> string \<Rightarrow> 'w \<Rightarrow> (py_exn + string) \<times> 'w"
  stat_size :: "string \<Rightarrow> 'w \<Rightarrow> py_exn + int"
  file_hash :: "string \<Rightarrow> 'w \<Rightarrow> (py_exn + string) \<times> 'w"
  absolute :: "string \<Rightarrow> 'w \<Rightarrow> string"
  unlink :: "string \<Rightarrow> 'w \<Rightarrow> (py_exn + unit) \<times> 'w"

datatype DocumentType = PDF | DOCX | DOC | TXT | MD | HTML | JSON | CSV | UNKNOWN

fun document_type_value :: "DocumentType \<Rightarrow> string" where
  "document_type_value PDF = ''pdf''"
| "document_type_value DOCX = ''docx''"
| "document_type_value DOC = ''doc''"
| "document_type_value TXT = ''txt''"
| "document_type_value MD = ''md''"
| "document_type_value HTML = ''html''"
| "document_type_value JSON = ''json''"
| "document_type_value CSV = ''csv''"
| "document_type_value UNKNOWN = ''unknown''"

text \<open>\<^verbatim>\<open>Path.name\<close> and \<^verbatim>\<open>Path.suffix\<close>.\<close>

definition path_name :: "string \<Rightarrow> string" where
  "path_name p = rev (takeWhile (\<lambda>c. c \<noteq> CHR ''/'') (rev p))"

definition path_suffix :: "string \<Rightarrow> string" where
  "path_suffix p =
     (let n = path_name p;
          ext = rev (takeWhile (\<lambda>c. c \<noteq> CHR ''.'') (rev n))
      in if CHR ''.'' \<in> set n \<and> length ext + 1 < length n \<and> ext \<noteq> []
         then CHR ''.'' # ext else [])"

definition get_document_type :: "string \<Rightarrow> DocumentType" where
  "get_document_type file_path =
     (let extension = py_lower (path_suffix file_path)
      in if extension = ''.pdf'' then PDF
         else if extension = ''.docx'' then DOCX
         else if extension = ''.doc'' then DOC
         else if extension = ''.txt'' then TXT
         else if extension = ''.md'' then MD
         else if extension = ''.html'' then HTML
         else if extension = ''.json'' then JSON
         else if extension = ''.csv'' then CSV
         else UNKNOWN)"

text \<open>\<^verbatim>\<open>DocumentLoader._validate_file\<close>.\<close>

definition validate_file :: "'w os_env \<Rightarrow> string \<Rightarrow> 'w \<Rightarrow> py_exn + unit" where
  "validate_file env file_path w =
     (if \<not> path_exists env file_path w
      then Inl (PyExn ''FileNotFoundError'' (''File not found: '' @ file_path))
      else if \<not> path_is_file env file_path w
      then Inl (PyExn ''ValueError'' (''Path is not a file: '' @ file_path))
      else if \<not> access_read env file_path w
      then Inl (PyExn ''PermissionError'' (''File is not readable: '' @ file_path))
      else Inr ())"

text \<open>
  \<^verbatim>\<open>TextLoader.load_content\<close>: each encoding is tried in turn; a text that is empty after
  \<^verbatim>\<open>strip()\<close> is not returned and a \<^verbatim>\<open>UnicodeError\<close> is skipped, and when no encoding is left
  the loader raises.
\<close>

definition encoding_attempts :: "string list" where
  "encoding_attempts = [''utf-8'', ''utf-8-sig'', ''latin-1'', ''cp1252'']"

definition is_unicode_error :: "py_exn \<Rightarrow> bool" where
  "is_unicode_error e =
     (exn_class e \<in> {''UnicodeError'', ''UnicodeDecodeError'', ''UnicodeEncodeError'',
                      ''UnicodeTranslateError''})"

fun load_attempts :: "'w os_env \<Rightarrow> string \<Rightarrow> string list \<Rightarrow> 'w \<Rightarrow> (py_exn + string) \<times> 'w" where
  "load_attempts env file_path [] w =
     (Inl (PyExn ''ValueError''
             (''Could not decode file '' @ file_path @ '' with any supported encoding'')), w)"
| "load_attempts env file_path (encoding # rest) w =
     (case read_text env file_path encoding w of
        (Inr content', w1) \<Rightarrow>
          if py_strip content' \<noteq> [] then (Inr content', w1)
          else load_attempts env file_path rest w1
      | (Inl e, w1) \<Rightarrow>
          if is_unicode_error e then load_attempts env file_path rest w1 else (Inl e, w1))"

definition TextLoader_load_content :: "'w os_env \<Rightarrow> string \<Rightarrow> 'w \<Rightarrow> (py_exn + string) \<times> 'w" where
  "TextLoader_load_content env file_path w =
     (case validate_file env file_path w of
        Inl e \<Rightarrow> (Inl e, w)
      | Inr u \<Rightarrow> load_attempts env file_path encoding_attempts w)"

text \<open>
  \<^verbatim>\<open>DocumentChunk\<close>: the validator of \<^verbatim>\<open>content\<close> rejects a blank text and stores the text
  stripped.
\<close>

definition DocumentChunk_init ::
    "string \<Rightarrow> string \<Rightarrow> int \<Rightarrow> string \<Rightarrow> pydict \<Rightarrow> py_exn + DocumentChunk" where
  "DocumentChunk_init cid text idx source meta =
     (if blank text then Inl (PyExn ''ValidationError'' ''Chunk content cannot be empty'')
      else Inr \<lparr>chunk_id = cid, content = py_strip text, chunk_index = idx,
                source_document = source, chunk_metadata = meta\<rparr>)"

text \<open>\<^verbatim>\<open>f"{i:04d}"\<close>.\<close>

definition zero_pad4 :: "nat \<Rightarrow> string" where
  "zero_pad4 i = replicate (4 - length (str_of_nat i)) (CHR ''0'') @ str_of_nat i"

fun make_chunks ::
    "'sp TextChunker \<Rightarrow> string \<Rightarrow> (nat \<times> string) list \<Rightarrow> py_exn + DocumentChunk list" where
  "make_chunks chunker source [] = Inr []"
| "make_chunks chunker source ((i, chunk_content) # rest) =
     (if py_strip chunk_content \<noteq> []
      then (case DocumentChunk_init (source @ ''_'' @ zero_pad4 i) chunk_content (int i) source
                   [(''chunking_strategy'', VStr (strategy_value (chunker_strategy chunker))),
                    (''chunk_size'', VInt (chunker_chunk_size chunker)),
                    (''chunk_overlap'', VInt (chunker_chunk_overlap chunker)),
                    (''character_count'', VInt (int (length chunk_content)))] of
              Inl e \<Rightarrow> Inl e
            | Inr c \<Rightarrow>
                (case make_chunks chunker source rest of
                   Inl e \<Rightarrow> Inl e
                 | Inr cs \<Rightarrow> Inr (c # cs)))
      else make_chunks chunker source rest)"

definition chunk_text ::
    "'sp text_splitters \<Rightarrow> 'sp TextChunker \<Rightarrow> string \<Rightarrow> string \<Rightarrow> py_exn + DocumentChunk list" where
  "chunk_text lib chunker text source =
     (if blank text then Inr []
      else case split_text lib (chunker_splitter chunker) text of
             Inl e \<Rightarrow> Inl e
           | Inr pieces' \<Rightarrow> make_chunks chunker source (enumerate 0 pieces'))"

record DocumentMetadata =
  md_filename :: string
  md_filepath :: string
  md_file_size :: int
  md_file_hash :: string
  md_document_type :: DocumentType
  md_processed_at :: datetime
  md_chunk_count :: int
  md_total_characters :: int
  md_chunking_strategy :: ChunkingStrategy
  md_chunk_size :: int
  md_chunk_overlap :: int

text \<open>
  \<^verbatim>\<open>DocumentProcessor\<close>: the loaders by document type and the chunker.  The text loader serves
  \<^verbatim>\<open>TXT\<close> and \<^verbatim>\<open>MD\<close>; the loaders for PDF and Word documents exist only when their packages can
  be imported and are parameters.
\<close>

record ('w, 'sp) DocumentProcessor =
  loaders :: "DocumentType \<Rightarrow> (string \<Rightarrow> 'w \<Rightarrow> (py_exn + string) \<times> 'w) option"
  chunker :: "'sp TextChunker"

definition initialize_loaders ::
    "'w os_env \<Rightarrow> (string \<Rightarrow> 'w \<Rightarrow> (py_exn + string) \<times> 'w) option
       \<Rightarrow> (string \<Rightarrow> 'w \<Rightarrow> (py_exn + string) \<times> 'w) option
       \<Rightarrow> DocumentType \<Rightarrow> (string \<Rightarrow> 'w \<Rightarrow> (py_exn + string) \<times> 'w) option" where
  "initialize_loaders env pdf_loader docx_loader document_type =
     (if document_type = TXT \<or> document_type = MD then Some (TextLoader_load_content env)
      else if document_type = PDF then pdf_loader
      else if document_type = DOCX \<or> document_type = DOC then docx_loader
      else None)"

definition DocumentProcessor_init ::
    "'w os_env \<Rightarrow> 'sp text_splitters \<Rightarrow> (string \<Rightarrow> 'w \<Rightarrow> (py_exn + string) \<times> 'w) option
       \<Rightarrow> (string \<Rightarrow> 'w \<Rightarrow> (py_exn + string) \<times> 'w) option \<Rightarrow> VectorStoreConfig
       \<Rightarrow> py_exn + ('w, 'sp) DocumentProcessor" where
  "DocumentProcessor_init env lib pdf_loader docx_loader config =
     (case TextChunker_init lib RECURSIVE (chunk_size config) (chunk_overlap config) of
        Inl e \<Rightarrow> Inl e
      | Inr c \<Rightarrow> Inr \<lparr>loaders = initialize_loaders env pdf_loader docx_loader, chunker = c\<rparr>)"

record processing_result =
  chunks :: "DocumentChunk list"
  document_metadata :: DocumentMetadata
  original_content :: string

definition process_document ::
    "'w os_env \<Rightarrow> 'sp text_splitters \<Rightarrow> ('w, 'sp) DocumentProcessor \<Rightarrow> string \<Rightarrow> 'w
       \<Rightarrow> (py_exn + processing_result) \<times> 'w" where
  "process_document env lib processor file_path w =
     (if \<not> path_exists env file_path w
      then (Inl (PyExn ''FileNotFoundError'' (''File not found: '' @ file_path)), w)
      else
        let document_type = get_document_type file_path
        in case loaders processor document_type of
             None \<Rightarrow>
               (Inl (PyExn ''ValueError''
                       (''Unsupported document type: '' @ document_type_value document_type
                          @ '' for file '' @ file_path)), w)
           | Some loader \<Rightarrow>
               (case loader file_path w of
                  (Inl e, w1) \<Rightarrow>
                    (Inl (PyExn ''ValueError''
                            (''Failed to load content from '' @ file_path @ '': '' @ exn_str e)),
                     w1)
                | (Inr text, w1) \<Rightarrow>
                    if blank text
                    then (Inl (PyExn ''ValueError'' (''No content extracted from '' @ file_path)),
                          w1)
                    else
                      (case chunk_text lib (chunker processor) text (path_name file_path) of
                         Inl e \<Rightarrow> (Inl e, w1)
                       | Inr cs \<Rightarrow>
                           (case stat_size env file_path w1 of
                              Inl e \<Rightarrow> (Inl e, w1)
                            | Inr file_size \<Rightarrow>
                                (case file_hash env file_path w1 of
                                   (Inl e, w2) \<Rightarrow> (Inl e, w2)
                                 | (Inr hash, w2) \<Rightarrow>
                                     (case now env w2 of
                                        (processed_at, w3) \<Rightarrow>
                                          (Inr \<lparr>chunks = cs,
                                                document_metadata =
                                                  \<lparr>md_filename = path_name file_path,
                                                   md_filepath = absolute env file_path w1,
                                                   md_file_size = file_size,
                                                   md_file_hash = hash,
                                                   md_document_type = document_type,
                                                   md_processed_at = processed_at,
                                                   md_chunk_count = int (length cs),
                                                   md_total_characters = int (length text),
                                                   md_chunking_strategy =
                                                     chunker_strategy (chunker processor),
                                                   md_chunk_size =
                                                     chunker_chunk_size (chunker processor),
                                                   md_chunk_overlap =
                                                     chunker_chunk_overlap (chunker processor)\<rparr>,
                                                original_content = text\<rparr>, w3)))))))"

section \<open>The knowledge-base tool (agent\_core.py, AddToKnowledgeBaseTool)\<close>

text \<open>
  The statistics of \<^verbatim>\<open>DocumentManager\<close> (main\_app.py) that the tool updates: the list of
  processed documents and the counters.
\<close>

record DocumentManager =
  processed_documents :: "pydict list"
  total_documents :: int
  total_chunks :: int
  last_updated :: "string option"

record ('w, 'sp) AddToKnowledgeBaseTool =
  kb_vector_store :: "'w VectorStore"
  kb_processor :: "('w, 'sp) DocumentProcessor"
  kb_document_manager :: "DocumentManager option"

definition kb_failure :: "string \<Rightarrow> real \<Rightarrow> ToolResult" where
  "kb_failure message seconds =
     \<lparr>tool_name = ''add_to_knowledge_base'', success = False, result = VNone,
      error = Some message, execution_time = seconds, metadata = []\<rparr>"

text \<open>\<^verbatim>\<open>d.update(other)\<close>.\<close>

definition dict_update :: "pydict \<Rightarrow> pydict \<Rightarrow> pydict" where
  "dict_update d other = foldl (\<lambda>acc (k, v). dict_set acc k v) d other"

text \<open>
  The loop over the chunks: each chunk gets the title as its source document and the
  provenance metadata, with one reading of the clock per chunk.
\<close>

fun tag_chunks ::
    "'w os_env \<Rightarrow> string \<Rightarrow> string \<Rightarrow> pydict option \<Rightarrow> DocumentChunk list \<Rightarrow> 'w
       \<Rightarrow> DocumentChunk list \<times> 'w" where
  "tag_chunks env title source extra [] w = ([], w)"
| "tag_chunks env title source extra (c # cs) w =
     (case now env w of
        (added_at, w1) \<Rightarrow>
          (case tag_chunks env title source extra cs w1 of
             (cs', w2) \<Rightarrow>
               (c\<lparr>source_document := title,
                  chunk_metadata :=
                    dict_update (chunk_metadata c)
                      (dict_update [(''source_type'', VStr source),
                                    (''added_at'', VStr (isoformat added_at))]
                         (case extra of None \<Rightarrow> [] | Some m \<Rightarrow> m))\<rparr> # cs', w2)))"

text \<open>The update of the statistics, with its two readings of the clock.\<close>

definition update_statistics ::
    "'w os_env \<Rightarrow> string \<Rightarrow> string \<Rightarrow> nat \<Rightarrow> DocumentManager \<Rightarrow> 'w \<Rightarrow> DocumentManager \<times> 'w" where
  "update_statistics env title source n dm w =
     (case now env w of
        (processed_at, w1) \<Rightarrow>
          (case now env w1 of
             (updated, w2) \<Rightarrow>
               (dm\<lparr>processed_documents := processed_documents dm @
                      [[(''filename'', VStr title), (''path'', VStr (''tool:'' @ source)),
                        (''chunks'', VInt (int n)),
                        (''processed_at'', VStr (isoformat processed_at))]],
                    total_documents := total_documents dm + 1,
                    total_chunks := total_chunks dm + int n,
                    last_updated := Some (isoformat updated)\<rparr>, w2)))"

text \<open>
  The body of the inner \<^verbatim>\<open>try\<close> of \<^verbatim>\<open>execute\<close>, between the creation of the temporary file
  and the \<^verbatim>\<open>finally\<close> clause.  It returns a result or raises, and gives the document manager
  and the world as it leaves them.  The diagnostic output is left out, but not the reads of
  the file system that it makes: in the handler of a processing error the size of the file is
  asked for and the file is read in a \<^verbatim>\<open>try\<close> of its own; where no chunk was produced the
  file is read inside the \<^verbatim>\<open>try\<close> whose handler reports a processing error.
\<close>

definition process_and_store ::
    "'w os_env \<Rightarrow> 'sp text_splitters \<Rightarrow> ('w, 'sp) AddToKnowledgeBaseTool \<Rightarrow> string \<Rightarrow> string
       \<Rightarrow> string \<Rightarrow> pydict option \<Rightarrow> string \<Rightarrow> datetime \<Rightarrow> 'w
       \<Rightarrow> (py_exn + ToolResult) \<times> DocumentManager option \<times> 'w" where
  "process_and_store env lib tool text title source extra temp_path start_time w =
     (let dm = kb_document_manager tool;
          processing_failed =
            (\<lambda>process_error w1.
               if path_exists env temp_path w1
               then (case stat_size env temp_path w1 of
                       Inl e \<Rightarrow> (Inl e, dm, w1)
                     | Inr bytes \<Rightarrow>
                         (case read_text env temp_path ''utf-8'' w1 of
                            (shown, w2) \<Rightarrow>
                              (case now env w2 of
                                 (finished, w3) \<Rightarrow>
                                   (Inr (kb_failure
                                           (''DocumentProcessor failed: '' @ exn_str process_error)
                                           (total_seconds finished start_time)), dm, w3))))
               else (case now env w1 of
                       (finished, w3) \<Rightarrow>
                         (Inr (kb_failure
                                 (''DocumentProcessor failed: '' @ exn_str process_error)
                                 (total_seconds finished start_time)), dm, w3)))
      in case process_document env lib (kb_processor tool) temp_path w of
           (Inl process_error, w1) \<Rightarrow> processing_failed process_error w1
         | (Inr processed, w1) \<Rightarrow>
             if chunks processed \<noteq> []
             then (case tag_chunks env title source extra (chunks processed) w1 of
                     (tagged, w2) \<Rightarrow>
                       (case add_documents (kb_vector_store tool) tagged w2 of
                          (Inl e, w3) \<Rightarrow> (Inl e, dm, w3)
                        | (Inr stored, w3) \<Rightarrow>
                            (case (case dm of
                                     Some manager \<Rightarrow>
                                       if stored
                                       then (case update_statistics env title source
                                                    (length tagged) manager w3 of
                                               (manager', w4) \<Rightarrow> (Some manager', w4))
                                       else (dm, w3)
                                   | None \<Rightarrow> (dm, w3)) of
                               (dm', w4) \<Rightarrow>
                                 (case now env w4 of
                                    (finished, w5) \<Rightarrow>
                                      (Inr \<lparr>tool_name = ''add_to_knowledge_base'',
                                            success = stored,
                                            result =
                                              VDict [(''title'', VStr title),
                                                     (''chunks_added'', VInt (int (length tagged))),
                                                     (''total_characters'', VInt (int (length text))),
                                                     (''source'', VStr source),
                                                     (''stats_updated'', VBool (dm \<noteq> None))],
                                            error = None,
                                            execution_time = total_seconds finished start_time,
                                            metadata = [(''source_type'', VStr source)]\<rparr>,
                                       dm', w5)))))
             else if path_exists env temp_path w1
             then (case read_text env temp_path ''utf-8'' w1 of
                     (Inl e, w2) \<Rightarrow> processing_failed e w2
                   | (Inr shown, w2) \<Rightarrow>
                       (Inr (kb_failure ''No content could be extracted'' 0), dm, w2))
             else (Inr (kb_failure ''No content could be extracted'' 0), dm, w1))"

text \<open>
  \<^verbatim>\<open>AddToKnowledgeBaseTool.execute\<close>: the temporary file, the body above, the \<^verbatim>\<open>finally\<close>
  clause that removes the file (an exception of \<^verbatim>\<open>os.unlink\<close> replaces the outcome of the
  body), and the outer handler that turns every exception into a failure.
\<close>

definition AddToKnowledgeBaseTool_execute ::
    "'w os_env \<Rightarrow> 'sp text_splitters \<Rightarrow> ('w, 'sp) AddToKnowledgeBaseTool \<Rightarrow> string \<Rightarrow> string
       \<Rightarrow> string \<Rightarrow> pydict option \<Rightarrow> 'w \<Rightarrow> ToolResult \<times> DocumentManager option \<times> 'w" where
  "AddToKnowledgeBaseTool_execute env lib tool text title source extra w =
     (case now env w of
        (start_time, w0) \<Rightarrow>
          (let handler =
                 (\<lambda>e dm w'.
                    case now env w' of
                      (finished, w'') \<Rightarrow>
                        (kb_failure (exn_str e) (total_seconds finished start_time), dm, w''))
           in case named_temporary_file env ''.txt'' text w0 of
                (Inl e, w1) \<Rightarrow> handler e (kb_document_manager tool) w1
              | (Inr temp_path, w1) \<Rightarrow>
                  (case process_and_store env lib tool text title source extra temp_path
                          start_time w1 of
                     (outcome, dm, w2) \<Rightarrow>
                       (case unlink env temp_path w2 of
                          (Inl e, w3) \<Rightarrow> handler e dm w3
                        | (Inr u, w3) \<Rightarrow>
                            (case outcome of
                               Inl e \<Rightarrow> handler e dm w3
                             | Inr res \<Rightarrow> (res, dm, w3))))))"

section \<open>Language model and conversations (llm\_integration.py)\<close>

text \<open>A message for the model is a dict with a role and a content.\<close>

type_synonym llm_message = "string \<times> string"

text \<open>
  What \<^verbatim>\<open>client.chat.completions.create\<close> returns, as far as \<^verbatim>\<open>generate_response\<close> reads it.
  The client is the collaborator: it acts on the world and returns a completion or raises.
  The model name, the temperature and the token limit that the call passes on are constants
  of the configuration and are left out.
\<close>

record completion =
  completion_content :: string
  completion_model :: string
  completion_usage :: pydict
  completion_finish_reason :: string
  completion_id :: string

record LLMResponse =
  llm_content :: string
  llm_model :: string
  llm_usage :: pydict
  llm_metadata :: pydict

text \<open>
  \<^verbatim>\<open>LLMManager.generate_response\<close>.  Its handler \<^verbatim>\<open>except Exception\<close> wraps an exception of the
  client in a \<^verbatim>\<open>ValueError\<close>; an exception of a class outside \<^verbatim>\<open>Exception\<close> passes through.
\<close>

definition generate_response ::
    "(llm_message list \<Rightarrow> 'w \<Rightarrow> (py_raise + completion) \<times> 'w) option \<Rightarrow> llm_message list \<Rightarrow> 'w
       \<Rightarrow> (py_raise + LLMResponse) \<times> 'w" where
  "generate_response client messages w =
     (case client of
        None \<Rightarrow>
          (Inl (Exc (PyExn ''ValueError''
                       ''OpenAI client not initialized. Check API key and dependencies.'')), w)
      | Some create \<Rightarrow>
          (case create messages w of
             (Inl (Exc e), w1) \<Rightarrow>
               (Inl (Exc (PyExn ''ValueError''
                            (''Failed to generate response: '' @ exn_str e))), w1)
           | (Inl (BaseExc c s), w1) \<Rightarrow> (Inl (BaseExc c s), w1)
           | (Inr response, w1) \<Rightarrow>
               (Inr \<lparr>llm_content = completion_content response,
                     llm_model = completion_model response,
                     llm_usage = completion_usage response,
                     llm_metadata =
                       [(''finish_reason'', VStr (completion_finish_reason response)),
                        (''response_id'', VStr (completion_id response))]\<rparr>, w1)))"

datatype MessageRole = SYSTEM | USER | ASSISTANT

fun role_value :: "MessageRole \<Rightarrow> string" where
  "role_value SYSTEM = ''system''"
| "role_value USER = ''user''"
| "role_value ASSISTANT = ''assistant''"

text \<open>
  A message of a conversation; its identifier, timestamp and metadata are left out.  The
  validator of the content rejects a blank text and stores the text stripped.  The library
  reports the \<^verbatim>\<open>ValueError\<close> of the validator as a \<^verbatim>\<open>ValidationError\<close>, whose \<^verbatim>\<open>str\<close> is a report
  of several lines around the validator's message; \<open>report\<close> is the library's printing, from
  the validator's message to that text.
\<close>

record ConversationMessage =
  message_role :: MessageRole
  message_content :: string

definition ConversationMessage_init ::
    "(string \<Rightarrow> string) \<Rightarrow> MessageRole \<Rightarrow> string \<Rightarrow> py_exn + ConversationMessage" where
  "ConversationMessage_init report r text =
     (if blank text
      then Inl (PyExn ''ValidationError'' (report ''Message content cannot be empty''))
      else Inr \<lparr>message_role = r, message_content = py_strip text\<rparr>)"

text \<open>\<^verbatim>\<open>messages[-n:]\<close> for an integer \<open>n\<close>.\<close>

definition last_slice :: "int \<Rightarrow> 'a list \<Rightarrow> 'a list" where
  "last_slice n xs = (if 0 < n then drop (length xs - nat n) xs else drop (nat (- n)) xs)"

text \<open>
  \<^verbatim>\<open>Conversation.get_messages_for_llm\<close>: the slice is taken under \<^verbatim>\<open>if max_messages:\<close>, that is
  for a limit that is neither \<^verbatim>\<open>None\<close> nor 0.
\<close>

definition get_messages_for_llm ::
    "ConversationMessage list \<Rightarrow> int option \<Rightarrow> llm_message list" where
  "get_messages_for_llm messages max_messages =
     map (\<lambda>msg. (role_value (message_role msg), message_content msg))
       (case max_messages of
          None \<Rightarrow> messages
        | Some n \<Rightarrow> if n \<noteq> 0 then last_slice n messages else messages)"

text \<open>\<^verbatim>\<open>sep.join(parts)\<close>.\<close>

fun py_join :: "string \<Rightarrow> string list \<Rightarrow> string" where
  "py_join sep [] = []"
| "py_join sep [part] = part"
| "py_join sep (part # rest) = part @ sep @ py_join sep rest"

text \<open>The two prompt templates; \<^verbatim>\<open>format_user_prompt\<close> fills in the context and the query.\<close>

record PromptTemplate =
  template_name :: string
  system_prompt :: string
  format_user_prompt :: "string \<Rightarrow> string \<Rightarrow> string"

definition rag_qa_template :: PromptTemplate where
  "rag_qa_template =
     \<lparr>template_name = ''rag_qa'',
      system_prompt =
        ''You are a helpful AI assistant that answers questions based on provided context. ''
        @ newline
        @ ''Use the retrieved documents to provide accurate responses. If the context doesn''
        @ apostrophe @ ''t contain enough information, say so clearly.'',
      format_user_prompt =
        (\<lambda>context question.
           ''Context from retrieved documents:'' @ newline @ context @ newline @ newline
           @ ''Question: '' @ question @ newline @ newline
           @ ''Please provide a helpful answer based on the context above.'')\<rparr>"

definition chat_template :: PromptTemplate where
  "chat_template =
     \<lparr>template_name = ''chat'',
      system_prompt =
        ''You are a helpful AI assistant engaging in conversation. '' @ newline
        @ ''Use retrieved context when relevant.'',
      format_user_prompt =
        (\<lambda>context user_message.
           ''Retrieved Context:'' @ newline @ context @ newline @ newline
           @ ''User Message: '' @ user_message @ newline @ newline
           @ ''Please respond naturally.'')\<rparr>"

definition templates :: "string \<Rightarrow> PromptTemplate option" where
  "templates n =
     (if n = ''rag_qa'' then Some rag_qa_template
      else if n = ''chat'' then Some chat_template
      else None)"

text \<open>
  \<^verbatim>\<open>RAGChain\<close>: the vector store behind its retriever, the client of its LLM manager and the
  conversations of its conversation manager.
\<close>

record 'w RAGChain =
  vector_store :: "'w VectorStore"
  llm_client :: "(llm_message list \<Rightarrow> 'w \<Rightarrow> (py_raise + completion) \<times> 'w) option"
  conversations :: "(string \<times> ConversationMessage list) list"

text \<open>The dict that \<^verbatim>\<open>process_query\<close> returns, by its \<^verbatim>\<open>success\<close> entry.\<close>

datatype rag_result =
    RagSuccess string "SearchResult list" string LLMResponse
  | RagFailure string "SearchResult list" string

text \<open>
  Step 6 of \<^verbatim>\<open>process_query\<close>: the conversation is created when it does not exist, then the
  query and the answer are appended; a message that its validator rejects raises, after the
  messages before it have been stored.
\<close>

definition update_conversation ::
    "(string \<Rightarrow> string) \<Rightarrow> (string \<times> ConversationMessage list) list \<Rightarrow> string \<Rightarrow> string \<Rightarrow> string
       \<Rightarrow> (py_exn + unit) \<times> (string \<times> ConversationMessage list) list" where
  "update_conversation report convs cid query answer =
     (let existing = (case map_of convs cid of None \<Rightarrow> [] | Some messages \<Rightarrow> messages);
          convs0 = (case map_of convs cid of
                      None \<Rightarrow> convs @ [(cid, [])]
                    | Some messages \<Rightarrow> convs)
      in case ConversationMessage_init report USER query of
           Inl e \<Rightarrow> (Inl e, convs0)
         | Inr m1 \<Rightarrow>
             (case ConversationMessage_init report ASSISTANT answer of
                Inl e \<Rightarrow> (Inl e, map (\<lambda>(k, ms). if k = cid then (k, existing @ [m1]) else (k, ms)) convs0)
              | Inr m2 \<Rightarrow>
                  (Inr (), map (\<lambda>(k, ms). if k = cid then (k, existing @ [m1, m2]) else (k, ms))
                             convs0)))"

definition format_context :: "SearchResult list \<Rightarrow> string" where
  "format_context search_results =
     (let context_parts =
            map (\<lambda>(i, found). ''Document '' @ str_of_nat i @ '':'' @ newline
                                 @ content (chunk found))
              (enumerate 1 search_results)
      in if context_parts \<noteq> [] then py_join (newline @ newline) context_parts
         else ''No relevant documents found.'')"

text \<open>\<^verbatim>\<open>if conversation_id:\<close> holds for an identifier that is neither \<^verbatim>\<open>None\<close> nor empty.\<close>

definition given_conversation :: "string option \<Rightarrow> string option" where
  "given_conversation conversation_id =
     (case conversation_id of None \<Rightarrow> None | Some c \<Rightarrow> if c = [] then None else Some c)"

text \<open>Step 4: the system prompt, the last ten messages of the conversation, the query.\<close>

definition query_messages ::
    "'w RAGChain \<Rightarrow> string option \<Rightarrow> PromptTemplate \<Rightarrow> string \<Rightarrow> string \<Rightarrow> llm_message list" where
  "query_messages chain conversation_id t context query =
     [(''system'', system_prompt t)]
     @ (case given_conversation conversation_id of
          None \<Rightarrow> []
        | Some c \<Rightarrow>
            (case map_of (conversations chain) c of
               None \<Rightarrow> []
             | Some messages \<Rightarrow> get_messages_for_llm messages (Some 10)))
     @ [(''user'', format_user_prompt t context query)]"

text \<open>
  \<^verbatim>\<open>RAGChain.process_query\<close>.  The retrieval and the lookup of the template run under no
  handler.  The call of the model and the update of the conversation run under
  \<^verbatim>\<open>except Exception\<close>, which turns an exception into the failure dict and lets an exception
  outside \<^verbatim>\<open>Exception\<close> through.
\<close>

definition process_query ::
    "(string \<Rightarrow> string) \<Rightarrow> 'w RAGChain \<Rightarrow> string \<Rightarrow> string option \<Rightarrow> string \<Rightarrow> int \<Rightarrow> py_float \<Rightarrow> 'w
       \<Rightarrow> (py_raise + rag_result) \<times> 'w RAGChain \<times> 'w" where
  "process_query report chain query conversation_id template retrieval_k min_score w =
     (case retrieve_documents (vector_store chain) query retrieval_k min_score w of
        (Inl e, w1) \<Rightarrow> (Inl e, chain, w1)
      | (Inr search_results, w1) \<Rightarrow>
          (let context = format_context search_results
           in case templates template of
                None \<Rightarrow>
                  (Inl (Exc (PyExn ''ValueError''
                               (''Template '' @ apostrophe @ template @ apostrophe
                                @ '' not found''))),
                   chain, w1)
              | Some t \<Rightarrow>
                  (case generate_response (llm_client chain)
                          (query_messages chain conversation_id t context query) w1 of
                     (Inl (Exc e), w2) \<Rightarrow>
                       (Inr (RagFailure (exn_str e) search_results context), chain, w2)
                   | (Inl (BaseExc c s), w2) \<Rightarrow> (Inl (BaseExc c s), chain, w2)
                   | (Inr llm_response, w2) \<Rightarrow>
                       (case given_conversation conversation_id of
                          None \<Rightarrow>
                            (Inr (RagSuccess (llm_content llm_response) search_results
                                    context llm_response), chain, w2)
                        | Some c \<Rightarrow>
                            (case update_conversation report (conversations chain) c query
                                    (llm_content llm_response) of
                               (Inl e, convs) \<Rightarrow>
                                 (Inr (RagFailure (exn_str e) search_results context),
                                  chain\<lparr>conversations := convs\<rparr>, w2)
                             | (Inr u, convs) \<Rightarrow>
                                 (Inr (RagSuccess (llm_content llm_response) search_results
                                         context llm_response),
                                  chain\<lparr>conversations := convs\<rparr>, w2))))))"

section \<open>The agent (agent\_core.py, Agent)\<close>

record 'w Agent =
  rag_chain :: "'w RAGChain"
  memory :: AgentMemory
  tool_manager :: "'w ToolManager"
  conversation_id :: string

definition update_working_memory :: "AgentMemory \<Rightarrow> string \<Rightarrow> pyval \<Rightarrow> datetime \<Rightarrow> AgentMemory" where
  "update_working_memory mem k v t =
     mem\<lparr>working_memory := dict_set (working_memory mem) k v, updated_at := t\<rparr>"

text \<open>\<^verbatim>\<open>ToolResult.model_dump()\<close>; a stored \<^verbatim>\<open>ToolResult\<close> is represented by this dict.\<close>

definition model_dump :: "ToolResult \<Rightarrow> pyval" where
  "model_dump r =
     VDict [(''tool_name'', VStr (tool_name r)),
            (''success'', VBool (success r)),
            (''result'', result r),
            (''error'', (case error r of None \<Rightarrow> VNone | Some e \<Rightarrow> VStr e)),
            (''execution_time'', VFloat (execution_time r)),
            (''metadata'', VDict (metadata r))]"

text \<open>The dict that the two response generators return.\<close>

record response_result =
  response :: string
  tools_used :: "string list"
  response_error :: "string option"
  rag_results :: "SearchResult list option"
  fallback_response :: bool
  combined_context :: bool

text \<open>
  \<^verbatim>\<open>_execute_recommended_tools\<close>: the tools run in the order of the recommendations; an
  exception that leaves \<^verbatim>\<open>execute_tool\<close> ends the loop.
\<close>

fun execute_recommended_tools ::
    "('w \<Rightarrow> datetime \<times> 'w) \<Rightarrow> 'w ToolManager \<Rightarrow> (string \<times> pydict) list \<Rightarrow> 'w
       \<Rightarrow> (py_raise + ToolResult list) \<times> 'w ToolManager \<times> 'w" where
  "execute_recommended_tools clock tm [] w = (Inr [], tm, w)"
| "execute_recommended_tools clock tm ((tool, parameters) # rest) w =
     (case execute_tool clock tm tool parameters w of
        (Inl e, tm1, w1) \<Rightarrow> (Inl e, tm1, w1)
      | (Inr r, tm1, w1) \<Rightarrow>
          (case execute_recommended_tools clock tm1 rest w1 of
             (Inl e, tm2, w2) \<Rightarrow> (Inl e, tm2, w2)
           | (Inr rs, tm2, w2) \<Rightarrow> (Inr (r # rs), tm2, w2)))"

text \<open>
  The loop of \<^verbatim>\<open>_generate_response_with_tools\<close> over the tool results.  The name of every
  successful result is noted, and the result is rendered as pieces of text by the branch for
  its tool name.  A payload is of type \<^verbatim>\<open>Any\<close>; how the branches read and print it is the
  parameter \<open>render\<close>, which may raise and may use the tool manager (the branch for the
  repository search with content calls \<^verbatim>\<open>add_to_knowledge_base\<close> through it).
\<close>

fun render_results ::
    "(string \<Rightarrow> ToolResult \<Rightarrow> 'w ToolManager \<Rightarrow> 'w \<Rightarrow> (py_raise + string list) \<times> 'w ToolManager \<times> 'w)
       \<Rightarrow> string \<Rightarrow> ToolResult list \<Rightarrow> 'w ToolManager \<Rightarrow> 'w
       \<Rightarrow> (py_raise + string list \<times> string list) \<times> 'w ToolManager \<times> 'w" where
  "render_results render user_input [] tm w = (Inr ([], []), tm, w)"
| "render_results render user_input (r # rest) tm w =
     (if success r
      then (case render user_input r tm w of
              (Inl e, tm1, w1) \<Rightarrow> (Inl e, tm1, w1)
            | (Inr parts, tm1, w1) \<Rightarrow>
                (case render_results render user_input rest tm1 w1 of
                   (Inl e, tm2, w2) \<Rightarrow> (Inl e, tm2, w2)
                 | (Inr (more_parts, used), tm2, w2) \<Rightarrow>
                     (Inr (parts @ more_parts, tool_name r # used), tm2, w2)))
      else render_results render user_input rest tm w)"

definition combined_system_prompt :: string where
  "combined_system_prompt =
     ''You are a helpful AI assistant. Use both the knowledge base documents and tool results to provide comprehensive and accurate responses. Prioritize recent information from tools while leveraging foundational knowledge from documents.''"

definition combined_user_prompt :: "string \<Rightarrow> string \<Rightarrow> string \<Rightarrow> string" where
  "combined_user_prompt user_input rag_context tool_context =
     ''User Request: '' @ user_input @ newline @ newline
     @ ''Knowledge Base Context:'' @ newline
     @ (if rag_context \<noteq> [] then rag_context
        else ''No relevant documents found in knowledge base.'') @ newline @ newline
     @ ''Tool Results:'' @ newline @ tool_context @ newline @ newline
     @ ''Please provide a comprehensive response that combines insights from both the knowledge base and tool results.''"

definition fallback_system_prompt :: string where
  "fallback_system_prompt =
     ''You are a helpful AI assistant. The user has asked a question but no relevant documents were found in the knowledge base. Please provide a helpful response based on your general knowledge. If the question is about programming, provide code examples. If you don''
     @ apostrophe
     @ ''t know something specific, be honest about limitations but still try to be helpful with general guidance.''"

text \<open>\<^verbatim>\<open>"\n\n".join(tool_context_parts) if tool_context_parts else "No tool results available."\<close>\<close>

definition tool_context_of :: "string list \<Rightarrow> string" where
  "tool_context_of tool_context_parts =
     (if tool_context_parts \<noteq> [] then py_join (newline @ newline) tool_context_parts
      else ''No tool results available.'')"

text \<open>
  \<^verbatim>\<open>_generate_response_with_tools\<close>.  The rendering and \<^verbatim>\<open>process_query\<close> run under no handler
  of this function; the call of the model for the combined prompt runs under
  \<^verbatim>\<open>except Exception\<close>.
\<close>

definition generate_response_with_tools ::
    "(string \<Rightarrow> string)
       \<Rightarrow> (string \<Rightarrow> ToolResult \<Rightarrow> 'w ToolManager \<Rightarrow> 'w \<Rightarrow> (py_raise + string list) \<times> 'w ToolManager \<times> 'w)
       \<Rightarrow> 'w Agent \<Rightarrow> string \<Rightarrow> ToolResult list \<Rightarrow> 'w
       \<Rightarrow> (py_raise + response_result) \<times> 'w Agent \<times> 'w" where
  "generate_response_with_tools report render agent user_input tool_results w =
     (case render_results render user_input tool_results (tool_manager agent) w of
        (Inl e, tm1, w1) \<Rightarrow> (Inl e, agent\<lparr>tool_manager := tm1\<rparr>, w1)
      | (Inr (tool_context_parts, used), tm1, w1) \<Rightarrow>
          (let tool_context = tool_context_of tool_context_parts
           in case process_query report (rag_chain agent) user_input
                     (Some (conversation_id agent)) ''rag_qa'' 5 (Float 0) w1 of
                (Inl e, chain1, w2) \<Rightarrow>
                  (Inl e, agent\<lparr>tool_manager := tm1, rag_chain := chain1\<rparr>, w2)
              | (Inr answer, chain1, w2) \<Rightarrow>
                  (let agent1 = agent\<lparr>tool_manager := tm1, rag_chain := chain1\<rparr>;
                       rag_context =
                         (case answer of
                            RagSuccess text found context llm_response \<Rightarrow>
                              if found \<noteq> []
                              then py_join (newline @ newline)
                                     (map (\<lambda>(i, hit). ''Knowledge Base Document '' @ str_of_nat i
                                                        @ '': '' @ take 300 (content (chunk hit))
                                                        @ ''...'')
                                        (enumerate 1 (take 3 found)))
                              else []
                          | RagFailure err found context \<Rightarrow> []);
                       found_results =
                         (case answer of
                            RagSuccess text found context llm_response \<Rightarrow> found
                          | RagFailure err found context \<Rightarrow> found)
                   in if tool_context_parts \<noteq> [] \<or> rag_context \<noteq> []
                      then (case generate_response (llm_client chain1)
                                   [(''system'', combined_system_prompt),
                                    (''user'', combined_user_prompt user_input rag_context
                                                 tool_context)] w2 of
                              (Inr llm_response, w3) \<Rightarrow>
                                (Inr \<lparr>response = llm_content llm_response, tools_used = used,
                                      response_error = None, rag_results = Some found_results,
                                      fallback_response = False, combined_context = True\<rparr>,
                                 agent1, w3)
                            | (Inl (Exc e), w3) \<Rightarrow>
                                (Inr \<lparr>response = ''I encountered an issue generating a response: ''
                                                   @ exn_str e,
                                      tools_used = used, response_error = Some (exn_str e),
                                      rag_results = None, fallback_response = False,
                                      combined_context = False\<rparr>, agent1, w3)
                            | (Inl (BaseExc c s), w3) \<Rightarrow> (Inl (BaseExc c s), agent1, w3))
                      else (case answer of
                              RagSuccess text found context llm_response \<Rightarrow>
                                (Inr \<lparr>response = text, tools_used = used, response_error = None,
                                      rag_results = Some found, fallback_response = False,
                                      combined_context = False\<rparr>, agent1, w2)
                            | RagFailure err found context \<Rightarrow>
                                (Inr \<lparr>response = ''I encountered an issue generating a response: ''
                                                   @ err,
                                      tools_used = used, response_error = Some err,
                                      rag_results = None, fallback_response = False,
                                      combined_context = False\<rparr>, agent1, w2)))))"

text \<open>
  \<^verbatim>\<open>_generate_simple_response\<close>.  \<^verbatim>\<open>process_query\<close> runs under no handler of this function;
  the call of the model for the fallback prompt runs under \<^verbatim>\<open>except Exception\<close>.
\<close>

definition apology :: string where
  "apology =
     ''I apologize, but I encountered an issue generating a response. Please try rephrasing your question or adding more context. Error: ''"

definition generate_simple_response ::
    "(string \<Rightarrow> string) \<Rightarrow> 'w Agent \<Rightarrow> string \<Rightarrow> 'w
       \<Rightarrow> (py_raise + response_result) \<times> 'w Agent \<times> 'w" where
  "generate_simple_response report agent user_input w =
     (case process_query report (rag_chain agent) user_input (Some (conversation_id agent))
             ''rag_qa'' 5 (Float 0) w of
        (Inl e, chain1, w1) \<Rightarrow> (Inl e, agent\<lparr>rag_chain := chain1\<rparr>, w1)
      | (Inr (RagSuccess text found context llm_response), chain1, w1) \<Rightarrow>
          (Inr \<lparr>response = text, tools_used = [], response_error = None,
                rag_results = Some found, fallback_response = False,
                combined_context = False\<rparr>, agent\<lparr>rag_chain := chain1\<rparr>, w1)
      | (Inr (RagFailure err found context), chain1, w1) \<Rightarrow>
          (case generate_response (llm_client chain1)
                  [(''system'', fallback_system_prompt), (''user'', user_input)] w1 of
             (Inr llm_response, w2) \<Rightarrow>
               (Inr \<lparr>response = llm_content llm_response, tools_used = [],
                     response_error = None, rag_results = Some [], fallback_response = True,
                     combined_context = False\<rparr>, agent\<lparr>rag_chain := chain1\<rparr>, w2)
           | (Inl (Exc e), w2) \<Rightarrow>
               (Inr \<lparr>response = apology @ exn_str e,
                     tools_used = [], response_error = Some (exn_str e), rag_results = None,
                     fallback_response = True, combined_context = False\<rparr>,
                agent\<lparr>rag_chain := chain1\<rparr>, w2)
           | (Inl (BaseExc c s), w2) \<Rightarrow> (Inl (BaseExc c s), agent\<lparr>rag_chain := chain1\<rparr>, w2)))"

text \<open>
  The body of the \<^verbatim>\<open>try\<close> of \<^verbatim>\<open>process_request\<close> up to the response of a generator.
\<close>

definition respond ::
    "(string \<Rightarrow> string)
       \<Rightarrow> (string \<Rightarrow> ToolResult \<Rightarrow> 'w ToolManager \<Rightarrow> 'w \<Rightarrow> (py_raise + string list) \<times> 'w ToolManager \<times> 'w)
       \<Rightarrow> ('w \<Rightarrow> datetime \<times> 'w) \<Rightarrow> 'w Agent \<Rightarrow> string \<Rightarrow> bool \<Rightarrow> 'w
       \<Rightarrow> (py_raise + response_result) \<times> 'w Agent \<times> 'w" where
  "respond report render clock agent user_input with_tools w =
     (if with_tools
      then (let decision = decide_tool_usage user_input
            in if use_tools decision
               then (case execute_recommended_tools clock (tool_manager agent)
                            (recommended_tools decision) w of
                       (Inl e, tm1, w1) \<Rightarrow> (Inl e, agent\<lparr>tool_manager := tm1\<rparr>, w1)
                     | (Inr tool_results, tm1, w1) \<Rightarrow>
                         (case clock w1 of
                            (updated, w2) \<Rightarrow>
                              generate_response_with_tools report render
                                (agent\<lparr>tool_manager := tm1,
                                       memory := update_working_memory (memory agent)
                                                   ''recent_tool_results''
                                                   (VList (map model_dump tool_results))
                                                   updated\<rparr>)
                                user_input tool_results w2))
               else generate_simple_response report agent user_input w)
      else generate_simple_response report agent user_input w)"

text \<open>
  \<^verbatim>\<open>Agent.process_request\<close>.  It returns the dict for the caller or the exception that reaches
  the caller, the agent and the world.  The handler is \<^verbatim>\<open>except Exception\<close>: it turns an
  exception into the dict with \<^verbatim>\<open>success = False\<close>, and an exception of a class outside
  \<^verbatim>\<open>Exception\<close> leaves the function.
\<close>

definition process_request ::
    "(string \<Rightarrow> string)
       \<Rightarrow> (string \<Rightarrow> ToolResult \<Rightarrow> 'w ToolManager \<Rightarrow> 'w \<Rightarrow> (py_raise + string list) \<times> 'w ToolManager \<times> 'w)
       \<Rightarrow> ('w \<Rightarrow> datetime \<times> 'w) \<Rightarrow> 'w Agent \<Rightarrow> string \<Rightarrow> bool \<Rightarrow> 'w
       \<Rightarrow> (py_raise + pydict) \<times> 'w Agent \<times> 'w" where
  "process_request report render clock agent user_input with_tools w =
     (case clock w of
        (start_time, w0) \<Rightarrow>
          (case clock w0 of
             (t1, w1) \<Rightarrow>
               (case clock w1 of
                  (t2, w2) \<Rightarrow>
                    (let agent0 =
                           agent\<lparr>memory :=
                                   add_to_short_term (memory agent)
                                     [(''type'', VStr ''user_input''),
                                      (''content'', VStr user_input),
                                      (''conversation_id'', VStr (conversation_id agent))]
                                     t1 t2\<rparr>
                     in case respond report render clock agent0 user_input with_tools w2 of
                          (Inr answer, agent1, w3) \<Rightarrow>
                            (case clock w3 of
                               (t3, w4) \<Rightarrow>
                                 (case clock w4 of
                                    (t4, w5) \<Rightarrow>
                                      (case clock w5 of
                                         (finished, w6) \<Rightarrow>
                                           (let mem =
                                                  add_to_short_term (memory agent1)
                                                    [(''type'', VStr ''agent_response''),
                                                     (''content'', VStr (response answer)),
                                                     (''conversation_id'',
                                                        VStr (conversation_id agent1)),
                                                     (''tools_used'',
                                                        VList (map VStr (tools_used answer)))]
                                                    t3 t4
                                            in (Inr [(''success'', VBool True),
                                                     (''response'', VStr (response answer)),
                                                     (''tools_used'',
                                                        VList (map VStr (tools_used answer))),
                                                     (''conversation_id'',
                                                        VStr (conversation_id agent1)),
                                                     (''execution_time'',
                                                        VFloat (total_seconds finished start_time)),
                                                     (''memory_items'',
                                                        VInt (int (length (short_term_memory mem))))],
                                                agent1\<lparr>memory := mem\<rparr>, w6)))))
                        | (Inl (Exc e), agent1, w3) \<Rightarrow>
                            (case clock w3 of
                               (finished, w4) \<Rightarrow>
                                 (case clock w4 of
                                    (t3, w5) \<Rightarrow>
                                      (case clock w5 of
                                         (t4, w6) \<Rightarrow>
                                           (Inr [(''success'', VBool False),
                                                 (''error'', VStr (exn_str e)),
                                                 (''execution_time'',
                                                    VFloat (total_seconds finished start_time)),
                                                 (''conversation_id'',
                                                    VStr (conversation_id agent1))],
                                            agent1\<lparr>memory :=
                                                     add_to_short_term (memory agent1)
                                                       [(''type'', VStr ''error''),
                                                        (''content'', VStr (exn_str e)),
                                                        (''conversation_id'',
                                                           VStr (conversation_id agent1))]
                                                       t3 t4\<rparr>, w6))))
                        | (Inl (BaseExc c s), agent1, w3) \<Rightarrow>
                            (Inl (BaseExc c s), agent1, w3)))))"

section \<open>Example values\<close>

definition example_clock :: datetime where
  "example_clock = \<lparr>epoch_seconds = 0, isoformat = ''2024-01-01T00:00:00+00:00''\<rparr>"

definition example_memory :: AgentMemory where
  "example_memory =
     \<lparr>memory_id = ''m'', short_term_memory = [], long_term_memory = [], working_memory = [],
      created_at = example_clock, updated_at = example_clock\<rparr>"

definition example_items :: "(pydict \<times> datetime \<times> datetime) list" where
  "example_items =
     map (\<lambda>n. ([(''content'', VInt (int n))], example_clock, example_clock)) [0..<51]"

text \<open>An index that counts its calls in the world and answers every query with two results.\<close>

definition example_chunk :: DocumentChunk where
  "example_chunk =
     \<lparr>chunk_id = ''geo_0000'', content = ''Paris is the capital of France.'', chunk_index = 0,
      source_document = ''geo'', chunk_metadata = []\<rparr>"

definition example_results :: "SearchResult list" where
  "example_results =
     [\<lparr>chunk = example_chunk, score = 3 / 10, rank = 0, search_metadata = []\<rparr>,
      \<lparr>chunk = example_chunk, score = 9 / 10, rank = 1, search_metadata = []\<rparr>]"

definition example_store :: "nat VectorStore" where
  "example_store =
     \<lparr>similarity_search = (\<lambda>query k calls. (Inr example_results, Suc calls)),
      add_documents = (\<lambda>chunks calls. (Inr True, calls))\<rparr>"

text \<open>
  A manager with a tool that raises, a tool that is disabled, a tool that returns and a tool
  whose \<^verbatim>\<open>await\<close> is cancelled; the world counts the calls of \<^verbatim>\<open>execute\<close>.
\<close>

definition example_now :: "nat \<Rightarrow> datetime \<times> nat" where
  "example_now w = (example_clock, w)"

definition raising_tool :: "nat Tool" where
  "raising_tool =
     \<lparr>name = ''raising'', description = ''always raises'', tool_type = UTILITY, enabled = True,
      execute = (\<lambda>kwargs w. (Inl (Exc (PyExn ''ValueError'' ''boom'')), Suc w))\<rparr>"

definition disabled_tool :: "nat Tool" where
  "disabled_tool = raising_tool\<lparr>name := ''off'', enabled := False\<rparr>"

definition example_success :: ToolResult where
  "example_success =
     \<lparr>tool_name = ''echo'', success = True, result = VStr ''done'', error = None,
      execution_time = 1 / 4, metadata = []\<rparr>"

definition echo_tool :: "nat Tool" where
  "echo_tool =
     \<lparr>name = ''echo'', description = ''returns a result'', tool_type = UTILITY, enabled = True,
      execute = (\<lambda>kwargs w. (Inr example_success, Suc w))\<rparr>"

definition cancelled_tool :: "nat Tool" where
  "cancelled_tool =
     \<lparr>name = ''cancelled'', description = ''is cancelled'', tool_type = UTILITY, enabled = True,
      execute = (\<lambda>kwargs w. (Inl (BaseExc ''CancelledError'' []), Suc w))\<rparr>"

definition example_manager :: "nat ToolManager" where
  "example_manager =
     \<lparr>tools = [(''raising'', raising_tool), (''off'', disabled_tool), (''echo'', echo_tool),
               (''cancelled'', cancelled_tool)],
      execution_history = []\<rparr>"

text \<open>
  A splitter library whose constructors raise when the overlap is larger than the size, and
  whose splitters cut a text into pieces of the chunk size.
\<close>

fun pieces :: "nat \<Rightarrow> nat \<Rightarrow> string \<Rightarrow> string list" where
  "pieces 0 csize text = []"
| "pieces (Suc fuel) csize text =
     (if text = [] then [] else take csize text # pieces fuel csize (drop csize text))"

definition example_constructor :: "int \<Rightarrow> int \<Rightarrow> py_exn + nat" where
  "example_constructor csize overlap =
     (if overlap > csize
      then Inl (PyExn ''ValueError'' ''Got a larger chunk overlap than chunk size'')
      else Inr (nat csize))"

definition example_splitters :: "nat text_splitters" where
  "example_splitters =
     \<lparr>RecursiveCharacterTextSplitter = (\<lambda>csize overlap separators. example_constructor csize overlap),
      CharacterTextSplitter = (\<lambda>csize overlap separator. example_constructor csize overlap),
      TokenTextSplitter = example_constructor,
      split_text = (\<lambda>csize text. Inr (pieces (length text) csize text))\<rparr>"

definition wide_overlap_config :: VectorStoreConfig where
  "wide_overlap_config =
     \<lparr>vector_store_type = ''chroma'', collection_name = ''code_agent_docs'',
      persist_directory = ''./vector_store'', embedding_model = ''text-embedding-ada-002'',
      chunk_size = 100, chunk_overlap = 200, search_k = 5, search_type = ''similarity''\<rparr>"

text \<open>
  A file system in memory: the world is the list of the files with their texts.  Temporary
  files are created at one fixed path; every encoding reads a file as the text written.
\<close>

definition example_os :: "(string \<times> string) list os_env" where
  "example_os =
     \<lparr>now = (\<lambda>w. (example_clock, w)),
      named_temporary_file =
        (\<lambda>suffix text w. (Inr (''/tmp/tmpk3x9'' @ suffix), (''/tmp/tmpk3x9'' @ suffix, text) # w)),
      path_exists = (\<lambda>p w. map_of w p \<noteq> None),
      path_is_file = (\<lambda>p w. map_of w p \<noteq> None),
      access_read = (\<lambda>p w. map_of w p \<noteq> None),
      read_text =
        (\<lambda>p encoding w.
           (case map_of w p of
              None \<Rightarrow> Inl (PyExn ''FileNotFoundError'' p)
            | Some text \<Rightarrow> Inr text, w)),
      stat_size =
        (\<lambda>p w. case map_of w p of
                  None \<Rightarrow> Inl (PyExn ''FileNotFoundError'' p)
                | Some text \<Rightarrow> Inr (int (length text))),
      file_hash = (\<lambda>p w. (Inr ''d41d8cd98f00b204e9800998ecf8427e'', w)),
      absolute = (\<lambda>p w. p),
      unlink =
        (\<lambda>p w. (case map_of w p of
                   None \<Rightarrow> Inl (PyExn ''FileNotFoundError'' p)
                 | Some text \<Rightarrow> Inr (), filter (\<lambda>(q, text). q \<noteq> p) w))\<rparr>"

definition example_memory_store :: "(string \<times> string) list VectorStore" where
  "example_memory_store =
     \<lparr>similarity_search = (\<lambda>query k w. (Inr [], w)),
      add_documents = (\<lambda>cs w. (Inr True, w))\<rparr>"

definition example_manager_stats :: DocumentManager where
  "example_manager_stats =
     \<lparr>processed_documents = [], total_documents = 3, total_chunks = 7,
      last_updated = Some ''2024-01-01T00:00:00''\<rparr>"

definition example_kb_tool :: "((string \<times> string) list, nat) AddToKnowledgeBaseTool" where
  "example_kb_tool =
     \<lparr>kb_vector_store = example_memory_store,
      kb_processor =
        \<lparr>loaders = initialize_loaders example_os None None,
         chunker = \<lparr>chunker_strategy = RECURSIVE, chunker_chunk_size = 1000,
                    chunker_chunk_overlap = 200, chunker_splitter = 1000\<rparr>\<rparr>,
      kb_document_manager = Some example_manager_stats\<rparr>"

text \<open>
  An agent whose LLM client raises on every call, with the example index, the example tool
  manager and a rendering that gives no text; the same agent with an index that is down, with
  an index whose search is interrupted, with a text analysis that is cancelled, and a text
  analysis whose payload the rendering cannot read.
\<close>

definition failing_client :: "llm_message list \<Rightarrow> nat \<Rightarrow> (py_raise + completion) \<times> nat" where
  "failing_client messages w = (Inl (Exc (PyExn ''RuntimeError'' ''service unavailable'')), w)"

definition example_chain :: "nat RAGChain" where
  "example_chain =
     \<lparr>vector_store = example_store, llm_client = Some failing_client, conversations = []\<rparr>"

definition example_agent :: "nat Agent" where
  "example_agent =
     \<lparr>rag_chain = example_chain, memory = example_memory, tool_manager = example_manager,
      conversation_id = ''c-1''\<rparr>"

definition example_render ::
    "string \<Rightarrow> ToolResult \<Rightarrow> nat ToolManager \<Rightarrow> nat \<Rightarrow> (py_raise + string list) \<times> nat ToolManager \<times> nat" where
  "example_render user_input r tm w = (Inr [], tm, w)"

definition example_report :: "string \<Rightarrow> string" where
  "example_report message = ''1 validation error: '' @ message"

definition down_store :: "nat VectorStore" where
  "down_store =
     \<lparr>similarity_search =
        (\<lambda>query k calls. (Inl (Exc (PyExn ''ConnectionError'' ''index down'')), Suc calls)),
      add_documents = (\<lambda>chunks calls. (Inr True, calls))\<rparr>"

definition interrupted_store :: "nat VectorStore" where
  "interrupted_store =
     \<lparr>similarity_search =
        (\<lambda>query k calls. (Inl (BaseExc ''KeyboardInterrupt'' []), Suc calls)),
      add_documents = (\<lambda>chunks calls. (Inr True, calls))\<rparr>"

definition down_agent :: "nat Agent" where
  "down_agent = example_agent\<lparr>rag_chain := example_chain\<lparr>vector_store := down_store\<rparr>\<rparr>"

definition interrupted_agent :: "nat Agent" where
  "interrupted_agent =
     example_agent\<lparr>rag_chain := example_chain\<lparr>vector_store := interrupted_store\<rparr>\<rparr>"

definition cancelled_agent :: "nat Agent" where
  "cancelled_agent =
     example_agent\<lparr>tool_manager :=
                     \<lparr>tools = [(''text_analysis'', cancelled_tool\<lparr>name := ''text_analysis''\<rparr>)],
                      execution_history = []\<rparr>\<rparr>"

definition analysis_agent :: "nat Agent" where
  "analysis_agent =
     example_agent\<lparr>tool_manager :=
                     \<lparr>tools = [(''text_analysis'', echo_tool\<lparr>name := ''text_analysis''\<rparr>)],
                      execution_history = []\<rparr>\<rparr>"

definition unreadable_render ::
    "string \<Rightarrow> ToolResult \<Rightarrow> nat ToolManager \<Rightarrow> nat \<Rightarrow> (py_raise + string list) \<times> nat ToolManager \<times> nat" where
  "unreadable_render user_input r tm w =
     (Inl (Exc (PyExn ''AttributeError''
                  (apostrophe @ ''str'' @ apostrophe @ '' object has no attribute ''
                   @ apostrophe @ ''get'' @ apostrophe))), tm, w)"

section \<open>Properties\<close>


lemma py_startswith_iff: "py_startswith s k \<longleftrightarrow> (\<exists>q. s = k @ q)"
  by (induction s k rule: py_startswith.induct) auto

lemma py_in_iff: "py_in k s \<longleftrightarrow> (\<exists>p q. s = p @ k @ q)"
proof (induction s)
  case Nil
  then show ?case by auto
next
  case (Cons c cs)
  show ?case
  proof
    assume "py_in k (c # cs)"
    then consider "py_startswith (c # cs) k" | "py_in k cs" by auto
    then show "\<exists>p q. c # cs = p @ k @ q"
    proof cases
      case 1
      then obtain q where "c # cs = k @ q" by (auto simp: py_startswith_iff)
      then have "c # cs = [] @ k @ q" by simp
      then show ?thesis by blast
    next
      case 2
      then obtain p q where "cs = p @ k @ q" using Cons.IH by auto
      then have "c # cs = (c # p) @ k @ q" by simp
      then show ?thesis by blast
    qed
  next
    assume "\<exists>p q. c # cs = p @ k @ q"
    then obtain p q where pq: "c # cs = p @ k @ q" by auto
    show "py_in k (c # cs)"
    proof (cases p)
      case Nil
      with pq have "py_startswith (c # cs) k" by (auto simp: py_startswith_iff)
      then show ?thesis by simp
    next
      case (Cons a p')
      with pq have "cs = p' @ k @ q" by simp
      then have "py_in k cs" using Cons.IH by blast
      then show ?thesis by simp
    qed
  qed
qed

lemma any_keyword_in_iff:
  "any_keyword_in keywords s \<longleftrightarrow> (\<exists>kw\<in>set keywords. \<exists>p q. s = p @ kw @ q)"
  by (simp add: any_keyword_in_def list_ex_iff py_in_iff)

lemma detect_in_find:
  "detect_in table s = map_option fst (find (\<lambda>(language, keywords). any_keyword_in keywords s) table)"
  by (induction table s rule: detect_in.induct) auto

lemma short_term_add:
  "short_term_memory (add_to_short_term mem i t1 t2) =
     drop (length (short_term_memory mem) + 1 - 50) (short_term_memory mem @ [stamp_item i t1])"
  by (simp add: add_to_short_term_def Let_def)

lemma short_term_add_length: "length (short_term_memory (add_to_short_term mem i t1 t2)) \<le> 50"
  by (simp add: add_to_short_term_def Let_def)

lemma short_term_add_all:
  "items \<noteq> [] \<Longrightarrow>
   short_term_memory (add_all_to_short_term mem items) =
     drop (length (short_term_memory mem) + length items - 50)
       (short_term_memory mem @ map (\<lambda>(i, t1, t2). stamp_item i t1) items)"
proof (induction items arbitrary: mem)
  case Nil
  then show ?case by simp
next
  case (Cons x rest)
  obtain i t1 t2 where x: "x = (i, t1, t2)" by (cases x) auto
  show ?case
  proof (cases "rest = []")
    case True
    then show ?thesis by (simp add: x short_term_add)
  next
    case False
    let ?m = "add_to_short_term mem i t1 t2"
    let ?f = "\<lambda>(i, t1, t2). stamp_item i t1"
    let ?old = "short_term_memory mem"
    have stm: "short_term_memory ?m = drop (length ?old + 1 - 50) (?old @ [stamp_item i t1])"
      by (rule short_term_add)
    have "short_term_memory (add_all_to_short_term mem (x # rest)) =
            short_term_memory (add_all_to_short_term ?m rest)"
      by (simp add: x)
    also have "\<dots> = drop (length (short_term_memory ?m) + length rest - 50)
                      (short_term_memory ?m @ map ?f rest)"
      using Cons.IH [OF False] .
    also have "\<dots> = drop (length ?old + length (x # rest) - 50) (?old @ map ?f (x # rest))"
    proof (cases "49 \<le> length ?old")
      case True
      then show ?thesis unfolding stm by (simp add: x drop_append add.commute)
    next
      case False
      then show ?thesis unfolding stm by (simp add: x drop_append)
    qed
    finally show ?thesis .
  qed
qed


text \<open>
  Claim C4.  After more than 50 appends through \<^verbatim>\<open>add_to_short_term\<close>, whatever the memory
  held before, the short-term memory is exactly the last 50 appended items (each with its
  timestamp), in the order of insertion; and after any single append the short-term memory
  has at most 50 entries.
\<close>

theorem short_term_memory_keeps_last_50:
  "(50 < length items \<longrightarrow>
      short_term_memory (add_all_to_short_term mem items) =
        drop (length items - 50) (map (\<lambda>(memory_item, t1, t2). stamp_item memory_item t1) items))
   \<and> length (short_term_memory (add_to_short_term mem' memory_item t1 t2)) \<le> 50"
proof (intro conjI impI)
  assume n: "50 < length items"
  then have "items \<noteq> []" by auto
  from short_term_add_all [OF this, of mem] n
  show "short_term_memory (add_all_to_short_term mem items) =
        drop (length items - 50) (map (\<lambda>(memory_item, t1, t2). stamp_item memory_item t1) items)"
    by (simp add: drop_append)
next
  show "length (short_term_memory (add_to_short_term mem' memory_item t1 t2)) \<le> 50"
    by (rule short_term_add_length)
qed

theorem short_term_memory_keeps_last_50_witness:
  "50 < length example_items
   \<and> short_term_memory (add_all_to_short_term example_memory example_items) =
       drop 1 (map (\<lambda>(memory_item, t1, t2). stamp_item memory_item t1) example_items)
   \<and> length (short_term_memory
         (add_to_short_term example_memory [(''content'', VInt 0)] example_clock example_clock)) \<le> 50"
  using short_term_memory_keeps_last_50
          [of example_items example_memory example_memory "[(''content'', VInt 0)]"
              example_clock example_clock]
  by (simp add: example_items_def)

text \<open>
  Claim C9.  \<^verbatim>\<open>_basic_analysis("")\<close> returns a dict (it does not raise) with
  \<^verbatim>\<open>character_count\<close>, \<^verbatim>\<open>word_count\<close> and \<^verbatim>\<open>average_word_length\<close> all 0; the split on
  the newline gives one empty line, so \<^verbatim>\<open>line_count\<close> is 1 and \<^verbatim>\<open>paragraph_count\<close> is 0.
\<close>

theorem basic_analysis_empty:
  "basic_analysis '''' =
     Inr [(''character_count'', VInt 0), (''word_count'', VInt 0), (''line_count'', VInt 1),
          (''paragraph_count'', VInt 0), (''average_word_length'', VInt 0)]"
  by (simp add: basic_analysis_def average_word_length_def py_split_def py_split_on_def
        py_strip_def)

lemma detect_python: 
  assumes "s = p @ ''python'' @ q"
  shows "detect_in language_keywords s = Some ''python''"
proof -
  have "py_in ''python'' s" using assms py_in_iff by blast
  then show ?thesis
    by (simp add: language_keywords_def any_keyword_in_def)
qed

text \<open>
  Claim C8.  When the lower-cased utterance contains both \<^verbatim>\<open>github\<close> and \<^verbatim>\<open>python\<close>, the
  recommendation list contains \<^verbatim>\<open>github_search_with_content\<close> with its \<^verbatim>\<open>language\<close>
  parameter equal to \<^verbatim>\<open>python\<close>, the first family of the language table.
\<close>

theorem github_python_recommends_repository_search:
  assumes "py_lower user_input = p1 @ ''github'' @ q1"
    and "py_lower user_input = p2 @ ''python'' @ q2"
  shows "(''github_search_with_content'',
           [(''query'', VStr user_input), (''search_type'', VStr ''code''),
            (''language'', VStr ''python''), (''fetch_content'', VBool True),
            (''max_content_files'', VInt 3)])
         \<in> set (recommended_tools (decide_tool_usage user_input))
         \<and> detect_programming_language user_input = Some ''python''"
proof -
  have lang: "detect_programming_language user_input = Some ''python''"
    unfolding detect_programming_language_def using assms(2) by (rule detect_python)
  have "py_in ''github'' (py_lower user_input)" using assms(1) py_in_iff by blast
  then have gh: "any_keyword_in keywords_for_github (py_lower user_input)"
    by (simp add: any_keyword_in_def keywords_for_github_def)
  show ?thesis
    using gh lang by (simp add: decide_tool_usage_def Let_def github_recommendation_def)
qed

theorem github_python_recommends_repository_search_witness:
  "py_lower ''Find Python code on GitHub'' = ''find python code on '' @ ''github'' @ ''''
   \<and> py_lower ''Find Python code on GitHub'' = ''find '' @ ''python'' @ '' code on github''
   \<and> (''github_search_with_content'',
           [(''query'', VStr ''Find Python code on GitHub''), (''search_type'', VStr ''code''),
            (''language'', VStr ''python''), (''fetch_content'', VBool True),
            (''max_content_files'', VInt 3)])
         \<in> set (recommended_tools (decide_tool_usage ''Find Python code on GitHub''))
   \<and> detect_programming_language ''Find Python code on GitHub'' = Some ''python''"
proof -
  have a: "py_lower ''Find Python code on GitHub'' = ''find python code on '' @ ''github'' @ ''''"
    by code_simp
  have b: "py_lower ''Find Python code on GitHub'' = ''find '' @ ''python'' @ '' code on github''"
    by code_simp
  show ?thesis
    using a b github_python_recommends_repository_search [OF a b] by blast
qed

text \<open>
  Claim C10.  The rules of the policy match by substring containment in the lower-cased
  utterance: a rule fires exactly when one of its keywords occurs somewhere in it, with any
  characters before and after (inside a word or not).  The repository-search rule excludes
  the document-search rule, the analysis rule is independent, and the language is that of
  the first family of the table with a keyword occurring in the utterance.
\<close>

theorem keyword_rules_match_substrings:
  "recommended_tools (decide_tool_usage user_input) =
     (if \<exists>kw \<in> set (keywords_for_github @ keywords_for_code_search).
           \<exists>p q. py_lower user_input = p @ kw @ q
      then [github_recommendation user_input]
      else if \<exists>kw \<in> set keywords_for_search. \<exists>p q. py_lower user_input = p @ kw @ q
      then [document_search_recommendation user_input]
      else [])
     @ (if \<exists>kw \<in> set keywords_for_analysis. \<exists>p q. py_lower user_input = p @ kw @ q
        then [text_analysis_recommendation user_input]
        else [])
   \<and> detect_programming_language user_input =
       map_option fst
         (find (\<lambda>(language, keywords). \<exists>kw \<in> set keywords. \<exists>p q. py_lower user_input = p @ kw @ q)
            language_keywords)"
proof -
  have gh: "(\<exists>kw \<in> set (keywords_for_github @ keywords_for_code_search).
               \<exists>p q. py_lower user_input = p @ kw @ q)
            \<longleftrightarrow> any_keyword_in keywords_for_github (py_lower user_input)
                \<or> any_keyword_in keywords_for_code_search (py_lower user_input)"
    by (auto simp: any_keyword_in_iff)
  show ?thesis
    unfolding gh
    by (simp add: decide_tool_usage_def Let_def detect_programming_language_def detect_in_find
          any_keyword_in_iff)
qed

theorem keyword_rules_match_substrings_witness:
  "''how'' \<in> set keywords_for_search
   \<and> py_lower ''I took a shower'' = ''i took a s'' @ ''how'' @ ''er''
   \<and> recommended_tools (decide_tool_usage ''I took a shower'') =
       [document_search_recommendation ''I took a shower'']
   \<and> ''java'' \<in> set (keywords_for_code_search)
   \<and> py_lower ''javanese'' = '''' @ ''java'' @ ''nese''
   \<and> recommended_tools (decide_tool_usage ''javanese'') = [github_recommendation ''javanese'']
   \<and> detect_programming_language ''javanese'' = Some ''java''"
proof -
  let ?u = "''I took a shower''"
  have low: "py_lower ?u = ''i took a shower''"
    by code_simp
  have no_gh: "\<not> (\<exists>kw \<in> set (keywords_for_github @ keywords_for_code_search).
                    \<exists>p q. py_lower ?u = p @ kw @ q)"
    unfolding any_keyword_in_iff [symmetric] low
    by (simp add: any_keyword_in_def keywords_for_github_def keywords_for_code_search_def)
  have srch: "\<exists>kw \<in> set keywords_for_search. \<exists>p q. py_lower ?u = p @ kw @ q"
    unfolding any_keyword_in_iff [symmetric] low
    by (simp add: any_keyword_in_def keywords_for_search_def)
  have no_an: "\<not> (\<exists>kw \<in> set keywords_for_analysis. \<exists>p q. py_lower ?u = p @ kw @ q)"
    unfolding any_keyword_in_iff [symmetric] low
    by (simp add: any_keyword_in_def keywords_for_analysis_def)
  have one: "recommended_tools (decide_tool_usage ?u) = [document_search_recommendation ?u]"
    using keyword_rules_match_substrings [of ?u] no_gh srch no_an by simp
  let ?v = "''javanese''"
  have lowv: "py_lower ?v = ''javanese''"
    by code_simp
  have gh: "\<exists>kw \<in> set (keywords_for_github @ keywords_for_code_search).
                    \<exists>p q. py_lower ?v = p @ kw @ q"
    unfolding any_keyword_in_iff [symmetric] lowv
    by (simp add: any_keyword_in_def keywords_for_github_def keywords_for_code_search_def)
  have no_anv: "\<not> (\<exists>kw \<in> set keywords_for_analysis. \<exists>p q. py_lower ?v = p @ kw @ q)"
    unfolding any_keyword_in_iff [symmetric] lowv
    by (simp add: any_keyword_in_def keywords_for_analysis_def)
  have two: "recommended_tools (decide_tool_usage ?v) = [github_recommendation ?v]"
    using keyword_rules_match_substrings [of ?v] gh no_anv by simp
  have three: "detect_programming_language ?v = Some ''java''"
    by (simp add: detect_programming_language_def lowv language_keywords_def any_keyword_in_def)
  show ?thesis
    using one two three low lowv
    by (simp add: keywords_for_search_def keywords_for_code_search_def)
qed

lemma py_strip_empty_iff: "py_strip s = [] \<longleftrightarrow> (\<forall>c \<in> set s. py_isspace c)"
proof -
  have "(\<forall>c \<in> set (dropWhile py_isspace s). py_isspace c) \<longleftrightarrow> dropWhile py_isspace s = []"
  proof
    assume a: "\<forall>c \<in> set (dropWhile py_isspace s). py_isspace c"
    show "dropWhile py_isspace s = []"
    proof (rule ccontr)
      assume n: "dropWhile py_isspace s \<noteq> []"
      then have "\<not> py_isspace (hd (dropWhile py_isspace s))" by (rule hd_dropWhile)
      moreover have "hd (dropWhile py_isspace s) \<in> set (dropWhile py_isspace s)"
        using n by simp
      ultimately show False using a by blast
    qed
  next
    assume e: "dropWhile py_isspace s = []"
    show "\<forall>c \<in> set (dropWhile py_isspace s). py_isspace c"
      unfolding e by simp
  qed
  then show ?thesis
    by (simp add: py_strip_def dropWhile_eq_Nil_conv)
qed

lemma blank_iff: "blank s \<longleftrightarrow> (\<forall>c \<in> set s. py_isspace c)"
  by (auto simp: blank_def py_strip_empty_iff)

text \<open>
  Claim C5, as amended.  For an empty or whitespace-only query \<^verbatim>\<open>retrieve_documents\<close> returns
  the empty list and leaves the world as it was (the index is not called).  For any other
  query and any \<open>k\<close>, when the index returns results (\<^verbatim>\<open>SearchResult\<close> values, whose validator
  keeps the score in the unit interval): for every threshold that is not NaN, the function
  returns the results whose score is at least the threshold, as they are (rank included) and
  in the same order; for the threshold NaN the test \<^verbatim>\<open>min_score > 0.0\<close> is false, the filter
  is skipped and every result of the index is returned.  An exception of the index reaches
  the caller.
\<close>

theorem retrieve_documents_filters_by_score:
  "((\<forall>c \<in> set query. py_isspace c) \<longrightarrow>
      retrieve_documents store query k min_score w = (Inr [], w))
   \<and> (\<not> (\<forall>c \<in> set query. py_isspace c) \<longrightarrow>
        similarity_search store query k w = (Inr results, w') \<longrightarrow>
        (\<forall>result \<in> set results. validate_score (score result)) \<longrightarrow>
        (min_score \<noteq> NaN \<longrightarrow>
           retrieve_documents store query k min_score w =
             (Inr (filter (\<lambda>result. float_le min_score (Float (score result))) results), w'))
        \<and> (min_score = NaN \<longrightarrow>
             retrieve_documents store query k min_score w = (Inr results, w')))
   \<and> (\<not> (\<forall>c \<in> set query. py_isspace c) \<longrightarrow>
        similarity_search store query k w = (Inl raised, w') \<longrightarrow>
        retrieve_documents store query k min_score w = (Inl raised, w'))"
proof (intro conjI impI)
  assume "\<forall>c \<in> set query. py_isspace c"
  then show "retrieve_documents store query k min_score w = (Inr [], w)"
    by (simp add: retrieve_documents_def blank_iff)
next
  assume nb: "\<not> (\<forall>c \<in> set query. py_isspace c)"
    and s: "similarity_search store query k w = (Inr results, w')"
    and v: "\<forall>result \<in> set results. validate_score (score result)"
    and m: "min_score \<noteq> NaN"
  have "filter (\<lambda>result. float_le min_score (Float (score result))) results = results"
    if "\<not> float_less (Float 0) min_score"
  proof -
    have "\<forall>result \<in> set results. float_le min_score (Float (score result))"
      using v that m by (cases min_score) (auto simp: validate_score_def)
    then show ?thesis by simp
  qed
  then show "retrieve_documents store query k min_score w =
          (Inr (filter (\<lambda>result. float_le min_score (Float (score result))) results), w')"
    using nb s by (auto simp: retrieve_documents_def blank_iff)
next
  assume nb: "\<not> (\<forall>c \<in> set query. py_isspace c)"
    and s: "similarity_search store query k w = (Inr results, w')"
    and m: "min_score = NaN"
  then show "retrieve_documents store query k min_score w = (Inr results, w')"
    by (auto simp: retrieve_documents_def blank_iff)
next
  assume nb: "\<not> (\<forall>c \<in> set query. py_isspace c)"
    and s: "similarity_search store query k w = (Inl raised, w')"
  then show "retrieve_documents store query k min_score w = (Inl raised, w')"
    by (auto simp: retrieve_documents_def blank_iff)
qed

theorem retrieve_documents_filters_by_score_witness:
  "list_all py_isspace ''  ''
   \<and> retrieve_documents example_store ''  '' 5 (Float (1 / 2)) 0 = (Inr [], 0)
   \<and> \<not> list_all py_isspace ''capital''
   \<and> similarity_search example_store ''capital'' 5 0 = (Inr example_results, 1)
   \<and> list_all (\<lambda>result. validate_score (score result)) example_results
   \<and> Float (1 / 2) \<noteq> NaN
   \<and> retrieve_documents example_store ''capital'' 5 (Float (1 / 2)) 0 =
       (Inr [\<lparr>chunk = example_chunk, score = 9 / 10, rank = 1, search_metadata = []\<rparr>], 1)
   \<and> retrieve_documents example_store ''capital'' 5 NaN 0 = (Inr example_results, 1)
   \<and> similarity_search down_store ''capital'' 5 0 =
       (Inl (Exc (PyExn ''ConnectionError'' ''index down'')), 1)
   \<and> retrieve_documents down_store ''capital'' 5 (Float (1 / 2)) 0 =
       (Inl (Exc (PyExn ''ConnectionError'' ''index down'')), 1)"
proof -
  have a: "\<forall>c \<in> set ''  ''. py_isspace c" by (simp add: py_isspace_def)
  have b: "\<not> (\<forall>c \<in> set ''capital''. py_isspace c)" by (simp add: py_isspace_def)
  have c: "similarity_search example_store ''capital'' 5 0 = (Inr example_results, 1)"
    by (simp add: example_store_def)
  have d: "\<forall>result \<in> set example_results. validate_score (score result)"
    by (simp add: example_results_def validate_score_def)
  have e: "filter (\<lambda>result. float_le (Float (1 / 2)) (Float (score result))) example_results =
             [\<lparr>chunk = example_chunk, score = 9 / 10, rank = 1, search_metadata = []\<rparr>]"
    by (simp add: example_results_def)
  have f: "similarity_search down_store ''capital'' 5 0 =
             (Inl (Exc (PyExn ''ConnectionError'' ''index down'')), 1)"
    by (simp add: down_store_def)
  from retrieve_documents_filters_by_score
         [of "''  ''" example_store 5 "Float (1 / 2)" 0 "[]" 0 undefined]
       retrieve_documents_filters_by_score
         [of "''capital''" example_store 5 "Float (1 / 2)" 0 example_results 1 undefined]
       retrieve_documents_filters_by_score
         [of "''capital''" example_store 5 NaN 0 example_results 1 undefined]
       retrieve_documents_filters_by_score
         [of "''capital''" down_store 5 "Float (1 / 2)" 0 "[]" 1
             "Exc (PyExn ''ConnectionError'' ''index down'')"]
  show ?thesis using a b c d e f by (simp add: list_all_iff)
qed

text \<open>
  Claim C5 as stated fails for the threshold NaN: no score is at least NaN, so the
  subsequence of the claim is empty, while the function returns every result of the index.
\<close>

theorem nan_threshold_keeps_every_result:
  "retrieve_documents example_store ''capital'' 5 NaN 0 = (Inr example_results, 1)
   \<and> similarity_search example_store ''capital'' 5 0 = (Inr example_results, 1)
   \<and> filter (\<lambda>result. float_le NaN (Float (score result))) example_results = []
   \<and> example_results \<noteq> []"
  by (simp add: retrieve_documents_def blank_def py_strip_def py_isspace_def example_store_def
        example_results_def)

lemma execute_tool_bound_twice:
  "bound_twice kwargs = Some k \<Longrightarrow>
   execute_tool clock tm n kwargs w = (Inl (Exc (multiple_values k)), tm, w)"
  by (simp add: execute_tool_def)

lemma execute_tool_not_found:
  "bound_twice kwargs = None \<Longrightarrow> get_tool tm n = None \<Longrightarrow>
   execute_tool clock tm n kwargs w =
     (Inr (failed_result n (''Tool '' @ apostrophe @ n @ apostrophe @ '' not found'')), tm, w)"
  by (simp add: execute_tool_def)

lemma execute_tool_disabled:
  "bound_twice kwargs = None \<Longrightarrow> get_tool tm n = Some tool \<Longrightarrow> \<not> enabled tool \<Longrightarrow>
   execute_tool clock tm n kwargs w =
     (Inr (failed_result n (''Tool '' @ apostrophe @ n @ apostrophe @ '' is disabled'')), tm, w)"
  by (simp add: execute_tool_def)

lemma execute_tool_raises:
  "bound_twice kwargs = None \<Longrightarrow> get_tool tm n = Some tool \<Longrightarrow> enabled tool \<Longrightarrow>
   execute tool kwargs w = (Inl (Exc e), w1) \<Longrightarrow>
   execute_tool clock tm n kwargs w =
     (Inr (failed_result n (''Tool execution failed: '' @ exn_str e)),
      record_execution tm n kwargs
        (failed_result n (''Tool execution failed: '' @ exn_str e)) (fst (clock w1)),
      snd (clock w1))"
  by (simp add: execute_tool_def Let_def split: prod.splits)

lemma execute_tool_unwinds:
  "bound_twice kwargs = None \<Longrightarrow> get_tool tm n = Some tool \<Longrightarrow> enabled tool \<Longrightarrow>
   execute tool kwargs w = (Inl (BaseExc c s), w1) \<Longrightarrow>
   execute_tool clock tm n kwargs w = (Inl (BaseExc c s), tm, w1)"
  by (simp add: execute_tool_def)

lemma execute_tool_returns:
  "bound_twice kwargs = None \<Longrightarrow> get_tool tm n = Some tool \<Longrightarrow> enabled tool \<Longrightarrow>
   execute tool kwargs w = (Inr res, w1) \<Longrightarrow>
   execute_tool clock tm n kwargs w =
     (Inr res, record_execution tm n kwargs res (fst (clock w1)), snd (clock w1))"
  by (simp add: execute_tool_def split: prod.splits)

lemma example_tools:
  "get_tool example_manager ''missing'' = None"
  "get_tool example_manager ''off'' = Some disabled_tool"
  "get_tool example_manager ''raising'' = Some raising_tool"
  "get_tool example_manager ''echo'' = Some echo_tool"
  "get_tool example_manager ''cancelled'' = Some cancelled_tool"
  "\<not> enabled disabled_tool" "enabled raising_tool" "enabled echo_tool" "enabled cancelled_tool"
  by (simp_all add: get_tool_def example_manager_def disabled_tool_def raising_tool_def
        echo_tool_def cancelled_tool_def)

lemma example_kwargs:
  "bound_twice [] = None"
  "bound_twice [(''x'', VInt 1)] = None"
  "bound_twice [(''text'', VStr ''hi''), (''tool_name'', VStr ''echo'')] = Some ''tool_name''"
  "bound_twice [(''self'', VNone)] = Some ''self''"
  by (simp_all add: bound_twice_def)

text \<open>
  Claim C1, as amended.  A call of \<^verbatim>\<open>execute_tool\<close> whose keyword arguments include the name
  \<^verbatim>\<open>tool_name\<close> or \<^verbatim>\<open>self\<close> raises \<^verbatim>\<open>TypeError\<close> to the caller.  For every other keyword arguments
  and every name: an unknown name gives the failure \<^verbatim>\<open>Tool '<name>' not found\<close> with execution
  time 0, a disabled tool the failure \<^verbatim>\<open>Tool '<name>' is disabled\<close>; an exception of a class
  under \<^verbatim>\<open>Exception\<close> raised by the tool's \<^verbatim>\<open>execute\<close> is caught and gives the failure whose
  error is \<^verbatim>\<open>Tool execution failed: \<close> followed by the exception's string; an exception of a
  class outside \<^verbatim>\<open>Exception\<close> raised by the tool's \<^verbatim>\<open>execute\<close> reaches the caller; otherwise the
  call gives the result that the tool returned.
\<close>

theorem execute_tool_always_returns_result:
  "(bound_twice kwargs = Some k \<longrightarrow>
      fst (execute_tool clock tm n kwargs w) = Inl (Exc (multiple_values k))
      \<and> exn_class (multiple_values k) = ''TypeError'')
   \<and> (bound_twice kwargs = None \<longrightarrow> get_tool tm n = None \<longrightarrow>
        fst (execute_tool clock tm n kwargs w) =
          Inr \<lparr>tool_name = n, success = False, result = VNone,
               error = Some (''Tool '' @ apostrophe @ n @ apostrophe @ '' not found''),
               execution_time = 0, metadata = []\<rparr>)
   \<and> (bound_twice kwargs = None \<longrightarrow> get_tool tm n = Some tool \<longrightarrow> \<not> enabled tool \<longrightarrow>
        fst (execute_tool clock tm n kwargs w) =
          Inr \<lparr>tool_name = n, success = False, result = VNone,
               error = Some (''Tool '' @ apostrophe @ n @ apostrophe @ '' is disabled''),
               execution_time = 0, metadata = []\<rparr>)
   \<and> (bound_twice kwargs = None \<longrightarrow> get_tool tm n = Some tool \<longrightarrow> enabled tool \<longrightarrow>
        fst (execute tool kwargs w) = Inl (Exc e) \<longrightarrow>
        fst (execute_tool clock tm n kwargs w) =
          Inr \<lparr>tool_name = n, success = False, result = VNone,
               error = Some (''Tool execution failed: '' @ exn_str e),
               execution_time = 0, metadata = []\<rparr>)
   \<and> (bound_twice kwargs = None \<longrightarrow> get_tool tm n = Some tool \<longrightarrow> enabled tool \<longrightarrow>
        fst (execute tool kwargs w) = Inl (BaseExc c s) \<longrightarrow>
        fst (execute_tool clock tm n kwargs w) = Inl (BaseExc c s))
   \<and> (bound_twice kwargs = None \<longrightarrow> get_tool tm n = Some tool \<longrightarrow> enabled tool \<longrightarrow>
        fst (execute tool kwargs w) = Inr res \<longrightarrow>
        fst (execute_tool clock tm n kwargs w) = Inr res)"
proof (intro conjI impI)
  assume "bound_twice kwargs = Some k"
  then show "fst (execute_tool clock tm n kwargs w) = Inl (Exc (multiple_values k))"
    by (simp add: execute_tool_bound_twice)
next
  show "exn_class (multiple_values k) = ''TypeError''"
    by (simp add: multiple_values_def)
next
  assume "bound_twice kwargs = None" "get_tool tm n = None"
  then show "fst (execute_tool clock tm n kwargs w) =
          Inr \<lparr>tool_name = n, success = False, result = VNone,
               error = Some (''Tool '' @ apostrophe @ n @ apostrophe @ '' not found''),
               execution_time = 0, metadata = []\<rparr>"
    by (simp add: execute_tool_not_found failed_result_def)
next
  assume "bound_twice kwargs = None" "get_tool tm n = Some tool" "\<not> enabled tool"
  then show "fst (execute_tool clock tm n kwargs w) =
          Inr \<lparr>tool_name = n, success = False, result = VNone,
               error = Some (''Tool '' @ apostrophe @ n @ apostrophe @ '' is disabled''),
               execution_time = 0, metadata = []\<rparr>"
    by (simp add: execute_tool_disabled failed_result_def)
next
  assume a: "bound_twice kwargs = None" "get_tool tm n = Some tool" "enabled tool"
    and r: "fst (execute tool kwargs w) = Inl (Exc e)"
  obtain w1 where "execute tool kwargs w = (Inl (Exc e), w1)"
    using r by (cases "execute tool kwargs w") auto
  from execute_tool_raises [OF a this]
  show "fst (execute_tool clock tm n kwargs w) =
          Inr \<lparr>tool_name = n, success = False, result = VNone,
               error = Some (''Tool execution failed: '' @ exn_str e),
               execution_time = 0, metadata = []\<rparr>"
    by (simp add: failed_result_def)
next
  assume a: "bound_twice kwargs = None" "get_tool tm n = Some tool" "enabled tool"
    and r: "fst (execute tool kwargs w) = Inl (BaseExc c s)"
  obtain w1 where "execute tool kwargs w = (Inl (BaseExc c s), w1)"
    using r by (cases "execute tool kwargs w") auto
  from execute_tool_unwinds [OF a this]
  show "fst (execute_tool clock tm n kwargs w) = Inl (BaseExc c s)"
    by simp
next
  assume a: "bound_twice kwargs = None" "get_tool tm n = Some tool" "enabled tool"
    and r: "fst (execute tool kwargs w) = Inr res"
  obtain w1 where "execute tool kwargs w = (Inr res, w1)"
    using r by (cases "execute tool kwargs w") auto
  from execute_tool_returns [OF a this]
  show "fst (execute_tool clock tm n kwargs w) = Inr res"
    by simp
qed

theorem execute_tool_always_returns_result_witness:
  "bound_twice [(''text'', VStr ''hi''), (''tool_name'', VStr ''echo'')] = Some ''tool_name''
   \<and> fst (execute_tool example_now example_manager ''echo''
             [(''text'', VStr ''hi''), (''tool_name'', VStr ''echo'')] 0) =
        Inl (Exc (multiple_values ''tool_name''))
   \<and> exn_class (multiple_values ''tool_name'') = ''TypeError''
   \<and> bound_twice [] = None
   \<and> get_tool example_manager ''missing'' = None
   \<and> fst (execute_tool example_now example_manager ''missing'' [] 0) =
        Inr \<lparr>tool_name = ''missing'', success = False, result = VNone,
             error = Some (''Tool '' @ apostrophe @ ''missing'' @ apostrophe @ '' not found''),
             execution_time = 0, metadata = []\<rparr>
   \<and> get_tool example_manager ''off'' = Some disabled_tool
   \<and> \<not> enabled disabled_tool
   \<and> fst (execute_tool example_now example_manager ''off'' [] 0) =
        Inr \<lparr>tool_name = ''off'', success = False, result = VNone,
             error = Some (''Tool '' @ apostrophe @ ''off'' @ apostrophe @ '' is disabled''),
             execution_time = 0, metadata = []\<rparr>
   \<and> bound_twice [(''x'', VInt 1)] = None
   \<and> get_tool example_manager ''raising'' = Some raising_tool
   \<and> enabled raising_tool
   \<and> fst (execute raising_tool [(''x'', VInt 1)] 0) = Inl (Exc (PyExn ''ValueError'' ''boom''))
   \<and> fst (execute_tool example_now example_manager ''raising'' [(''x'', VInt 1)] 0) =
        Inr \<lparr>tool_name = ''raising'', success = False, result = VNone,
             error = Some ''Tool execution failed: boom'',
             execution_time = 0, metadata = []\<rparr>
   \<and> get_tool example_manager ''cancelled'' = Some cancelled_tool
   \<and> enabled cancelled_tool
   \<and> fst (execute cancelled_tool [] 0) = Inl (BaseExc ''CancelledError'' [])
   \<and> fst (execute_tool example_now example_manager ''cancelled'' [] 0) =
        Inl (BaseExc ''CancelledError'' [])
   \<and> get_tool example_manager ''echo'' = Some echo_tool
   \<and> enabled echo_tool
   \<and> fst (execute echo_tool [] 0) = Inr example_success
   \<and> fst (execute_tool example_now example_manager ''echo'' [] 0) = Inr example_success"
proof -
  have x3: "fst (execute raising_tool [(''x'', VInt 1)] 0) = Inl (Exc (PyExn ''ValueError'' ''boom''))"
    by (simp add: raising_tool_def)
  have x4: "fst (execute echo_tool [] 0) = Inr example_success"
    by (simp add: echo_tool_def)
  have x5: "fst (execute cancelled_tool [] 0) = Inl (BaseExc ''CancelledError'' [])"
    by (simp add: cancelled_tool_def)
  from execute_tool_always_returns_result
         [of "[(''text'', VStr ''hi''), (''tool_name'', VStr ''echo'')]" "''tool_name''"
             example_now example_manager "''echo''" 0 echo_tool undefined undefined undefined
             undefined]
       execute_tool_always_returns_result
         [of "[]" undefined example_now example_manager "''missing''" 0 disabled_tool undefined
             undefined undefined undefined]
       execute_tool_always_returns_result
         [of "[]" undefined example_now example_manager "''off''" 0 disabled_tool undefined
             undefined undefined undefined]
       execute_tool_always_returns_result
         [of "[(''x'', VInt 1)]" undefined example_now example_manager "''raising''" 0
             raising_tool "PyExn ''ValueError'' ''boom''" undefined undefined undefined]
       execute_tool_always_returns_result
         [of "[]" undefined example_now example_manager "''cancelled''" 0 cancelled_tool
             undefined "''CancelledError''" "[]" undefined]
       execute_tool_always_returns_result
         [of "[]" undefined example_now example_manager "''echo''" 0 echo_tool undefined
             undefined undefined example_success]
  show ?thesis
    using example_tools example_kwargs x3 x4 x5 by simp
qed

text \<open>
  Claim C1 as stated fails in three ways.  Where a tool raises, the error of the result is
  not the exception's string but that string behind the prefix \<^verbatim>\<open>Tool execution failed: \<close>.
  A tool whose \<^verbatim>\<open>await\<close> is cancelled raises \<^verbatim>\<open>asyncio.CancelledError\<close>, which the handler
  \<^verbatim>\<open>except Exception\<close> does not catch: the call raises.  Keyword arguments that include the
  name \<^verbatim>\<open>tool_name\<close> make the call raise \<^verbatim>\<open>TypeError\<close>.
\<close>

theorem execute_tool_error_is_prefixed:
  "get_tool example_manager ''raising'' = Some raising_tool
   \<and> enabled raising_tool
   \<and> fst (execute raising_tool [] 0) = Inl (Exc (PyExn ''ValueError'' ''boom''))
   \<and> fst (execute_tool example_now example_manager ''raising'' [] 0) =
        Inr (failed_result ''raising'' ''Tool execution failed: boom'')
   \<and> error (failed_result ''raising'' ''Tool execution failed: boom'') \<noteq>
        Some (exn_str (PyExn ''ValueError'' ''boom''))
   \<and> get_tool example_manager ''cancelled'' = Some cancelled_tool
   \<and> enabled cancelled_tool
   \<and> fst (execute cancelled_tool [] 0) = Inl (BaseExc ''CancelledError'' [])
   \<and> fst (execute_tool example_now example_manager ''cancelled'' [] 0) =
        Inl (BaseExc ''CancelledError'' [])
   \<and> get_tool example_manager ''echo'' = Some echo_tool
   \<and> enabled echo_tool
   \<and> fst (execute_tool example_now example_manager ''echo''
             [(''text'', VStr ''hi''), (''tool_name'', VStr ''echo'')] 0) =
        Inl (Exc (multiple_values ''tool_name''))"
  by (simp add: execute_tool_def get_tool_def example_manager_def raising_tool_def
        disabled_tool_def echo_tool_def cancelled_tool_def example_now_def failed_result_def
        record_execution_def bound_twice_def Let_def)

text \<open>
  Claim C3, as amended.  A call for a tool that is registered and enabled, with keyword
  arguments that do not include the names \<^verbatim>\<open>tool_name\<close> and \<^verbatim>\<open>self\<close>, appends exactly one entry
  to the execution history when the tool returns (a success or a failure) or raises an
  exception of a class under \<^verbatim>\<open>Exception\<close>: the entry has the name, the parameters, the result
  returned to the caller and the timestamp read after the tool has run.  Every other call
  appends nothing: a call for an unknown name or for a disabled tool returns before the tool
  runs and leaves the manager and the world as they were; a call whose tool raises an
  exception of a class outside \<^verbatim>\<open>Exception\<close> raises it and leaves the manager as it was; a
  call whose keyword arguments include \<^verbatim>\<open>tool_name\<close> or \<^verbatim>\<open>self\<close> raises before the body runs.
\<close>

theorem execute_tool_history:
  "(bound_twice kwargs = None \<longrightarrow> get_tool tm n = Some tool \<longrightarrow> enabled tool \<longrightarrow>
      execute tool kwargs w = (Inr res, w1) \<longrightarrow>
      execute_tool clock tm n kwargs w =
        (Inr res,
         tm\<lparr>execution_history := execution_history tm @
              [\<lparr>entry_tool_name = n, entry_parameters = kwargs, entry_result = res,
                entry_timestamp = isoformat (fst (clock w1))\<rparr>]\<rparr>,
         snd (clock w1)))
   \<and> (bound_twice kwargs = None \<longrightarrow> get_tool tm n = Some tool \<longrightarrow> enabled tool \<longrightarrow>
        execute tool kwargs w = (Inl (Exc e), w1) \<longrightarrow>
        execute_tool clock tm n kwargs w =
          (Inr (failed_result n (''Tool execution failed: '' @ exn_str e)),
           tm\<lparr>execution_history := execution_history tm @
                [\<lparr>entry_tool_name = n, entry_parameters = kwargs,
                  entry_result = failed_result n (''Tool execution failed: '' @ exn_str e),
                  entry_timestamp = isoformat (fst (clock w1))\<rparr>]\<rparr>,
           snd (clock w1)))
   \<and> (bound_twice kwargs = None \<longrightarrow> get_tool tm n = Some tool \<longrightarrow> enabled tool \<longrightarrow>
        execute tool kwargs w = (Inl (BaseExc c s), w1) \<longrightarrow>
        execute_tool clock tm n kwargs w = (Inl (BaseExc c s), tm, w1))
   \<and> (bound_twice kwargs = None \<longrightarrow> get_tool tm n = None \<longrightarrow>
        snd (execute_tool clock tm n kwargs w) = (tm, w))
   \<and> (bound_twice kwargs = None \<longrightarrow> get_tool tm n = Some tool \<longrightarrow> \<not> enabled tool \<longrightarrow>
        snd (execute_tool clock tm n kwargs w) = (tm, w))
   \<and> (bound_twice kwargs = Some k \<longrightarrow>
        execute_tool clock tm n kwargs w = (Inl (Exc (multiple_values k)), tm, w))"
  by (simp add: execute_tool_bound_twice execute_tool_not_found execute_tool_disabled
        execute_tool_raises execute_tool_unwinds execute_tool_returns record_execution_def)

theorem execute_tool_history_witness:
  "bound_twice [] = None
   \<and> get_tool example_manager ''echo'' = Some echo_tool
   \<and> enabled echo_tool
   \<and> execute echo_tool [] 0 = (Inr example_success, 1)
   \<and> execute_tool example_now example_manager ''echo'' [] 0 =
        (Inr example_success,
         example_manager\<lparr>execution_history :=
           [\<lparr>entry_tool_name = ''echo'', entry_parameters = [], entry_result = example_success,
             entry_timestamp = isoformat example_clock\<rparr>]\<rparr>, 1)
   \<and> get_tool example_manager ''raising'' = Some raising_tool
   \<and> enabled raising_tool
   \<and> execute raising_tool [] 0 = (Inl (Exc (PyExn ''ValueError'' ''boom'')), 1)
   \<and> execute_tool example_now example_manager ''raising'' [] 0 =
        (Inr (failed_result ''raising'' ''Tool execution failed: boom''),
         example_manager\<lparr>execution_history :=
           [\<lparr>entry_tool_name = ''raising'', entry_parameters = [],
             entry_result = failed_result ''raising'' ''Tool execution failed: boom'',
             entry_timestamp = isoformat example_clock\<rparr>]\<rparr>, 1)
   \<and> get_tool example_manager ''cancelled'' = Some cancelled_tool
   \<and> enabled cancelled_tool
   \<and> execute cancelled_tool [] 0 = (Inl (BaseExc ''CancelledError'' []), 1)
   \<and> execute_tool example_now example_manager ''cancelled'' [] 0 =
        (Inl (BaseExc ''CancelledError'' []), example_manager, 1)
   \<and> get_tool example_manager ''missing'' = None
   \<and> snd (execute_tool example_now example_manager ''missing'' [] 0) = (example_manager, 0)
   \<and> get_tool example_manager ''off'' = Some disabled_tool
   \<and> \<not> enabled disabled_tool
   \<and> snd (execute_tool example_now example_manager ''off'' [] 0) = (example_manager, 0)
   \<and> bound_twice [(''self'', VNone)] = Some ''self''
   \<and> execute_tool example_now example_manager ''echo'' [(''self'', VNone)] 0 =
        (Inl (Exc (multiple_values ''self'')), example_manager, 0)"
proof -
  have x1: "execute echo_tool [] 0 = (Inr example_success, 1)"
    by (simp add: echo_tool_def)
  have x3: "execute raising_tool [] 0 = (Inl (Exc (PyExn ''ValueError'' ''boom'')), 1)"
    by (simp add: raising_tool_def)
  have x5: "execute cancelled_tool [] 0 = (Inl (BaseExc ''CancelledError'' []), 1)"
    by (simp add: cancelled_tool_def)
  have h: "execution_history example_manager = []"
    by (simp add: example_manager_def)
  from execute_tool_history
         [of "[]" example_manager "''echo''" echo_tool 0 example_success 1 example_now
             undefined undefined undefined undefined]
       execute_tool_history
         [of "[]" example_manager "''raising''" raising_tool 0 undefined 1 example_now
             "PyExn ''ValueError'' ''boom''" undefined undefined undefined]
       execute_tool_history
         [of "[]" example_manager "''cancelled''" cancelled_tool 0 undefined 1 example_now
             undefined "''CancelledError''" "[]" undefined]
       execute_tool_history
         [of "[]" example_manager "''missing''" disabled_tool 0 undefined 1 example_now
             undefined undefined undefined undefined]
       execute_tool_history
         [of "[]" example_manager "''off''" disabled_tool 0 undefined 1 example_now
             undefined undefined undefined undefined]
       execute_tool_history
         [of "[(''self'', VNone)]" example_manager "''echo''" echo_tool 0 undefined 1
             example_now undefined undefined undefined "''self''"]
  show ?thesis
    using example_tools example_kwargs x1 x3 x5 h by (simp add: example_now_def)
qed

text \<open>
  Claim C3 as stated fails for an unknown name and for a disabled tool, and also for a tool
  whose \<^verbatim>\<open>await\<close> is cancelled: the call appends nothing to the history.
\<close>

theorem execute_tool_unknown_not_recorded:
  "get_tool example_manager ''missing'' = None
   \<and> execution_history (fst (snd (execute_tool example_now example_manager ''missing'' [] 0))) = []
   \<and> execution_history example_manager = []
   \<and> get_tool example_manager ''off'' = Some disabled_tool
   \<and> \<not> enabled disabled_tool
   \<and> execution_history (fst (snd (execute_tool example_now example_manager ''off'' [] 0))) = []
   \<and> get_tool example_manager ''cancelled'' = Some cancelled_tool
   \<and> enabled cancelled_tool
   \<and> execution_history
        (fst (snd (execute_tool example_now example_manager ''cancelled'' [] 0))) = []"
  by (simp add: execute_tool_def get_tool_def example_manager_def raising_tool_def
        disabled_tool_def echo_tool_def cancelled_tool_def bound_twice_def)

text \<open>
  Claim C7, as amended.  \<^verbatim>\<open>VectorStoreConfig\<close> accepts a configuration exactly when
  \<^verbatim>\<open>chunk_size > 0\<close>, \<^verbatim>\<open>chunk_overlap >= 0\<close> and \<^verbatim>\<open>search_k > 0\<close>, and then holds the values it
  was given: the overlap is not compared with the size.  \<^verbatim>\<open>TextChunker.__init__\<close> makes no
  check of its own: it raises exactly when the constructor of the splitter raises, with the
  same exception, and otherwise holds the size and the overlap it was given.
\<close>

theorem chunker_configuration_checks:
  "(VectorStoreConfig_init store_type collection directory model csize overlap k stype = Inr cfg
      \<longleftrightarrow> 0 < csize \<and> 0 \<le> overlap \<and> 0 < k
          \<and> cfg = \<lparr>vector_store_type = store_type, collection_name = collection,
                    persist_directory = directory, embedding_model = model,
                    chunk_size = csize, chunk_overlap = overlap, search_k = k,
                    search_type = stype\<rparr>)
   \<and> (TextChunker_init lib strategy csize overlap = Inl e
        \<longleftrightarrow> create_splitter lib strategy csize overlap = Inl e)
   \<and> (TextChunker_init lib strategy csize overlap = Inr built
        \<longrightarrow> chunker_chunk_size built = csize \<and> chunker_chunk_overlap built = overlap
            \<and> create_splitter lib strategy csize overlap = Inr (chunker_splitter built))"
  by (auto simp: VectorStoreConfig_init_def TextChunker_init_def split: sum.splits)

theorem chunker_configuration_checks_witness:
  "VectorStoreConfig_init ''chroma'' ''code_agent_docs'' ''./vector_store''
       ''text-embedding-ada-002'' 100 100 5 ''similarity'' =
     Inr \<lparr>vector_store_type = ''chroma'', collection_name = ''code_agent_docs'',
          persist_directory = ''./vector_store'', embedding_model = ''text-embedding-ada-002'',
          chunk_size = 100, chunk_overlap = 100, search_k = 5, search_type = ''similarity''\<rparr>
   \<and> TextChunker_init example_splitters RECURSIVE 100 200 =
       Inl (PyExn ''ValueError'' ''Got a larger chunk overlap than chunk size'')
   \<and> create_splitter example_splitters RECURSIVE 100 200 =
       Inl (PyExn ''ValueError'' ''Got a larger chunk overlap than chunk size'')
   \<and> TextChunker_init example_splitters RECURSIVE 100 100 =
       Inr \<lparr>chunker_strategy = RECURSIVE, chunker_chunk_size = 100,
            chunker_chunk_overlap = 100, chunker_splitter = 100\<rparr>
   \<and> create_splitter example_splitters RECURSIVE 100 100 = Inr 100"
proof -
  have c1: "create_splitter example_splitters RECURSIVE 100 200 =
       Inl (PyExn ''ValueError'' ''Got a larger chunk overlap than chunk size'')"
    by (simp add: create_splitter_def example_splitters_def example_constructor_def)
  have c2: "create_splitter example_splitters RECURSIVE 100 100 = Inr 100"
    by (simp add: create_splitter_def example_splitters_def example_constructor_def)
  have t2: "TextChunker_init example_splitters RECURSIVE 100 100 =
       Inr \<lparr>chunker_strategy = RECURSIVE, chunker_chunk_size = 100,
            chunker_chunk_overlap = 100, chunker_splitter = 100\<rparr>"
    by (simp add: TextChunker_init_def c2)
  from chunker_configuration_checks
         [of "''chroma''" "''code_agent_docs''" "''./vector_store''" "''text-embedding-ada-002''"
             100 100 5 "''similarity''"
             "\<lparr>vector_store_type = ''chroma'', collection_name = ''code_agent_docs'',
               persist_directory = ''./vector_store'',
               embedding_model = ''text-embedding-ada-002'',
               chunk_size = 100, chunk_overlap = 100, search_k = 5,
               search_type = ''similarity''\<rparr>"
             example_splitters RECURSIVE
             "PyExn ''ValueError'' ''Got a larger chunk overlap than chunk size''"
             undefined]
       chunker_configuration_checks
         [of "''chroma''" "''code_agent_docs''" "''./vector_store''" "''text-embedding-ada-002''"
             100 200 5 "''similarity''" undefined
             example_splitters RECURSIVE
             "PyExn ''ValueError'' ''Got a larger chunk overlap than chunk size''"
             undefined]
  show ?thesis using c1 c2 t2 by simp
qed

text \<open>
  Claim C7 as stated fails: a configuration whose overlap is not smaller than its size is
  constructed without an error.
\<close>

theorem overlap_not_below_size_is_accepted:
  "VectorStoreConfig_init ''chroma'' ''code_agent_docs'' ''./vector_store''
       ''text-embedding-ada-002'' 100 200 5 ''similarity'' = Inr wide_overlap_config
   \<and> \<not> chunk_overlap wide_overlap_config < chunk_size wide_overlap_config"
  by (simp add: VectorStoreConfig_init_def wide_overlap_config_def)

lemma load_attempts_blank:
  assumes "present w"
    and "\<forall>w. present w \<longrightarrow>
           (\<forall>encoding. \<exists>w'. read_text env file_path encoding w = (Inr [], w') \<and> present w')"
  shows "\<exists>w'. load_attempts env file_path encodings w =
           (Inl (PyExn ''ValueError''
                   (''Could not decode file '' @ file_path @ '' with any supported encoding'')),
            w') \<and> present w'"
  using assms(1)
proof (induction encodings arbitrary: w)
  case Nil
  then show ?case by simp
next
  case (Cons encoding rest)
  from assms(2) Cons.prems obtain w1
    where r: "read_text env file_path encoding w = (Inr [], w1)" and p: "present w1"
    by blast
  from Cons.IH [OF p] show ?case by (simp add: r py_strip_def)
qed

lemma process_document_blank_text_file:
  assumes "present w"
    and "path_exists env file_path w" "path_is_file env file_path w"
    and "access_read env file_path w"
    and "get_document_type file_path = TXT"
    and "loaders processor TXT = Some (TextLoader_load_content env)"
    and "\<forall>w. present w \<longrightarrow>
           (\<forall>encoding. \<exists>w'. read_text env file_path encoding w = (Inr [], w') \<and> present w')"
  shows "\<exists>w'. process_document env lib processor file_path w =
           (Inl (PyExn ''ValueError''
                   (''Failed to load content from '' @ file_path @ '': Could not decode file ''
                      @ file_path @ '' with any supported encoding'')), w') \<and> present w'"
proof -
  from load_attempts_blank [of present w env file_path encoding_attempts, OF assms(1) assms(7)]
  obtain w' where l: "load_attempts env file_path encoding_attempts w =
           (Inl (PyExn ''ValueError''
                   (''Could not decode file '' @ file_path @ '' with any supported encoding'')),
            w')" and p: "present w'" by blast
  from l have "TextLoader_load_content env file_path w =
           (Inl (PyExn ''ValueError''
                   (''Could not decode file '' @ file_path @ '' with any supported encoding'')),
            w')"
    using assms(2-4) by (simp add: TextLoader_load_content_def validate_file_def)
  then show ?thesis
    using assms(2,5,6) p by (simp add: process_document_def)
qed

text \<open>
  Claim C6, on the code.  With \<^verbatim>\<open>content=""\<close> the temporary file is empty, the text loader
  finds no encoding that gives a text and raises \<^verbatim>\<open>Could not decode file\<close>, the processor
  wraps that into \<^verbatim>\<open>Failed to load content\<close>, and the tool returns a failure whose error is
  \<^verbatim>\<open>DocumentProcessor failed: \<close> followed by that text, not the text
  \<^verbatim>\<open>No content could be extracted\<close> of the branch for a document without chunks; the document
  manager with its counters is as it was.  This holds on every file system on which the
  temporary file is created with the name of a text file and, as long as it is \<open>present\<close>,
  is found, is readable, reads as the empty text in every encoding, and can be removed.
\<close>

theorem add_empty_content_fails_without_bookkeeping:
  assumes "named_temporary_file env ''.txt'' [] (snd (now env w)) = (Inr temp_path, w1)"
    and "present w1"
    and "get_document_type temp_path = TXT"
    and "loaders (kb_processor tool) TXT = Some (TextLoader_load_content env)"
    and "\<forall>w. present w \<longrightarrow>
           path_exists env temp_path w \<and> path_is_file env temp_path w
           \<and> access_read env temp_path w
           \<and> (\<exists>bytes. stat_size env temp_path w = Inr bytes)
           \<and> present (snd (now env w))
           \<and> (\<exists>w'. unlink env temp_path w = (Inr (), w'))"
    and "\<forall>w. present w \<longrightarrow>
           (\<forall>encoding. \<exists>w'. read_text env temp_path encoding w = (Inr [], w') \<and> present w')"
  shows "\<exists>seconds w'.
           AddToKnowledgeBaseTool_execute env lib tool [] title source extra w =
             (\<lparr>tool_name = ''add_to_knowledge_base'', success = False, result = VNone,
               error = Some (''DocumentProcessor failed: Failed to load content from ''
                               @ temp_path @ '': Could not decode file '' @ temp_path
                               @ '' with any supported encoding''),
               execution_time = seconds, metadata = []\<rparr>,
              kb_document_manager tool, w')"
proof -
  obtain start_time w0 where n: "now env w = (start_time, w0)" by (cases "now env w") auto
  with assms(1) have tmp: "named_temporary_file env ''.txt'' [] w0 = (Inr temp_path, w1)" by simp
  from assms(5) assms(2) have ex: "path_exists env temp_path w1" "path_is_file env temp_path w1"
    "access_read env temp_path w1" by auto
  from process_document_blank_text_file
         [of present w1 env temp_path "kb_processor tool" lib,
          OF assms(2) ex assms(3) assms(4) assms(6)]
  obtain w2 where pd: "process_document env lib (kb_processor tool) temp_path w1 =
           (Inl (PyExn ''ValueError''
                   (''Failed to load content from '' @ temp_path @ '': Could not decode file ''
                      @ temp_path @ '' with any supported encoding'')), w2)"
    and p2: "present w2" by blast
  from assms(5) p2 have ex2: "path_exists env temp_path w2" by auto
  from assms(5) p2 obtain bytes where st: "stat_size env temp_path w2 = Inr bytes" by blast
  from assms(6) p2 obtain w3 where rd: "read_text env temp_path ''utf-8'' w2 = (Inr [], w3)"
    and p3: "present w3" by blast
  obtain finished w4 where fin: "now env w3 = (finished, w4)" by (cases "now env w3") auto
  from assms(5) p3 fin have p4: "present w4" by fastforce
  have ps: "process_and_store env lib tool [] title source extra temp_path start_time w1 =
          (Inr (kb_failure (''DocumentProcessor failed: Failed to load content from ''
                               @ temp_path @ '': Could not decode file '' @ temp_path
                               @ '' with any supported encoding'')
                  (total_seconds finished start_time)), kb_document_manager tool, w4)"
    by (simp add: process_and_store_def Let_def pd ex2 st rd fin)
  from assms(5) p4 obtain w5 where ul: "unlink env temp_path w4 = (Inr (), w5)" by blast
  have "AddToKnowledgeBaseTool_execute env lib tool [] title source extra w =
          (kb_failure (''DocumentProcessor failed: Failed to load content from ''
                               @ temp_path @ '': Could not decode file '' @ temp_path
                               @ '' with any supported encoding'')
             (total_seconds finished start_time), kb_document_manager tool, w5)"
    by (simp add: AddToKnowledgeBaseTool_execute_def n tmp ps ul)
  then show ?thesis by (simp add: kb_failure_def)
qed

lemma example_os_simps:
  "now example_os w = (example_clock, w)"
  "named_temporary_file example_os suffix text w =
     (Inr (''/tmp/tmpk3x9'' @ suffix), (''/tmp/tmpk3x9'' @ suffix, text) # w)"
  "path_exists example_os p w = (map_of w p \<noteq> None)"
  "path_is_file example_os p w = (map_of w p \<noteq> None)"
  "access_read example_os p w = (map_of w p \<noteq> None)"
  "read_text example_os p encoding w =
     (case map_of w p of None \<Rightarrow> Inl (PyExn ''FileNotFoundError'' p) | Some text \<Rightarrow> Inr text, w)"
  "stat_size example_os p w =
     (case map_of w p of None \<Rightarrow> Inl (PyExn ''FileNotFoundError'' p)
      | Some text \<Rightarrow> Inr (int (length text)))"
  "unlink example_os p w =
     (case map_of w p of None \<Rightarrow> Inl (PyExn ''FileNotFoundError'' p) | Some text \<Rightarrow> Inr (),
      filter (\<lambda>(q, text). q \<noteq> p) w)"
  by (simp_all add: example_os_def)

theorem add_empty_content_fails_without_bookkeeping_witness:
  "named_temporary_file example_os ''.txt'' [] (snd (now example_os [])) =
     (Inr ''/tmp/tmpk3x9.txt'', [(''/tmp/tmpk3x9.txt'', [])])
   \<and> get_document_type ''/tmp/tmpk3x9.txt'' = TXT
   \<and> loaders (kb_processor example_kb_tool) TXT = Some (TextLoader_load_content example_os)
   \<and> (\<exists>seconds w'.
         AddToKnowledgeBaseTool_execute example_os example_splitters example_kb_tool
             [] ''empty'' ''user_input'' None [] =
           (\<lparr>tool_name = ''add_to_knowledge_base'', success = False, result = VNone,
             error = Some (''DocumentProcessor failed: Failed to load content from ''
                             @ ''/tmp/tmpk3x9.txt'' @ '': Could not decode file ''
                             @ ''/tmp/tmpk3x9.txt'' @ '' with any supported encoding''),
             execution_time = seconds, metadata = []\<rparr>,
            kb_document_manager example_kb_tool, w'))
   \<and> kb_document_manager example_kb_tool = Some example_manager_stats
   \<and> \<not> py_in ''No content could be extracted''
         (''DocumentProcessor failed: Failed to load content from ''
            @ ''/tmp/tmpk3x9.txt'' @ '': Could not decode file ''
            @ ''/tmp/tmpk3x9.txt'' @ '' with any supported encoding'')"
proof -
  let ?present = "\<lambda>w. map_of w ''/tmp/tmpk3x9.txt'' = Some []"
  have tmp: "named_temporary_file example_os ''.txt'' [] (snd (now example_os [])) =
     (Inr ''/tmp/tmpk3x9.txt'', [(''/tmp/tmpk3x9.txt'', [])])"
    by (simp add: example_os_simps)
  have p: "?present [(''/tmp/tmpk3x9.txt'', [])]" by simp
  have t: "get_document_type ''/tmp/tmpk3x9.txt'' = TXT" by code_simp
  have ld: "loaders (kb_processor example_kb_tool) TXT = Some (TextLoader_load_content example_os)"
    by (simp add: example_kb_tool_def initialize_loaders_def)
  have inv: "\<forall>w. ?present w \<longrightarrow>
           path_exists example_os ''/tmp/tmpk3x9.txt'' w
           \<and> path_is_file example_os ''/tmp/tmpk3x9.txt'' w
           \<and> access_read example_os ''/tmp/tmpk3x9.txt'' w
           \<and> (\<exists>bytes. stat_size example_os ''/tmp/tmpk3x9.txt'' w = Inr bytes)
           \<and> ?present (snd (now example_os w))
           \<and> (\<exists>w'. unlink example_os ''/tmp/tmpk3x9.txt'' w = (Inr (), w'))"
    by (simp add: example_os_simps)
  have rd: "\<forall>w. ?present w \<longrightarrow>
           (\<forall>encoding. \<exists>w'. read_text example_os ''/tmp/tmpk3x9.txt'' encoding w = (Inr [], w')
               \<and> ?present w')"
    by (simp add: example_os_simps)
  have no: "\<not> py_in ''No content could be extracted''
         (''DocumentProcessor failed: Failed to load content from ''
            @ ''/tmp/tmpk3x9.txt'' @ '': Could not decode file ''
            @ ''/tmp/tmpk3x9.txt'' @ '' with any supported encoding'')"
    by code_simp
  have dm: "kb_document_manager example_kb_tool = Some example_manager_stats"
    by (simp add: example_kb_tool_def)
  from add_empty_content_fails_without_bookkeeping
         [of example_os "[]" "''/tmp/tmpk3x9.txt''" "[(''/tmp/tmpk3x9.txt'', [])]" ?present
             example_kb_tool example_splitters "''empty''" "''user_input''" None,
          OF tmp p t ld inv rd]
  show ?thesis using tmp t ld no dm by blast
qed

lemma recommended_not_bound_twice:
  "(n, kwargs) \<in> set (recommended_tools (decide_tool_usage u)) \<Longrightarrow> bound_twice kwargs = None"
  by (auto simp: decide_tool_usage_def Let_def github_recommendation_def
        document_search_recommendation_def text_analysis_recommendation_def bound_twice_def
        split: if_splits)

lemma execute_tool_raises_outside:
  "bound_twice kwargs = None \<Longrightarrow> execute_tool clock tm n kwargs w = (Inl x, tm', w') \<Longrightarrow>
   \<exists>c s. x = BaseExc c s"
  by (auto simp: execute_tool_def Let_def
        split: option.splits if_splits prod.splits sum.splits py_raise.splits)

lemma execute_recommended_tools_raises_outside:
  "execute_recommended_tools clock tm recommended w = (Inl x, tm', w') \<Longrightarrow>
   (\<And>n kwargs. (n, kwargs) \<in> set recommended \<Longrightarrow> bound_twice kwargs = None) \<Longrightarrow>
   \<exists>c s. x = BaseExc c s"
proof (induction recommended arbitrary: tm w)
  case Nil
  then show ?case by simp
next
  case (Cons first rest)
  obtain n kwargs where f: "first = (n, kwargs)" by (cases first) auto
  obtain r tm1 w1 where e: "execute_tool clock tm n kwargs w = (r, tm1, w1)"
    by (cases "execute_tool clock tm n kwargs w") auto
  have b: "bound_twice kwargs = None" using Cons.prems(2) [of n kwargs] f by simp
  show ?case
  proof (cases r)
    case (Inl y)
    from e Inl have "execute_tool clock tm n kwargs w = (Inl y, tm1, w1)" by simp
    from execute_tool_raises_outside [OF b this] obtain c s where y: "y = BaseExc c s"
      by blast
    have "x = y" using Cons.prems(1) f e Inl by simp
    with y show ?thesis by simp
  next
    case (Inr res)
    obtain rs tm2 w2 where m: "execute_recommended_tools clock tm1 rest w1 = (rs, tm2, w2)"
      by (cases "execute_recommended_tools clock tm1 rest w1") auto
    with Cons.prems(1) f e Inr have "rs = Inl x" "tm2 = tm'" "w2 = w'"
      by (auto split: sum.splits)
    with m have "execute_recommended_tools clock tm1 rest w1 = (Inl x, tm', w')" by simp
    moreover have "bound_twice kw = None" if "(n', kw) \<in> set rest" for n' kw
      using Cons.prems(2) [of n' kw] that by simp
    ultimately show ?thesis by (rule Cons.IH)
  qed
qed

lemma simple_retrieval_raises:
  "retrieve_documents (vector_store (rag_chain a)) u 5 (Float 0) w = (Inl x, w1) \<Longrightarrow>
   fst (generate_simple_response report a u w) = Inl x"
  by (simp add: generate_simple_response_def process_query_def)

lemma simple_llm_raises:
  "retrieve_documents (vector_store (rag_chain a)) u 5 (Float 0) w = (Inr found, w1) \<Longrightarrow>
   generate_response (llm_client (rag_chain a))
     (query_messages (rag_chain a) (Some (conversation_id a)) rag_qa_template
        (format_context found) u) w1 = (Inl (Exc e1), w2) \<Longrightarrow>
   generate_response (llm_client (rag_chain a))
     [(''system'', fallback_system_prompt), (''user'', u)] w2 = (Inl (Exc e2), w3) \<Longrightarrow>
   fst (generate_simple_response report a u w) =
     Inr \<lparr>response = apology @ exn_str e2, tools_used = [],
          response_error = Some (exn_str e2), rag_results = None, fallback_response = True,
          combined_context = False\<rparr>"
  by (simp add: generate_simple_response_def process_query_def templates_def Let_def)

lemma with_tools_rendering_raises:
  "render_results render u tool_results (tool_manager a) w = (Inl x, tm, w1) \<Longrightarrow>
   fst (generate_response_with_tools report render a u tool_results w) = Inl x"
  by (simp add: generate_response_with_tools_def)

lemma with_tools_retrieval_raises:
  "render_results render u tool_results (tool_manager a) w = (Inr (parts, used), tm, w1) \<Longrightarrow>
   retrieve_documents (vector_store (rag_chain a)) u 5 (Float 0) w1 = (Inl x, w2) \<Longrightarrow>
   fst (generate_response_with_tools report render a u tool_results w) = Inl x"
  by (simp add: generate_response_with_tools_def process_query_def Let_def)

lemma with_tools_llm_raises_once:
  "render_results render u tool_results (tool_manager a) w = (Inr ([], used), tm, w1) \<Longrightarrow>
   retrieve_documents (vector_store (rag_chain a)) u 5 (Float 0) w1 = (Inr found, w2) \<Longrightarrow>
   generate_response (llm_client (rag_chain a))
     (query_messages (rag_chain a) (Some (conversation_id a)) rag_qa_template
        (format_context found) u) w2 = (Inl (Exc e1), w3) \<Longrightarrow>
   fst (generate_response_with_tools report render a u tool_results w) =
     Inr \<lparr>response = ''I encountered an issue generating a response: '' @ exn_str e1,
          tools_used = used, response_error = Some (exn_str e1), rag_results = None,
          fallback_response = False, combined_context = False\<rparr>"
  by (simp add: generate_response_with_tools_def process_query_def templates_def Let_def)

lemma with_tools_llm_raises_twice:
  "render_results render u tool_results (tool_manager a) w = (Inr (parts, used), tm, w1) \<Longrightarrow>
   parts \<noteq> [] \<Longrightarrow>
   retrieve_documents (vector_store (rag_chain a)) u 5 (Float 0) w1 = (Inr found, w2) \<Longrightarrow>
   generate_response (llm_client (rag_chain a))
     (query_messages (rag_chain a) (Some (conversation_id a)) rag_qa_template
        (format_context found) u) w2 = (Inl (Exc e1), w3) \<Longrightarrow>
   generate_response (llm_client (rag_chain a))
     [(''system'', combined_system_prompt),
      (''user'', combined_user_prompt u [] (tool_context_of parts))] w3 = (Inl (Exc e2), w4) \<Longrightarrow>
   fst (generate_response_with_tools report render a u tool_results w) =
     Inr \<lparr>response = ''I encountered an issue generating a response: '' @ exn_str e2,
          tools_used = used, response_error = Some (exn_str e2), rag_results = None,
          fallback_response = False, combined_context = False\<rparr>"
  by (simp add: generate_response_with_tools_def process_query_def templates_def Let_def)

lemma respond_simple:
  "\<not> (with_tools \<and> use_tools (decide_tool_usage u)) \<Longrightarrow>
   respond report render clock a u with_tools w = generate_simple_response report a u w"
  by (auto simp: respond_def Let_def)

lemma respond_tools_raise:
  "with_tools \<and> use_tools (decide_tool_usage u) \<Longrightarrow>
   execute_recommended_tools clock (tool_manager a) (recommended_tools (decide_tool_usage u)) w
     = (Inl x, tm1, w1) \<Longrightarrow>
   fst (respond report render clock a u with_tools w) = Inl x"
  by (simp add: respond_def Let_def)

lemma respond_tools_return:
  "with_tools \<and> use_tools (decide_tool_usage u) \<Longrightarrow>
   execute_recommended_tools clock (tool_manager a) (recommended_tools (decide_tool_usage u)) w
     = (Inr tool_results, tm1, w1) \<Longrightarrow>
   clock w1 = (updated, w2) \<Longrightarrow>
   respond report render clock a u with_tools w =
     generate_response_with_tools report render
       (a\<lparr>tool_manager := tm1,
          memory := update_working_memory (memory a) ''recent_tool_results''
                      (VList (map model_dump tool_results)) updated\<rparr>)
       u tool_results w2"
  by (simp add: respond_def Let_def)

lemma process_request_answers:
  assumes c: "clock w = (start_time, w0)" "clock w0 = (t1, w1)" "clock w1 = (t2, w2)"
    and r: "fst (respond report render clock
                (agent\<lparr>memory :=
                         add_to_short_term (memory agent)
                           [(''type'', VStr ''user_input''), (''content'', VStr user_input),
                            (''conversation_id'', VStr (conversation_id agent))] t1 t2\<rparr>)
                user_input with_tools w2) = Inr answer"
  shows "\<exists>res. fst (process_request report render clock agent user_input with_tools w) = Inr res
               \<and> dict_get res ''success'' = Some (VBool True)
               \<and> dict_get res ''response'' = Some (VStr (response answer))
               \<and> dict_get res ''tools_used'' = Some (VList (map VStr (tools_used answer)))"
proof -
  let ?agent0 = "agent\<lparr>memory :=
                          add_to_short_term (memory agent)
                            [(''type'', VStr ''user_input''), (''content'', VStr user_input),
                             (''conversation_id'', VStr (conversation_id agent))] t1 t2\<rparr>"
  obtain agent1 w3 where
    o: "respond report render clock ?agent0 user_input with_tools w2 = (Inr answer, agent1, w3)"
    using r by (cases "respond report render clock ?agent0 user_input with_tools w2") auto
  obtain t3 w4 where c3: "clock w3 = (t3, w4)" by (cases "clock w3") auto
  obtain t4 w5 where c4: "clock w4 = (t4, w5)" by (cases "clock w4") auto
  obtain t5 w6 where c5: "clock w5 = (t5, w6)" by (cases "clock w5") auto
  show ?thesis
    by (simp add: process_request_def c o c3 c4 c5 Let_def dict_get_def)
qed

lemma process_request_reports:
  assumes c: "clock w = (start_time, w0)" "clock w0 = (t1, w1)" "clock w1 = (t2, w2)"
    and r: "fst (respond report render clock
                (agent\<lparr>memory :=
                         add_to_short_term (memory agent)
                           [(''type'', VStr ''user_input''), (''content'', VStr user_input),
                            (''conversation_id'', VStr (conversation_id agent))] t1 t2\<rparr>)
                user_input with_tools w2) = Inl (Exc e)"
  shows "\<exists>res. fst (process_request report render clock agent user_input with_tools w) = Inr res
               \<and> dict_get res ''success'' = Some (VBool False)
               \<and> dict_get res ''error'' = Some (VStr (exn_str e))"
proof -
  let ?agent0 = "agent\<lparr>memory :=
                          add_to_short_term (memory agent)
                            [(''type'', VStr ''user_input''), (''content'', VStr user_input),
                             (''conversation_id'', VStr (conversation_id agent))] t1 t2\<rparr>"
  obtain agent1 w3 where
    o: "respond report render clock ?agent0 user_input with_tools w2 = (Inl (Exc e), agent1, w3)"
    using r by (cases "respond report render clock ?agent0 user_input with_tools w2") auto
  obtain t3 w4 where c3: "clock w3 = (t3, w4)" by (cases "clock w3") auto
  obtain t4 w5 where c4: "clock w4 = (t4, w5)" by (cases "clock w4") auto
  obtain t5 w6 where c5: "clock w5 = (t5, w6)" by (cases "clock w5") auto
  show ?thesis
    by (simp add: process_request_def c o c3 c4 c5 Let_def dict_get_def)
qed

lemma process_request_raises:
  assumes c: "clock w = (start_time, w0)" "clock w0 = (t1, w1)" "clock w1 = (t2, w2)"
    and r: "fst (respond report render clock
                (agent\<lparr>memory :=
                         add_to_short_term (memory agent)
                           [(''type'', VStr ''user_input''), (''content'', VStr user_input),
                            (''conversation_id'', VStr (conversation_id agent))] t1 t2\<rparr>)
                user_input with_tools w2) = Inl (BaseExc c s)"
  shows "fst (process_request report render clock agent user_input with_tools w)
           = Inl (BaseExc c s)"
proof -
  let ?agent0 = "agent\<lparr>memory :=
                          add_to_short_term (memory agent)
                            [(''type'', VStr ''user_input''), (''content'', VStr user_input),
                             (''conversation_id'', VStr (conversation_id agent))] t1 t2\<rparr>"
  obtain agent1 w3 where
    o: "respond report render clock ?agent0 user_input with_tools w2
          = (Inl (BaseExc c s), agent1, w3)"
    using r by (cases "respond report render clock ?agent0 user_input with_tools w2") auto
  show ?thesis
    by (simp add: process_request_def c o Let_def)
qed

text \<open>
  Claim C2, as amended.  The LLM raises an exception of a class under \<^verbatim>\<open>Exception\<close> on every
  call; \<open>w2\<close> is the world after the three readings of the clock that open the turn.  The
  outcome of \<^verbatim>\<open>process_request\<close> is fixed by what the other steps of this turn do, each at
  the world in which the turn reaches it.

  Without tools: when the retrieval for the user input returns, the outcome is a dict with
  \<^verbatim>\<open>success = True\<close> whose \<^verbatim>\<open>response\<close> is the apology followed by the string of the exception
  that the second call of the model raised; when the retrieval raises an exception under
  \<^verbatim>\<open>Exception\<close>, the outcome is a dict with \<^verbatim>\<open>success = False\<close> and that exception's string as
  \<^verbatim>\<open>error\<close>; when it raises an exception outside \<^verbatim>\<open>Exception\<close>, \<^verbatim>\<open>process_request\<close> raises it.

  With tools: an exception leaves the execution of the recommended tools only when it is
  outside \<^verbatim>\<open>Exception\<close>, and \<^verbatim>\<open>process_request\<close> raises it.  When the tools have returned
  their results, an exception of the rendering or of the retrieval gives the dict with
  \<^verbatim>\<open>success = False\<close> when it is under \<^verbatim>\<open>Exception\<close> and is raised by \<^verbatim>\<open>process_request\<close> when it
  is not; when both return, the outcome is a dict with \<^verbatim>\<open>success = True\<close> whose \<^verbatim>\<open>response\<close>
  ends with the string of the exception that the last call of the model raised.

  The cases cover every course of a turn, so the dict has \<^verbatim>\<open>success = False\<close> exactly when
  the retrieval or the rendering of this turn raised an exception under \<^verbatim>\<open>Exception\<close>.
\<close>

theorem process_request_llm_raises:
  assumes llm: "\<forall>messages w. \<exists>e w'.
                  generate_response (llm_client (rag_chain agent)) messages w = (Inl (Exc e), w')"
    and clocks: "clock w = (start_time, w0)" "clock w0 = (t1, w1)" "clock w1 = (t2, w2)"
  shows
    "let outcome = fst (process_request report render clock agent user_input with_tools w);
         index = vector_store (rag_chain agent);
         client = llm_client (rag_chain agent);
         by_tools = (with_tools \<and> use_tools (decide_tool_usage user_input));
         recommended = recommended_tools (decide_tool_usage user_input);
         failure = (\<lambda>e. \<exists>res. outcome = Inr res
                              \<and> dict_get res ''success'' = Some (VBool False)
                              \<and> dict_get res ''error'' = Some (VStr (exn_str e)));
         degraded = (\<lambda>said. \<exists>res. outcome = Inr res
                                  \<and> dict_get res ''success'' = Some (VBool True)
                                  \<and> dict_get res ''response'' = Some (VStr said));
         asked = (\<lambda>found. query_messages (rag_chain agent) (Some (conversation_id agent))
                             rag_qa_template (format_context found) user_input)
     in (\<not> by_tools \<longrightarrow>
           retrieve_documents index user_input 5 (Float 0) w2 = (Inr found, w3) \<longrightarrow>
           (\<exists>e1 w4 e2 w5.
               generate_response client (asked found) w3 = (Inl (Exc e1), w4)
               \<and> generate_response client
                     [(''system'', fallback_system_prompt), (''user'', user_input)] w4
                   = (Inl (Exc e2), w5)
               \<and> degraded (apology @ exn_str e2)))
        \<and> (\<not> by_tools \<longrightarrow>
              retrieve_documents index user_input 5 (Float 0) w2 = (Inl (Exc e), w3) \<longrightarrow>
              failure e)
        \<and> (\<not> by_tools \<longrightarrow>
              retrieve_documents index user_input 5 (Float 0) w2 = (Inl (BaseExc c s), w3) \<longrightarrow>
              outcome = Inl (BaseExc c s))
        \<and> (by_tools \<longrightarrow>
              execute_recommended_tools clock (tool_manager agent) recommended w2
                = (Inl x, tm1, w3) \<longrightarrow>
              outcome = Inl x \<and> (\<exists>c s. x = BaseExc c s))
        \<and> (by_tools \<longrightarrow>
              execute_recommended_tools clock (tool_manager agent) recommended w2
                = (Inr tool_results, tm1, w3) \<longrightarrow>
              clock w3 = (updated, w4) \<longrightarrow>
              render_results render user_input tool_results tm1 w4 = (Inl (Exc e), tm2, w5) \<longrightarrow>
              failure e)
        \<and> (by_tools \<longrightarrow>
              execute_recommended_tools clock (tool_manager agent) recommended w2
                = (Inr tool_results, tm1, w3) \<longrightarrow>
              clock w3 = (updated, w4) \<longrightarrow>
              render_results render user_input tool_results tm1 w4
                = (Inl (BaseExc c s), tm2, w5) \<longrightarrow>
              outcome = Inl (BaseExc c s))
        \<and> (by_tools \<longrightarrow>
              execute_recommended_tools clock (tool_manager agent) recommended w2
                = (Inr tool_results, tm1, w3) \<longrightarrow>
              clock w3 = (updated, w4) \<longrightarrow>
              render_results render user_input tool_results tm1 w4
                = (Inr (parts, used), tm2, w5) \<longrightarrow>
              retrieve_documents index user_input 5 (Float 0) w5 = (Inl (Exc e), w6) \<longrightarrow>
              failure e)
        \<and> (by_tools \<longrightarrow>
              execute_recommended_tools clock (tool_manager agent) recommended w2
                = (Inr tool_results, tm1, w3) \<longrightarrow>
              clock w3 = (updated, w4) \<longrightarrow>
              render_results render user_input tool_results tm1 w4
                = (Inr (parts, used), tm2, w5) \<longrightarrow>
              retrieve_documents index user_input 5 (Float 0) w5
                = (Inl (BaseExc c s), w6) \<longrightarrow>
              outcome = Inl (BaseExc c s))
        \<and> (by_tools \<longrightarrow>
              execute_recommended_tools clock (tool_manager agent) recommended w2
                = (Inr tool_results, tm1, w3) \<longrightarrow>
              clock w3 = (updated, w4) \<longrightarrow>
              render_results render user_input tool_results tm1 w4
                = (Inr (parts, used), tm2, w5) \<longrightarrow>
              retrieve_documents index user_input 5 (Float 0) w5 = (Inr found, w6) \<longrightarrow>
              (\<exists>e1 w7.
                  generate_response client (asked found) w6 = (Inl (Exc e1), w7)
                  \<and> (if parts = []
                      then degraded (''I encountered an issue generating a response: ''
                                      @ exn_str e1)
                      else (\<exists>e2 w8.
                               generate_response client
                                   [(''system'', combined_system_prompt),
                                    (''user'', combined_user_prompt user_input []
                                                 (tool_context_of parts))] w7
                                 = (Inl (Exc e2), w8)
                               \<and> degraded (''I encountered an issue generating a response: ''
                                             @ exn_str e2)))))"
proof -
  let ?agent0 = "agent\<lparr>memory :=
                          add_to_short_term (memory agent)
                            [(''type'', VStr ''user_input''), (''content'', VStr user_input),
                             (''conversation_id'', VStr (conversation_id agent))] t1 t2\<rparr>"
  let ?outcome = "fst (process_request report render clock agent user_input with_tools w)"
  let ?index = "vector_store (rag_chain agent)"
  let ?client = "llm_client (rag_chain agent)"
  let ?by_tools = "with_tools \<and> use_tools (decide_tool_usage user_input)"
  let ?recommended = "recommended_tools (decide_tool_usage user_input)"
  let ?asked = "\<lambda>found. query_messages (rag_chain agent) (Some (conversation_id agent))
                          rag_qa_template (format_context found) user_input"
  let ?respond = "fst (respond report render clock ?agent0 user_input with_tools w2)"
  let ?apology = "''I encountered an issue generating a response: ''"
  have failure: "\<exists>res. ?outcome = Inr res \<and> dict_get res ''success'' = Some (VBool False)
                       \<and> dict_get res ''error'' = Some (VStr (exn_str e))"
    if "?respond = Inl (Exc e)" for e
    using process_request_reports [OF clocks that] .
  have raised: "?outcome = Inl (BaseExc c s)" if "?respond = Inl (BaseExc c s)" for c s
    using process_request_raises [OF clocks that] .
  have degraded: "\<exists>res. ?outcome = Inr res \<and> dict_get res ''success'' = Some (VBool True)
                        \<and> dict_get res ''response'' = Some (VStr said)"
    if "?respond = Inr answer" "response answer = said" for answer said
    using process_request_answers [OF clocks that(1)] that(2) by auto
  have simple: "?respond = fst (generate_simple_response report ?agent0 user_input w2)"
    if "\<not> ?by_tools"
    by (simp add: respond_simple [OF that])
  have tools: "?respond =
                 fst (generate_response_with_tools report render
                        (?agent0\<lparr>tool_manager := tm1,
                                 memory := update_working_memory (memory ?agent0)
                                             ''recent_tool_results''
                                             (VList (map model_dump tool_results)) updated\<rparr>)
                        user_input tool_results w4)"
    if bt: "?by_tools"
      and ex: "execute_recommended_tools clock (tool_manager agent) ?recommended w2
                 = (Inr tool_results, tm1, w3)"
      and ck: "clock w3 = (updated, w4)"
    for tool_results tm1 w3 updated w4
  proof -
    from ex have "execute_recommended_tools clock (tool_manager ?agent0) ?recommended w2
                    = (Inr tool_results, tm1, w3)" by simp
    from respond_tools_return [OF bt this ck] show ?thesis by simp
  qed
  have simple_raises: "?respond = Inl x"
    if nt: "\<not> ?by_tools"
      and r: "retrieve_documents ?index user_input 5 (Float 0) w2 = (Inl x, w3)"
    for x w3
  proof -
    from r have "retrieve_documents (vector_store (rag_chain ?agent0)) user_input 5 (Float 0) w2
                   = (Inl x, w3)" by simp
    from simple_retrieval_raises [OF this] simple [OF nt] show ?thesis by simp
  qed
  have rendering_raises: "?respond = Inl x"
    if bt: "?by_tools"
      and ex: "execute_recommended_tools clock (tool_manager agent) ?recommended w2
                 = (Inr tool_results, tm1, w3)"
      and ck: "clock w3 = (updated, w4)"
      and rr: "render_results render user_input tool_results tm1 w4 = (Inl x, tm2, w5)"
    for tool_results tm1 w3 updated w4 x tm2 w5
  proof -
    let ?agent1 = "?agent0\<lparr>tool_manager := tm1,
                            memory := update_working_memory (memory ?agent0)
                                        ''recent_tool_results''
                                        (VList (map model_dump tool_results)) updated\<rparr>"
    from rr have "render_results render user_input tool_results (tool_manager ?agent1) w4
                    = (Inl x, tm2, w5)" by simp
    from with_tools_rendering_raises [OF this] tools [OF bt ex ck] show ?thesis by simp
  qed
  have retrieval_raises: "?respond = Inl x"
    if bt: "?by_tools"
      and ex: "execute_recommended_tools clock (tool_manager agent) ?recommended w2
                 = (Inr tool_results, tm1, w3)"
      and ck: "clock w3 = (updated, w4)"
      and rr: "render_results render user_input tool_results tm1 w4
                 = (Inr (parts, used), tm2, w5)"
      and r: "retrieve_documents ?index user_input 5 (Float 0) w5 = (Inl x, w6)"
    for tool_results tm1 w3 updated w4 parts used tm2 w5 x w6
  proof -
    let ?agent1 = "?agent0\<lparr>tool_manager := tm1,
                            memory := update_working_memory (memory ?agent0)
                                        ''recent_tool_results''
                                        (VList (map model_dump tool_results)) updated\<rparr>"
    from rr have a: "render_results render user_input tool_results (tool_manager ?agent1) w4
                       = (Inr (parts, used), tm2, w5)" by simp
    from r have b: "retrieve_documents (vector_store (rag_chain ?agent1)) user_input 5 (Float 0)
                      w5 = (Inl x, w6)" by simp
    from with_tools_retrieval_raises [OF a b] tools [OF bt ex ck] show ?thesis by simp
  qed
  have c1: "\<exists>e1 w4 e2 w5.
               generate_response ?client (?asked found) w3 = (Inl (Exc e1), w4)
               \<and> generate_response ?client
                     [(''system'', fallback_system_prompt), (''user'', user_input)] w4
                   = (Inl (Exc e2), w5)
               \<and> (\<exists>res. ?outcome = Inr res \<and> dict_get res ''success'' = Some (VBool True)
                         \<and> dict_get res ''response'' = Some (VStr (apology @ exn_str e2)))"
    if nt: "\<not> ?by_tools"
      and r: "retrieve_documents ?index user_input 5 (Float 0) w2 = (Inr found, w3)"
    for found w3
  proof -
    from llm obtain e1 w4 where
      g1: "generate_response ?client (?asked found) w3 = (Inl (Exc e1), w4)" by blast
    from llm obtain e2 w5 where
      g2: "generate_response ?client
             [(''system'', fallback_system_prompt), (''user'', user_input)] w4
           = (Inl (Exc e2), w5)" by blast
    from r have a: "retrieve_documents (vector_store (rag_chain ?agent0)) user_input 5 (Float 0)
                      w2 = (Inr found, w3)" by simp
    from g1 have b: "generate_response (llm_client (rag_chain ?agent0))
                       (query_messages (rag_chain ?agent0) (Some (conversation_id ?agent0))
                          rag_qa_template (format_context found) user_input) w3
                     = (Inl (Exc e1), w4)" by simp
    from g2 have c: "generate_response (llm_client (rag_chain ?agent0))
                       [(''system'', fallback_system_prompt), (''user'', user_input)] w4
                     = (Inl (Exc e2), w5)" by simp
    from simple_llm_raises [OF a b c] simple [OF nt]
    have "?respond = Inr \<lparr>response = apology @ exn_str e2, tools_used = [],
                           response_error = Some (exn_str e2), rag_results = None,
                           fallback_response = True, combined_context = False\<rparr>"
      by simp
    from degraded [OF this] g1 g2 show ?thesis by fastforce
  qed
  have c2: "\<exists>res. ?outcome = Inr res \<and> dict_get res ''success'' = Some (VBool False)
                  \<and> dict_get res ''error'' = Some (VStr (exn_str e))"
    if nt: "\<not> ?by_tools"
      and r: "retrieve_documents ?index user_input 5 (Float 0) w2 = (Inl (Exc e), w3)"
    for e w3
    using failure [OF simple_raises [OF nt r]] .
  have c3: "?outcome = Inl (BaseExc c s)"
    if nt: "\<not> ?by_tools"
      and r: "retrieve_documents ?index user_input 5 (Float 0) w2 = (Inl (BaseExc c s), w3)"
    for c s w3
    using raised [OF simple_raises [OF nt r]] .
  have c4: "?outcome = Inl x \<and> (\<exists>c s. x = BaseExc c s)"
    if bt: "?by_tools"
      and ex: "execute_recommended_tools clock (tool_manager agent) ?recommended w2
                 = (Inl x, tm1, w3)"
    for x tm1 w3
  proof -
    from execute_recommended_tools_raises_outside [OF ex] recommended_not_bound_twice
    obtain c s where x: "x = BaseExc c s" by blast
    from ex have "execute_recommended_tools clock (tool_manager ?agent0) ?recommended w2
                    = (Inl x, tm1, w3)" by simp
    from respond_tools_raise [OF bt this] have "?respond = Inl x" .
    with x raised show ?thesis by simp
  qed
  have c5: "\<exists>res. ?outcome = Inr res \<and> dict_get res ''success'' = Some (VBool False)
                  \<and> dict_get res ''error'' = Some (VStr (exn_str e))"
    if bt: "?by_tools"
      and ex: "execute_recommended_tools clock (tool_manager agent) ?recommended w2
                 = (Inr tool_results, tm1, w3)"
      and ck: "clock w3 = (updated, w4)"
      and rr: "render_results render user_input tool_results tm1 w4 = (Inl (Exc e), tm2, w5)"
    for tool_results tm1 w3 updated w4 e tm2 w5
    using failure [OF rendering_raises [OF bt ex ck rr]] .
  have c6: "?outcome = Inl (BaseExc c s)"
    if bt: "?by_tools"
      and ex: "execute_recommended_tools clock (tool_manager agent) ?recommended w2
                 = (Inr tool_results, tm1, w3)"
      and ck: "clock w3 = (updated, w4)"
      and rr: "render_results render user_input tool_results tm1 w4
                 = (Inl (BaseExc c s), tm2, w5)"
    for tool_results tm1 w3 updated w4 c s tm2 w5
    using raised [OF rendering_raises [OF bt ex ck rr]] .
  have c7: "\<exists>res. ?outcome = Inr res \<and> dict_get res ''success'' = Some (VBool False)
                  \<and> dict_get res ''error'' = Some (VStr (exn_str e))"
    if bt: "?by_tools"
      and ex: "execute_recommended_tools clock (tool_manager agent) ?recommended w2
                 = (Inr tool_results, tm1, w3)"
      and ck: "clock w3 = (updated, w4)"
      and rr: "render_results render user_input tool_results tm1 w4
                 = (Inr (parts, used), tm2, w5)"
      and r: "retrieve_documents ?index user_input 5 (Float 0) w5 = (Inl (Exc e), w6)"
    for tool_results tm1 w3 updated w4 parts used tm2 w5 e w6
    using failure [OF retrieval_raises [OF bt ex ck rr r]] .
  have c8: "?outcome = Inl (BaseExc c s)"
    if bt: "?by_tools"
      and ex: "execute_recommended_tools clock (tool_manager agent) ?recommended w2
                 = (Inr tool_results, tm1, w3)"
      and ck: "clock w3 = (updated, w4)"
      and rr: "render_results render user_input tool_results tm1 w4
                 = (Inr (parts, used), tm2, w5)"
      and r: "retrieve_documents ?index user_input 5 (Float 0) w5 = (Inl (BaseExc c s), w6)"
    for tool_results tm1 w3 updated w4 parts used tm2 w5 c s w6
    using raised [OF retrieval_raises [OF bt ex ck rr r]] .
  have c9: "\<exists>e1 w7.
               generate_response ?client (?asked found) w6 = (Inl (Exc e1), w7)
               \<and> (if parts = []
                   then (\<exists>res. ?outcome = Inr res
                               \<and> dict_get res ''success'' = Some (VBool True)
                               \<and> dict_get res ''response''
                                   = Some (VStr (?apology @ exn_str e1)))
                   else (\<exists>e2 w8.
                            generate_response ?client
                                [(''system'', combined_system_prompt),
                                 (''user'', combined_user_prompt user_input []
                                              (tool_context_of parts))] w7
                              = (Inl (Exc e2), w8)
                            \<and> (\<exists>res. ?outcome = Inr res
                                      \<and> dict_get res ''success'' = Some (VBool True)
                                      \<and> dict_get res ''response''
                                          = Some (VStr (?apology @ exn_str e2)))))"
    if bt: "?by_tools"
      and ex: "execute_recommended_tools clock (tool_manager agent) ?recommended w2
                 = (Inr tool_results, tm1, w3)"
      and ck: "clock w3 = (updated, w4)"
      and rr: "render_results render user_input tool_results tm1 w4
                 = (Inr (parts, used), tm2, w5)"
      and r: "retrieve_documents ?index user_input 5 (Float 0) w5 = (Inr found, w6)"
    for tool_results tm1 w3 updated w4 parts used tm2 w5 found w6
  proof -
    let ?agent1 = "?agent0\<lparr>tool_manager := tm1,
                            memory := update_working_memory (memory ?agent0)
                                        ''recent_tool_results''
                                        (VList (map model_dump tool_results)) updated\<rparr>"
    from llm obtain e1 w7 where
      g1: "generate_response ?client (?asked found) w6 = (Inl (Exc e1), w7)" by blast
    from llm obtain e2 w8 where
      g2: "generate_response ?client
             [(''system'', combined_system_prompt),
              (''user'', combined_user_prompt user_input [] (tool_context_of parts))] w7
           = (Inl (Exc e2), w8)" by blast
    from r have b: "retrieve_documents (vector_store (rag_chain ?agent1)) user_input 5 (Float 0)
                      w5 = (Inr found, w6)" by simp
    from g1 have c: "generate_response (llm_client (rag_chain ?agent1))
                       (query_messages (rag_chain ?agent1) (Some (conversation_id ?agent1))
                          rag_qa_template (format_context found) user_input) w6
                     = (Inl (Exc e1), w7)" by simp
    from g2 have d: "generate_response (llm_client (rag_chain ?agent1))
                       [(''system'', combined_system_prompt),
                        (''user'', combined_user_prompt user_input [] (tool_context_of parts))] w7
                     = (Inl (Exc e2), w8)" by simp
    show ?thesis
    proof (cases "parts = []")
      case True
      from rr True
      have a: "render_results render user_input tool_results (tool_manager ?agent1) w4
                 = (Inr ([], used), tm2, w5)" by simp
      from with_tools_llm_raises_once [OF a b c] tools [OF bt ex ck]
      have "?respond = Inr \<lparr>response = ?apology @ exn_str e1,
                             tools_used = used, response_error = Some (exn_str e1),
                             rag_results = None, fallback_response = False,
                             combined_context = False\<rparr>"
        by simp
      from degraded [OF this] g1 True show ?thesis by fastforce
    next
      case False
      from rr
      have a: "render_results render user_input tool_results (tool_manager ?agent1) w4
                 = (Inr (parts, used), tm2, w5)" by simp
      from with_tools_llm_raises_twice [OF a False b c d] tools [OF bt ex ck]
      have "?respond = Inr \<lparr>response = ?apology @ exn_str e2,
                             tools_used = used, response_error = Some (exn_str e2),
                             rag_results = None, fallback_response = False,
                             combined_context = False\<rparr>"
        by simp
      from degraded [OF this] g1 g2 False show ?thesis by fastforce
    qed
  qed
  show ?thesis
    unfolding Let_def
    apply (intro conjI impI)
    subgoal premises p using c1 [OF p] .
    subgoal premises p using c2 [OF p] .
    subgoal premises p using c3 [OF p] .
    subgoal premises p using c4 [OF p] by simp
    subgoal premises p using c4 [OF p] by simp
    subgoal premises p using c5 [OF p] .
    subgoal premises p using c6 [OF p] .
    subgoal premises p using c7 [OF p] .
    subgoal premises p using c8 [OF p] .
    subgoal premises p using c9 [OF p] .
    done
qed

lemma failing_client_raises:
  "generate_response (Some failing_client) messages w =
     (Inl (Exc (PyExn ''ValueError'' ''Failed to generate response: service unavailable'')), w)"
  by (simp add: generate_response_def failing_client_def)

lemma example_agents:
  "llm_client (rag_chain example_agent) = Some failing_client"
  "llm_client (rag_chain down_agent) = Some failing_client"
  "llm_client (rag_chain interrupted_agent) = Some failing_client"
  "llm_client (rag_chain cancelled_agent) = Some failing_client"
  "llm_client (rag_chain analysis_agent) = Some failing_client"
  "vector_store (rag_chain example_agent) = example_store"
  "vector_store (rag_chain down_agent) = down_store"
  "vector_store (rag_chain interrupted_agent) = interrupted_store"
  "vector_store (rag_chain cancelled_agent) = example_store"
  "vector_store (rag_chain analysis_agent) = example_store"
  "tool_manager example_agent = example_manager"
  by (simp_all add: example_agent_def down_agent_def interrupted_agent_def cancelled_agent_def
        analysis_agent_def example_chain_def)

lemma hello_not_blank: "\<not> blank ''hello''"
  by (simp add: blank_def py_strip_def py_isspace_def)

lemma hello_no_tools: "use_tools (decide_tool_usage ''hello'') = False"
  by code_simp

lemma analyze_decision:
  "decide_tool_usage ''analyze this'' =
     \<lparr>use_tools = True,
      recommended_tools =
        [(''text_analysis'', [(''text'', VStr ''analyze this''), (''analysis_type'', VStr ''basic'')])],
      reasoning = ''Found 1 relevant tools for this request''\<rparr>"
  by code_simp

lemma analyze_not_blank: "\<not> blank ''analyze this''"
  by (simp add: blank_def py_strip_def py_isspace_def)

lemma example_retrievals:
  "retrieve_documents example_store ''hello'' 5 (Float 0) w = (Inr example_results, Suc w)"
  "retrieve_documents example_store ''analyze this'' 5 (Float 0) w
     = (Inr example_results, Suc w)"
  "retrieve_documents down_store ''hello'' 5 (Float 0) w
     = (Inl (Exc (PyExn ''ConnectionError'' ''index down'')), Suc w)"
  "retrieve_documents interrupted_store ''hello'' 5 (Float 0) w
     = (Inl (BaseExc ''KeyboardInterrupt'' []), Suc w)"
  by (simp_all add: retrieve_documents_def hello_not_blank analyze_not_blank example_store_def
        down_store_def interrupted_store_def)

lemma example_executions:
  "execute_recommended_tools example_now (tool_manager example_agent)
     (recommended_tools (decide_tool_usage ''analyze this'')) w
   = (Inr [failed_result ''text_analysis''
             (''Tool '' @ apostrophe @ ''text_analysis'' @ apostrophe @ '' not found'')],
      example_manager, w)"
  "execute_recommended_tools example_now (tool_manager cancelled_agent)
     (recommended_tools (decide_tool_usage ''analyze this'')) w
   = (Inl (BaseExc ''CancelledError'' []), tool_manager cancelled_agent, Suc w)"
  "execute_recommended_tools example_now (tool_manager analysis_agent)
     (recommended_tools (decide_tool_usage ''analyze this'')) w
   = (Inr [example_success],
      record_execution (tool_manager analysis_agent) ''text_analysis''
        [(''text'', VStr ''analyze this''), (''analysis_type'', VStr ''basic'')]
        example_success example_clock, Suc w)"
  by (simp_all add: analyze_decision execute_tool_def bound_twice_def get_tool_def
        example_agent_def cancelled_agent_def analysis_agent_def example_manager_def
        cancelled_tool_def echo_tool_def example_now_def)

lemma example_renderings:
  "render_results example_render u [failed_result n message] tm w = (Inr ([], []), tm, w)"
  "render_results unreadable_render u [example_success] tm w =
     (Inl (Exc (PyExn ''AttributeError''
                  (apostrophe @ ''str'' @ apostrophe @ '' object has no attribute ''
                   @ apostrophe @ ''get'' @ apostrophe))), tm, w)"
  "render_results example_render u [example_success] tm w = (Inr ([], [''echo'']), tm, w)"
  by (simp_all add: failed_result_def example_success_def example_render_def
        unreadable_render_def)

text \<open>
  Claim C2 as stated fails: with an LLM that raises on every call the result of
  \<^verbatim>\<open>process_request\<close> has \<^verbatim>\<open>success = True\<close>, not \<^verbatim>\<open>False\<close>; the error text is in its
  response.
\<close>

theorem llm_failure_reported_as_success:
  "fst (failing_client [(''user'', ''hello'')] 0)
     = Inl (Exc (PyExn ''RuntimeError'' ''service unavailable''))
   \<and> (\<exists>res. fst (process_request example_report example_render example_now example_agent
                    ''hello'' True 0) = Inr res
            \<and> dict_get res ''success'' = Some (VBool True)
            \<and> dict_get res ''success'' \<noteq> Some (VBool False)
            \<and> dict_get res ''response'' =
                Some (VStr (apology @ ''Failed to generate response: service unavailable'')))"
  by (simp add: process_request_def respond_def hello_no_tools generate_simple_response_def
        process_query_def example_retrievals templates_def failing_client_raises
        example_now_def example_agent_def example_chain_def Let_def dict_get_def
        failing_client_def)

theorem process_request_llm_raises_witness:
  "(\<forall>messages w. \<exists>e w'.
      generate_response (llm_client (rag_chain example_agent)) messages w = (Inl (Exc e), w'))
   \<and> example_now 0 = (example_clock, 0)
   \<and> \<not> (True \<and> use_tools (decide_tool_usage ''hello''))
   \<and> retrieve_documents (vector_store (rag_chain example_agent)) ''hello'' 5 (Float 0) 0
        = (Inr example_results, 1)
   \<and> (\<exists>res. fst (process_request example_report example_render example_now example_agent
                    ''hello'' True 0) = Inr res
            \<and> dict_get res ''success'' = Some (VBool True)
            \<and> dict_get res ''response'' =
                Some (VStr (apology @ ''Failed to generate response: service unavailable'')))
   \<and> (\<forall>messages w. \<exists>e w'.
         generate_response (llm_client (rag_chain down_agent)) messages w = (Inl (Exc e), w'))
   \<and> retrieve_documents (vector_store (rag_chain down_agent)) ''hello'' 5 (Float 0) 0
        = (Inl (Exc (PyExn ''ConnectionError'' ''index down'')), 1)
   \<and> (\<exists>res. fst (process_request example_report example_render example_now down_agent
                    ''hello'' True 0) = Inr res
            \<and> dict_get res ''success'' = Some (VBool False)
            \<and> dict_get res ''error'' = Some (VStr ''index down''))
   \<and> (\<forall>messages w. \<exists>e w'.
         generate_response (llm_client (rag_chain interrupted_agent)) messages w
           = (Inl (Exc e), w'))
   \<and> retrieve_documents (vector_store (rag_chain interrupted_agent)) ''hello'' 5 (Float 0) 0
        = (Inl (BaseExc ''KeyboardInterrupt'' []), 1)
   \<and> fst (process_request example_report example_render example_now interrupted_agent
             ''hello'' True 0) = Inl (BaseExc ''KeyboardInterrupt'' [])
   \<and> (True \<and> use_tools (decide_tool_usage ''analyze this''))
   \<and> (\<forall>messages w. \<exists>e w'.
         generate_response (llm_client (rag_chain cancelled_agent)) messages w
           = (Inl (Exc e), w'))
   \<and> execute_recommended_tools example_now (tool_manager cancelled_agent)
        (recommended_tools (decide_tool_usage ''analyze this'')) 0
        = (Inl (BaseExc ''CancelledError'' []), tool_manager cancelled_agent, 1)
   \<and> fst (process_request example_report example_render example_now cancelled_agent
             ''analyze this'' True 0) = Inl (BaseExc ''CancelledError'' [])
   \<and> (\<forall>messages w. \<exists>e w'.
         generate_response (llm_client (rag_chain analysis_agent)) messages w
           = (Inl (Exc e), w'))
   \<and> execute_recommended_tools example_now (tool_manager analysis_agent)
        (recommended_tools (decide_tool_usage ''analyze this'')) 0
        = (Inr [example_success],
           record_execution (tool_manager analysis_agent) ''text_analysis''
             [(''text'', VStr ''analyze this''), (''analysis_type'', VStr ''basic'')]
             example_success example_clock, 1)
   \<and> example_now 1 = (example_clock, 1)
   \<and> render_results unreadable_render ''analyze this'' [example_success]
        (record_execution (tool_manager analysis_agent) ''text_analysis''
           [(''text'', VStr ''analyze this''), (''analysis_type'', VStr ''basic'')]
           example_success example_clock) 1
        = (Inl (Exc (PyExn ''AttributeError''
                       (apostrophe @ ''str'' @ apostrophe @ '' object has no attribute ''
                        @ apostrophe @ ''get'' @ apostrophe))),
           record_execution (tool_manager analysis_agent) ''text_analysis''
             [(''text'', VStr ''analyze this''), (''analysis_type'', VStr ''basic'')]
             example_success example_clock, 1)
   \<and> (\<exists>res. fst (process_request example_report unreadable_render example_now analysis_agent
                    ''analyze this'' True 0) = Inr res
            \<and> dict_get res ''success'' = Some (VBool False)
            \<and> dict_get res ''error'' =
                Some (VStr (apostrophe @ ''str'' @ apostrophe @ '' object has no attribute ''
                            @ apostrophe @ ''get'' @ apostrophe)))
   \<and> execute_recommended_tools example_now (tool_manager example_agent)
        (recommended_tools (decide_tool_usage ''analyze this'')) 0
        = (Inr [failed_result ''text_analysis''
                  (''Tool '' @ apostrophe @ ''text_analysis'' @ apostrophe @ '' not found'')],
           example_manager, 0)
   \<and> render_results example_render ''analyze this''
        [failed_result ''text_analysis''
           (''Tool '' @ apostrophe @ ''text_analysis'' @ apostrophe @ '' not found'')]
        example_manager 0
        = (Inr ([], []), example_manager, 0)
   \<and> retrieve_documents (vector_store (rag_chain example_agent)) ''analyze this'' 5 (Float 0) 0
        = (Inr example_results, 1)
   \<and> (\<exists>res. fst (process_request example_report example_render example_now example_agent
                    ''analyze this'' True 0) = Inr res
            \<and> dict_get res ''success'' = Some (VBool True)
            \<and> dict_get res ''response'' =
                Some (VStr ''I encountered an issue generating a response: Failed to generate response: service unavailable''))"
proof -
  have llm: "\<forall>messages w. \<exists>e w'.
      generate_response (llm_client (rag_chain a)) messages w = (Inl (Exc e), w')"
    if "llm_client (rag_chain a) = Some failing_client" for a :: "nat Agent"
    by (simp add: that failing_client_raises)
  have ck: "example_now w = (example_clock, w)" for w
    by (simp add: example_now_def)
  have nt: "\<not> (True \<and> use_tools (decide_tool_usage ''hello''))"
    by (simp add: hello_no_tools)
  have bt: "True \<and> use_tools (decide_tool_usage ''analyze this'')"
    by (simp add: analyze_decision)
  have r1: "retrieve_documents (vector_store (rag_chain example_agent)) ''hello'' 5 (Float 0) 0
              = (Inr example_results, 1)"
    by (simp add: example_agents example_retrievals)
  have r2: "retrieve_documents (vector_store (rag_chain down_agent)) ''hello'' 5 (Float 0) 0
              = (Inl (Exc (PyExn ''ConnectionError'' ''index down'')), 1)"
    by (simp add: example_agents example_retrievals)
  have r3: "retrieve_documents (vector_store (rag_chain interrupted_agent)) ''hello'' 5
              (Float 0) 0 = (Inl (BaseExc ''KeyboardInterrupt'' []), 1)"
    by (simp add: example_agents example_retrievals)
  have r9: "retrieve_documents (vector_store (rag_chain example_agent)) ''analyze this'' 5
              (Float 0) 0 = (Inr example_results, 1)"
    by (simp add: example_agents example_retrievals)
  have x4: "execute_recommended_tools example_now (tool_manager cancelled_agent)
              (recommended_tools (decide_tool_usage ''analyze this'')) 0
            = (Inl (BaseExc ''CancelledError'' []), tool_manager cancelled_agent, 1)"
    by (simp add: example_executions)
  have x5: "execute_recommended_tools example_now (tool_manager analysis_agent)
              (recommended_tools (decide_tool_usage ''analyze this'')) 0
            = (Inr [example_success],
               record_execution (tool_manager analysis_agent) ''text_analysis''
                 [(''text'', VStr ''analyze this''), (''analysis_type'', VStr ''basic'')]
                 example_success example_clock, 1)"
    by (simp add: example_executions)
  have x9: "execute_recommended_tools example_now (tool_manager example_agent)
              (recommended_tools (decide_tool_usage ''analyze this'')) 0
            = (Inr [failed_result ''text_analysis''
                      (''Tool '' @ apostrophe @ ''text_analysis'' @ apostrophe
                       @ '' not found'')],
               example_manager, 0)"
    by (simp add: example_executions)
  have d5: "render_results unreadable_render ''analyze this'' [example_success]
              (record_execution (tool_manager analysis_agent) ''text_analysis''
                 [(''text'', VStr ''analyze this''), (''analysis_type'', VStr ''basic'')]
                 example_success example_clock) 1
            = (Inl (Exc (PyExn ''AttributeError''
                           (apostrophe @ ''str'' @ apostrophe @ '' object has no attribute ''
                            @ apostrophe @ ''get'' @ apostrophe))),
               record_execution (tool_manager analysis_agent) ''text_analysis''
                 [(''text'', VStr ''analyze this''), (''analysis_type'', VStr ''basic'')]
                 example_success example_clock, 1)"
    by (rule example_renderings)
  have d9: "render_results example_render ''analyze this''
              [failed_result ''text_analysis''
                 (''Tool '' @ apostrophe @ ''text_analysis'' @ apostrophe @ '' not found'')]
              example_manager 0
            = (Inr ([], []), example_manager, 0)"
    by (rule example_renderings)
  note hello =
    process_request_llm_raises
      [where agent = example_agent and clock = example_now and w = 0
         and report = example_report and render = example_render
         and user_input = "''hello''" and with_tools = True,
       OF llm [OF example_agents(1)] ck ck ck, unfolded Let_def]
  note down =
    process_request_llm_raises
      [where agent = down_agent and clock = example_now and w = 0
         and report = example_report and render = example_render
         and user_input = "''hello''" and with_tools = True,
       OF llm [OF example_agents(2)] ck ck ck, unfolded Let_def]
  note interrupted =
    process_request_llm_raises
      [where agent = interrupted_agent and clock = example_now and w = 0
         and report = example_report and render = example_render
         and user_input = "''hello''" and with_tools = True,
       OF llm [OF example_agents(3)] ck ck ck, unfolded Let_def]
  note cancelled =
    process_request_llm_raises
      [where agent = cancelled_agent and clock = example_now and w = 0
         and report = example_report and render = example_render
         and user_input = "''analyze this''" and with_tools = True,
       OF llm [OF example_agents(4)] ck ck ck, unfolded Let_def]
  note unreadable =
    process_request_llm_raises
      [where agent = analysis_agent and clock = example_now and w = 0
         and report = example_report and render = unreadable_render
         and user_input = "''analyze this''" and with_tools = True,
       OF llm [OF example_agents(5)] ck ck ck, unfolded Let_def]
  note analyze =
    process_request_llm_raises
      [where agent = example_agent and clock = example_now and w = 0
         and report = example_report and render = example_render
         and user_input = "''analyze this''" and with_tools = True,
       OF llm [OF example_agents(1)] ck ck ck, unfolded Let_def]
  have a1: "\<exists>res. fst (process_request example_report example_render example_now example_agent
                    ''hello'' True 0) = Inr res
            \<and> dict_get res ''success'' = Some (VBool True)
            \<and> dict_get res ''response'' =
                Some (VStr (apology @ ''Failed to generate response: service unavailable''))"
    using hello [THEN conjunct1, rule_format, OF nt r1]
    by (auto simp: example_agents failing_client_raises)
  have a2: "\<exists>res. fst (process_request example_report example_render example_now down_agent
                    ''hello'' True 0) = Inr res
            \<and> dict_get res ''success'' = Some (VBool False)
            \<and> dict_get res ''error'' = Some (VStr ''index down'')"
    using down [THEN conjunct2, THEN conjunct1, rule_format, OF nt r2] by simp
  have a3: "fst (process_request example_report example_render example_now interrupted_agent
             ''hello'' True 0) = Inl (BaseExc ''KeyboardInterrupt'' [])"
    using interrupted [THEN conjunct2, THEN conjunct2, THEN conjunct1, rule_format, OF nt r3] .
  have a4: "fst (process_request example_report example_render example_now cancelled_agent
             ''analyze this'' True 0) = Inl (BaseExc ''CancelledError'' [])"
    using cancelled [THEN conjunct2, THEN conjunct2, THEN conjunct2, THEN conjunct1,
                     rule_format, OF bt x4] by simp
  have a5: "\<exists>res. fst (process_request example_report unreadable_render example_now
                         analysis_agent ''analyze this'' True 0) = Inr res
            \<and> dict_get res ''success'' = Some (VBool False)
            \<and> dict_get res ''error'' =
                Some (VStr (apostrophe @ ''str'' @ apostrophe @ '' object has no attribute ''
                            @ apostrophe @ ''get'' @ apostrophe))"
    using unreadable [THEN conjunct2, THEN conjunct2, THEN conjunct2, THEN conjunct2,
                      THEN conjunct1, rule_format, OF bt x5 ck d5] by simp
  have a9: "\<exists>res. fst (process_request example_report example_render example_now example_agent
                    ''analyze this'' True 0) = Inr res
            \<and> dict_get res ''success'' = Some (VBool True)
            \<and> dict_get res ''response'' =
                Some (VStr ''I encountered an issue generating a response: Failed to generate response: service unavailable'')"
    using analyze [THEN conjunct2, THEN conjunct2, THEN conjunct2, THEN conjunct2,
                   THEN conjunct2, THEN conjunct2, THEN conjunct2, THEN conjunct2,
                   rule_format, OF bt x9 ck d9 r9]
    by (auto simp: example_agents failing_client_raises)
  show ?thesis
    using llm [OF example_agents(1)] llm [OF example_agents(2)] llm [OF example_agents(3)]
      llm [OF example_agents(4)] llm [OF example_agents(5)]
      ck [of 0] ck [of 1] nt bt r1 r2 r3 r9 x4 x5 x9 d5 d9 a1 a2 a3 a4 a5 a9
    by blast
qed

end
